(* ===== verification/Prelude.thy ===== *)
theory Prelude
  imports Main "HOL-Library.Multiset"
begin

text \<open>
  Shared vocabulary of the development: the named collections that carry the
  component proofs, and the generic facts on lists, association lists and
  options that the models of the record store and of the server actions use.
  Nothing in this theory is specific to the admissions CRM.
\<close>

named_theorems store_simps \<open>equations of the record-store primitives\<close>
named_theorems wf_simps \<open>facts unfolding the well-formedness of the store\<close>

subsection \<open>Lists searched by key\<close>

lemma find_Some_in_set [intro]: "find P xs = Some x \<Longrightarrow> x \<in> set xs"
  by (induction xs) (auto split: if_splits)

lemma find_Some_prop: "find P xs = Some x \<Longrightarrow> P x"
  by (induction xs) (auto split: if_splits)

lemma find_None_iff': "find P xs = None \<longleftrightarrow> (\<forall>x \<in> set xs. \<not> P x)"
  by (induction xs) auto

lemma find_unique_key:
  assumes "distinct (map k xs)" and "x \<in> set xs"
  shows "find (\<lambda>y. k y = k x) xs = Some x"
  using assms by (induction xs) (auto split: if_splits)

lemma find_key_eq:
  assumes "distinct (map k xs)" and "x \<in> set xs" and "k x = v"
  shows "find (\<lambda>y. k y = v) xs = Some x"
  using find_unique_key [OF assms(1,2)] assms(3) by simp

lemma distinct_map_key_eq:
  "distinct (map k xs) \<Longrightarrow> x \<in> set xs \<Longrightarrow> y \<in> set xs \<Longrightarrow> k x = k y \<Longrightarrow> x = y"
  by (metis distinct_map inj_onD)

subsection \<open>Keys kept by maps and filters\<close>

lemma map_key_preserving:
  assumes "\<And>x. k (f x) = k x"
  shows "map k (map f xs) = map k xs"
  using assms by (induction xs) auto

lemma distinct_map_filter' [intro]:
  "distinct (map k xs) \<Longrightarrow> distinct (map k (filter P xs))"
  by (induction xs) auto

lemma set_map_filter_sub: "set (map k (filter P xs)) \<subseteq> set (map k xs)"
  by auto

lemma length_filter_conj_le:
  "length (filter (\<lambda>x. P x \<and> Q x) xs) \<le> length (filter P xs)"
  by (induction xs) auto

subsection \<open>Enumerations stored by name\<close>

text \<open>
  The store keeps an enumeration value as its name; reading it back looks the
  name up among all values.
\<close>

definition parse_enum :: "('a \<Rightarrow> string) \<Rightarrow> 'a list \<Rightarrow> string \<Rightarrow> 'a option" where
  "parse_enum name vals s = find (\<lambda>v. name v = s) vals"

lemma parse_enum_name:
  assumes "distinct (map name vals)" and "v \<in> set vals"
  shows "parse_enum name vals (name v) = Some v"
  using find_unique_key [OF assms] by (simp add: parse_enum_def)

lemma parse_enum_Some:
  "parse_enum name vals s = Some v \<Longrightarrow> name v = s \<and> v \<in> set vals"
  unfolding parse_enum_def using find_Some_in_set find_Some_prop by fastforce

subsection \<open>Counting\<close>

lemma sum_list_count_filter:
  "(\<Sum>k\<leftarrow>ks. length (filter (\<lambda>x. f x = k) xs)) = length xs"
  if "distinct ks" and "\<forall>x \<in> set xs. f x \<in> set ks"
  using that
proof (induction xs)
  case Nil
  then show ?case by (simp add: sum_list_triv)
next
  case (Cons x xs)
  have "(\<Sum>k\<leftarrow>ks. length (filter (\<lambda>y. f y = k) (x # xs)))
      = (\<Sum>k\<leftarrow>ks. (if f x = k then 1 else 0)) + (\<Sum>k\<leftarrow>ks. length (filter (\<lambda>y. f y = k) xs))"
    unfolding sum_list_addf [symmetric] by (rule arg_cong [where f = sum_list]) auto
  also have "(\<Sum>k\<leftarrow>ks. (if f x = k then 1 else (0::nat))) = 1"
    using Cons.prems by (simp add: sum_list_distinct_conv_sum_set)
  finally show ?case using Cons by simp
qed

end
