(* ===== verification/Js_Values.thy ===== *)
theory Js_Values
  imports Prelude
begin

text \<open>
  The fragment of JavaScript value semantics that the server actions depend
  on: spreadsheet cells as produced by the sheet parser (strings, numbers,
  booleans, or an absent key), JavaScript truthiness and the short-circuit
  \<open>||\<close>, \<open>String(v)\<close> on a cell, and \<open>String.prototype.trim\<close>.
  Characters are the bytes of Isabelle's \<open>char\<close>; the whitespace that
  \<open>trim\<close> removes is its ASCII part.
\<close>

datatype cell = CStr string | CNum int | CBool bool

type_synonym row = "(string \<times> cell) list"

definition row_get :: "row \<Rightarrow> string \<Rightarrow> cell option" where
  "row_get r k = map_of r k"

fun truthy :: "cell option \<Rightarrow> bool" where
  "truthy None = False"
| "truthy (Some (CStr s)) = (s \<noteq> [])"
| "truthy (Some (CNum n)) = (n \<noteq> 0)"
| "truthy (Some (CBool b)) = b"

definition js_or :: "cell option \<Rightarrow> cell option \<Rightarrow> cell option" where
  "js_or a b = (if truthy a then a else b)"

subsection \<open>Decimal rendering of numbers\<close>

fun nat_digits :: "nat \<Rightarrow> string" where
  "nat_digits n =
     (if n < 10 then [char_of (48 + n)]
      else nat_digits (n div 10) @ [char_of (48 + n mod 10)])"

declare nat_digits.simps [simp del]

definition js_string_of_int :: "int \<Rightarrow> string" where
  "js_string_of_int i =
     (if i < 0 then CHR ''-'' # nat_digits (nat (- i)) else nat_digits (nat i))"

fun js_string :: "cell \<Rightarrow> string" where
  "js_string (CStr s) = s"
| "js_string (CNum n) = js_string_of_int n"
| "js_string (CBool b) = (if b then ''true'' else ''false'')"

definition digits_val :: "string \<Rightarrow> nat" where
  "digits_val s = foldl (\<lambda>acc c. 10 * acc + (of_char c - 48)) 0 s"

subsection \<open>Whitespace trimming\<close>

definition js_whitespace :: "char \<Rightarrow> bool" where
  "js_whitespace c \<longleftrightarrow> of_char c \<in> {9, 10, 11, 12, 13, 32 :: nat}"

definition js_trim :: "string \<Rightarrow> string" where
  "js_trim s = rev (dropWhile js_whitespace (rev (dropWhile js_whitespace s)))"

subsection \<open>Lemmas\<close>

lemma digits_val_append_digit:
  "d < 10 \<Longrightarrow> digits_val (s @ [char_of (48 + d)]) = 10 * digits_val s + d"
  by (simp add: digits_val_def)

lemma digits_val_nat_digits: "digits_val (nat_digits n) = n"
proof (induction n rule: nat_digits.induct)
  case (1 n)
  show ?case
  proof (cases "n < 10")
    case True
    then show ?thesis by (simp add: nat_digits.simps [of n] digits_val_def)
  next
    case False
    then have "digits_val (nat_digits n) = 10 * digits_val (nat_digits (n div 10)) + n mod 10"
      by (simp add: nat_digits.simps [of n] digits_val_append_digit)
    with False "1.IH" show ?thesis by simp
  qed
qed

lemma nat_digits_inj: "nat_digits m = nat_digits n \<longleftrightarrow> m = n"
  by (metis digits_val_nat_digits)

lemma nat_digits_not_Nil: "nat_digits n \<noteq> []"
  by (subst nat_digits.simps) simp

lemma rev_dropWhile_rev_prefix:
  "rev (dropWhile P (rev xs)) @ rev (takeWhile P (rev xs)) = xs"
  by (metis rev_append rev_rev_ident takeWhile_dropWhile_id)

lemma js_trim_no_leading: "js_trim s \<noteq> [] \<Longrightarrow> \<not> js_whitespace (hd (js_trim s))"
proof -
  let ?a = "dropWhile js_whitespace s"
  assume ne: "js_trim s \<noteq> []"
  then have "hd (js_trim s) = hd ?a"
    using rev_dropWhile_rev_prefix [of js_whitespace ?a]
    by (metis hd_append2 js_trim_def)
  moreover have "?a \<noteq> []"
  proof
    assume "?a = []"
    with ne show False by (simp add: js_trim_def)
  qed
  ultimately show ?thesis by (simp add: hd_dropWhile)
qed

lemma js_trim_no_trailing: "js_trim s \<noteq> [] \<Longrightarrow> \<not> js_whitespace (last (js_trim s))"
  by (simp add: js_trim_def last_rev hd_dropWhile)

lemma js_trim_idem: "js_trim (js_trim s) = js_trim s"
proof -
  have lead: "dropWhile js_whitespace (js_trim s) = js_trim s"
    by (metis dropWhile_eq_self_iff js_trim_no_leading)
  have trail: "dropWhile js_whitespace (rev (js_trim s)) = rev (js_trim s)"
    by (metis dropWhile_eq_self_iff hd_rev js_trim_no_trailing rev_is_Nil_conv)
  show ?thesis unfolding js_trim_def [of "js_trim s"] using lead trail by simp
qed

end
