(* ===== verification/Data_Model.thy ===== *)
theory Data_Model
  imports Js_Values
begin

text \<open>
  The data of the CRM as the Prisma client hands it to the server code:
  the three enumerations (role, call status, future interest) with the names
  under which they are stored and submitted in forms, the \<open>User\<close> and
  \<open>Student\<close> rows, the record store holding both tables, the session user
  (\<open>session.user\<close> of next-auth), submitted form data, and the errors and
  replies of the server actions.
\<close>

subsection \<open>Enumerations\<close>

datatype role = SUPER_ADMIN | ADMIN | FACULTY

datatype call_status =
  NOT_CALLED | RINGING | CALL_BACK | INTERESTED | NOT_INTERESTED | ADMISSION_TAKEN

datatype interest = MCA | MBA | BCA | BTECH | NURSING | DIPLOMA | OTHER

fun role_name :: "role \<Rightarrow> string" where
  "role_name SUPER_ADMIN = ''SUPER_ADMIN''"
| "role_name ADMIN = ''ADMIN''"
| "role_name FACULTY = ''FACULTY''"

fun call_status_name :: "call_status \<Rightarrow> string" where
  "call_status_name NOT_CALLED = ''NOT_CALLED''"
| "call_status_name RINGING = ''RINGING''"
| "call_status_name CALL_BACK = ''CALL_BACK''"
| "call_status_name INTERESTED = ''INTERESTED''"
| "call_status_name NOT_INTERESTED = ''NOT_INTERESTED''"
| "call_status_name ADMISSION_TAKEN = ''ADMISSION_TAKEN''"

fun interest_name :: "interest \<Rightarrow> string" where
  "interest_name MCA = ''MCA''"
| "interest_name MBA = ''MBA''"
| "interest_name BCA = ''BCA''"
| "interest_name BTECH = ''BTECH''"
| "interest_name NURSING = ''NURSING''"
| "interest_name DIPLOMA = ''DIPLOMA''"
| "interest_name OTHER = ''OTHER''"

text \<open>\<open>Object.values(Role)\<close>, \<open>Object.values(CallStatus)\<close>, \<open>Object.values(Interest)\<close>.\<close>

definition role_values :: "role list" where
  "role_values = [SUPER_ADMIN, ADMIN, FACULTY]"

definition call_status_values :: "call_status list" where
  "call_status_values =
     [NOT_CALLED, RINGING, CALL_BACK, INTERESTED, NOT_INTERESTED, ADMISSION_TAKEN]"

definition interest_values :: "interest list" where
  "interest_values = [MCA, MBA, BCA, BTECH, NURSING, DIPLOMA, OTHER]"

definition parse_role :: "string \<Rightarrow> role option" where
  "parse_role = parse_enum role_name role_values"

definition parse_call_status :: "string \<Rightarrow> call_status option" where
  "parse_call_status = parse_enum call_status_name call_status_values"

definition parse_interest :: "string \<Rightarrow> interest option" where
  "parse_interest = parse_enum interest_name interest_values"

text \<open>Roles are ordered by privilege: \<open>FACULTY < ADMIN < SUPER_ADMIN\<close>.\<close>

fun role_rank :: "role \<Rightarrow> nat" where
  "role_rank FACULTY = 0"
| "role_rank ADMIN = 1"
| "role_rank SUPER_ADMIN = 2"

instantiation role :: linorder
begin

definition less_eq_role :: "role \<Rightarrow> role \<Rightarrow> bool" where
  "less_eq_role a b \<longleftrightarrow> role_rank a \<le> role_rank b"

definition less_role :: "role \<Rightarrow> role \<Rightarrow> bool" where
  "less_role a b \<longleftrightarrow> role_rank a < role_rank b"

instance
proof
  fix a b c :: role
  show "a < b \<longleftrightarrow> a \<le> b \<and> \<not> b \<le> a"
    by (auto simp: less_eq_role_def less_role_def)
  show "a \<le> a" by (simp add: less_eq_role_def)
  show "a \<le> b \<Longrightarrow> b \<le> c \<Longrightarrow> a \<le> c" by (simp add: less_eq_role_def)
  show "a \<le> b \<Longrightarrow> b \<le> a \<Longrightarrow> a = b"
    by (cases a; cases b) (simp_all add: less_eq_role_def)
  show "a \<le> b \<or> b \<le> a" by (auto simp: less_eq_role_def)
qed

end

subsection \<open>Rows and the store\<close>

type_synonym uid = string
type_synonym sid = string

text \<open>
  A bcrypt hash, abstracted to the password it was computed from:
  \<open>bcrypt.compare p h\<close> holds exactly when \<open>h\<close> was computed from \<open>p\<close>;
  salt and cost are not modelled.
\<close>

datatype pw_hash = Bcrypt string

record user =
  u_id :: uid
  u_name :: string
  u_email :: string
  u_password :: pw_hash
  u_role :: role
  u_created :: nat

record student =
  s_id :: sid
  s_name :: string
  s_phone :: string
  s_address :: "string option"
  s_prev_course :: "string option"
  s_call_status :: call_status
  s_future_interest :: "interest option"
  s_notes :: "string option"
  s_last_updated_by :: "string option"
  s_uploaded_by :: uid
  s_created :: nat

text \<open>The shape of one row handed to \<open>db.student.createMany\<close> by the upload action.\<close>

record student_input =
  i_name :: string
  i_phone :: string
  i_address :: "string option"
  i_prev_course :: "string option"
  i_uploaded_by :: uid

text \<open>
  The record store: both tables in insertion order, the counter from which
  fresh row identifiers are drawn (the model of \<open>cuid()\<close>), and the clock
  that stamps \<open>createdAt\<close>.
\<close>

record store =
  st_users :: "user list"
  st_students :: "student list"
  st_next :: nat
  st_clock :: nat

subsection \<open>Sessions, forms, errors and replies\<close>

text \<open>
  \<open>session.user\<close> as the session callback of \<open>auth.ts\<close> builds it: an
  identifier (the token subject), the display name from the token, and the
  role read from the store on every request (absent when no such user exists).
\<close>

record principal =
  p_id :: "uid option"
  p_name :: "string option"
  p_role :: "role option"

type_synonym form = "(string \<times> string) list"

definition form_get :: "form \<Rightarrow> string \<Rightarrow> string option" where
  "form_get f k = map_of f k"

datatype error =
    Unauthorized
  | Forbidden
  | TypeError
  | AdminsOnlyRemoveFaculty
  | PasswordTooShort
  | UserNotFound
  | AdminsOnlyResetFaculty
  | IllegalArguments
  | RecordNotFound
  | UniqueViolation
  | InvalidValue

datatype reply = RVoid | RSuccess | RError string

type_synonym 'a result = "error + 'a"

subsection \<open>Example data\<close>

text \<open>
  A small store used by the witnesses: the seeded super admin, one admin and
  one faculty member, and one student uploaded by the faculty member.
\<close>

definition demo_super :: user where
  "demo_super = \<lparr>u_id = ''c0'', u_name = ''Super Admin'', u_email = ''admin@college.edu'',
     u_password = Bcrypt ''admin123'', u_role = SUPER_ADMIN, u_created = 0\<rparr>"

definition demo_admin :: user where
  "demo_admin = \<lparr>u_id = ''c1'', u_name = ''Asha'', u_email = ''asha@college.edu'',
     u_password = Bcrypt ''secret1'', u_role = ADMIN, u_created = 1\<rparr>"

definition demo_faculty :: user where
  "demo_faculty = \<lparr>u_id = ''c2'', u_name = ''Ravi'', u_email = ''ravi@college.edu'',
     u_password = Bcrypt ''secret2'', u_role = FACULTY, u_created = 2\<rparr>"

definition demo_student :: student where
  "demo_student = \<lparr>s_id = ''c3'', s_name = ''Meera'', s_phone = ''9000000001'',
     s_address = None, s_prev_course = Some ''BCA'', s_call_status = NOT_CALLED,
     s_future_interest = None, s_notes = None, s_last_updated_by = None,
     s_uploaded_by = ''c2'', s_created = 3\<rparr>"

definition demo_store :: store where
  "demo_store = \<lparr>st_users = [demo_super, demo_admin, demo_faculty],
     st_students = [demo_student], st_next = 4, st_clock = 4\<rparr>"

definition principal_of :: "user \<Rightarrow> principal" where
  "principal_of u = \<lparr>p_id = Some (u_id u), p_name = Some (u_name u), p_role = Some (u_role u)\<rparr>"

lemmas demo_defs = demo_super_def demo_admin_def demo_faculty_def demo_student_def
  demo_store_def principal_of_def

subsection \<open>Lemmas\<close>

lemma parse_role_name [simp]: "parse_role (role_name r) = Some r"
  by (cases r) (simp_all add: parse_role_def parse_enum_def role_values_def)

lemma parse_call_status_name [simp]: "parse_call_status (call_status_name c) = Some c"
  by (cases c) (simp_all add: parse_call_status_def parse_enum_def call_status_values_def)

lemma parse_interest_name [simp]: "parse_interest (interest_name i) = Some i"
  by (cases i) (simp_all add: parse_interest_def parse_enum_def interest_values_def)

lemma role_rank_less_iff [simp]: "a < b \<longleftrightarrow> role_rank a < role_rank b"
  by (simp add: less_role_def)

lemma role_not_faculty_iff: "r \<noteq> FACULTY \<longleftrightarrow> r = SUPER_ADMIN \<or> r = ADMIN"
  by (cases r) simp_all

lemma role_cases_le_admin: "r \<noteq> SUPER_ADMIN \<Longrightarrow> r \<le> ADMIN"
  by (cases r) (simp_all add: less_eq_role_def)

end
