(* ===== verification/Record_Store.thy ===== *)
theory Record_Store
  imports Data_Model
begin

text \<open>
  The record store as the server code uses it through the Prisma client
  (\<open>db.user\<close>, \<open>db.student\<close>): lookups by unique key, create with the
  unique-email constraint, update and delete by identifier (failing with
  \<open>RecordNotFound\<close> on a missing row), \<open>createMany\<close> with
  \<open>skipDuplicates\<close> under the unique \<open>(name, phone)\<close> key of students,
  counting and grouping. Fresh identifiers come from a counter, and the
  well-formedness of the store (unique keys, identifiers drawn from the
  counter) is kept by every primitive.
\<close>

subsection \<open>Identifiers and lookups\<close>

definition id_of :: "nat \<Rightarrow> string" where
  "id_of k = CHR ''c'' # nat_digits k"

definition fresh_id :: "store \<Rightarrow> string" where
  "fresh_id s = id_of (st_next s)"

definition find_user :: "store \<Rightarrow> uid \<Rightarrow> user option" where
  "find_user s i = find (\<lambda>u. u_id u = i) (st_users s)"

definition find_user_by_email :: "store \<Rightarrow> string \<Rightarrow> user option" where
  "find_user_by_email s e = find (\<lambda>u. u_email u = e) (st_users s)"

definition find_student :: "store \<Rightarrow> sid \<Rightarrow> student option" where
  "find_student s i = find (\<lambda>x. s_id x = i) (st_students s)"

subsection \<open>Users\<close>

definition new_user :: "store \<Rightarrow> string \<Rightarrow> string \<Rightarrow> pw_hash \<Rightarrow> role \<Rightarrow> user" where
  "new_user s n e pw r =
     \<lparr>u_id = fresh_id s, u_name = n, u_email = e, u_password = pw, u_role = r,
      u_created = st_clock s\<rparr>"

definition user_create :: "store \<Rightarrow> string \<Rightarrow> string \<Rightarrow> pw_hash \<Rightarrow> role \<Rightarrow> store result" where
  "user_create s n e pw r =
     (if find_user_by_email s e \<noteq> None then Inl UniqueViolation
      else Inr (s\<lparr>st_users := st_users s @ [new_user s n e pw r],
                  st_next := Suc (st_next s), st_clock := Suc (st_clock s)\<rparr>))"

definition user_delete :: "store \<Rightarrow> uid \<Rightarrow> store result" where
  "user_delete s i =
     (if find_user s i = None then Inl RecordNotFound
      else Inr (s\<lparr>st_users := filter (\<lambda>u. u_id u \<noteq> i) (st_users s)\<rparr>))"

definition user_update :: "store \<Rightarrow> uid \<Rightarrow> (user \<Rightarrow> user) \<Rightarrow> store result" where
  "user_update s i f =
     (if find_user s i = None then Inl RecordNotFound
      else Inr (s\<lparr>st_users := map (\<lambda>u. if u_id u = i then f u else u) (st_users s)\<rparr>))"

subsection \<open>Students\<close>

definition student_update :: "store \<Rightarrow> sid \<Rightarrow> (student \<Rightarrow> student) \<Rightarrow> store result" where
  "student_update s i f =
     (if find_student s i = None then Inl RecordNotFound
      else Inr (s\<lparr>st_students := map (\<lambda>x. if s_id x = i then f x else x) (st_students s)\<rparr>))"

definition student_key :: "student \<Rightarrow> string \<times> string" where
  "student_key x = (s_name x, s_phone x)"

definition new_student :: "store \<Rightarrow> nat \<Rightarrow> student_input \<Rightarrow> student" where
  "new_student s t inp =
     \<lparr>s_id = fresh_id s, s_name = i_name inp, s_phone = i_phone inp,
      s_address = i_address inp, s_prev_course = i_prev_course inp,
      s_call_status = NOT_CALLED, s_future_interest = None, s_notes = None,
      s_last_updated_by = None, s_uploaded_by = i_uploaded_by inp, s_created = t\<rparr>"

definition input_key :: "student_input \<Rightarrow> string \<times> string" where
  "input_key inp = (i_name inp, i_phone inp)"

text \<open>One row of \<open>createMany\<close> with \<open>skipDuplicates\<close>: skipped when its key is taken.\<close>

definition insert_skip :: "nat \<Rightarrow> store \<Rightarrow> student_input \<Rightarrow> store" where
  "insert_skip t s inp =
     (if input_key inp \<in> set (map student_key (st_students s)) then s
      else s\<lparr>st_students := st_students s @ [new_student s t inp], st_next := Suc (st_next s)\<rparr>)"

definition student_create_many :: "store \<Rightarrow> student_input list \<Rightarrow> store" where
  "student_create_many s xs =
     (foldl (insert_skip (st_clock s)) s xs)\<lparr>st_clock := Suc (st_clock s)\<rparr>"

subsection \<open>Queries\<close>

text \<open>\<open>where: {uploadedById: x}\<close>; an undefined \<open>x\<close> places no restriction.\<close>

definition where_uploaded :: "uid option \<Rightarrow> student list \<Rightarrow> student list" where
  "where_uploaded w xs = (case w of None \<Rightarrow> xs | Some u \<Rightarrow> filter (\<lambda>x. s_uploaded_by x = u) xs)"

text \<open>
  \<open>groupBy({by: [field], _count: {_all: true}})\<close>: one group for each distinct
  value of the field among the rows (a missing value is a group of its own),
  with the number of rows holding it. Prisma does not fix the order of the
  groups; the model lists them in the order of \<open>remdups\<close>.
\<close>

definition group_count :: "('a \<Rightarrow> 'k) \<Rightarrow> 'a list \<Rightarrow> ('k \<times> nat) list" where
  "group_count f xs = map (\<lambda>k. (k, length (filter (\<lambda>x. f x = k) xs))) (remdups (map f xs))"

text \<open>\<open>orderBy: {createdAt: 'desc'}\<close>; rows with equal stamps may come in any order.\<close>

definition order_desc :: "('a \<Rightarrow> nat) \<Rightarrow> 'a list \<Rightarrow> 'a list" where
  "order_desc f xs = rev (sort_key f xs)"

subsection \<open>Well-formedness\<close>

definition issued :: "store \<Rightarrow> string set" where
  "issued s = set (map id_of [0..<st_next s])"

definition wf_store :: "store \<Rightarrow> bool" where
  "wf_store s \<longleftrightarrow>
     distinct (map u_id (st_users s)) \<and> distinct (map u_email (st_users s)) \<and>
     distinct (map s_id (st_students s)) \<and> distinct (map student_key (st_students s)) \<and>
     set (map u_id (st_users s)) \<subseteq> issued s \<and> set (map s_id (st_students s)) \<subseteq> issued s"

subsection \<open>Lemmas on identifiers and lookups\<close>

lemma id_of_inj [simp]: "id_of k = id_of m \<longleftrightarrow> k = m"
  by (simp add: id_of_def nat_digits_inj)

lemma fresh_id_not_issued [simp]: "fresh_id s \<notin> issued s"
  by (auto simp: fresh_id_def issued_def)

lemma issued_Suc: "issued (s\<lparr>st_next := Suc (st_next s), st_clock := c\<rparr>) = insert (fresh_id s) (issued s)"
  by (auto simp: issued_def fresh_id_def)

lemma find_user_Some [dest]: "find_user s i = Some u \<Longrightarrow> u \<in> set (st_users s) \<and> u_id u = i"
  unfolding find_user_def using find_Some_in_set find_Some_prop by fastforce

lemma find_user_in_wf:
  "wf_store s \<Longrightarrow> u \<in> set (st_users s) \<Longrightarrow> find_user s (u_id u) = Some u"
  unfolding find_user_def wf_store_def by (blast intro: find_unique_key)

lemma find_user_None_iff: "find_user s i = None \<longleftrightarrow> i \<notin> u_id ` set (st_users s)"
  by (auto simp: find_user_def find_None_iff')

lemma find_student_None_iff: "find_student s i = None \<longleftrightarrow> i \<notin> s_id ` set (st_students s)"
  by (auto simp: find_student_def find_None_iff')

lemma find_user_by_email_None_iff:
  "find_user_by_email s e = None \<longleftrightarrow> e \<notin> u_email ` set (st_users s)"
  by (auto simp: find_user_by_email_def find_None_iff')

subsection \<open>Primitives keep the store well-formed\<close>

lemma wf_store_issued_user: "wf_store s \<Longrightarrow> u \<in> set (st_users s) \<Longrightarrow> u_id u \<in> issued s"
  by (auto simp: wf_store_def)

lemma wf_store_issued_student: "wf_store s \<Longrightarrow> x \<in> set (st_students s) \<Longrightarrow> s_id x \<in> issued s"
  by (auto simp: wf_store_def)

lemma user_create_wf:
  assumes "wf_store s" and "user_create s n e pw r = Inr s'"
  shows "wf_store s'"
proof -
  have e: "e \<notin> u_email ` set (st_users s)" and
    s': "s' = s\<lparr>st_users := st_users s @ [new_user s n e pw r],
                st_next := Suc (st_next s), st_clock := Suc (st_clock s)\<rparr>"
    using assms(2) by (auto simp: user_create_def find_user_by_email_None_iff split: if_splits)
  have "fresh_id s \<notin> u_id ` set (st_users s)"
    using wf_store_issued_user [OF assms(1)] fresh_id_not_issued [of s] by force
  then show ?thesis
    using assms(1) e unfolding s' wf_store_def
    by (auto simp: new_user_def issued_def fresh_id_def)
qed

lemma wf_store_users_keys:
  assumes "wf_store s"
    and "map u_id us = map u_id (st_users s)" and "map u_email us = map u_email (st_users s)"
  shows "wf_store (s\<lparr>st_users := us\<rparr>)"
proof -
  have "set (map u_id us) = set (map u_id (st_users s))" using assms(2) by (rule arg_cong)
  with assms show ?thesis unfolding wf_store_def issued_def by (simp only: store.simps) simp
qed

lemma wf_store_students_keys:
  assumes "wf_store s"
    and "map s_id xs = map s_id (st_students s)"
    and "map student_key xs = map student_key (st_students s)"
  shows "wf_store (s\<lparr>st_students := xs\<rparr>)"
proof -
  have "set (map s_id xs) = set (map s_id (st_students s))" using assms(2) by (rule arg_cong)
  with assms show ?thesis unfolding wf_store_def issued_def by (simp only: store.simps) simp
qed

lemma wf_store_users_filter:
  assumes "wf_store s"
  shows "wf_store (s\<lparr>st_users := filter P (st_users s)\<rparr>)"
proof -
  have "distinct (map u_id (filter P (st_users s)))"
    and "distinct (map u_email (filter P (st_users s)))"
    using assms by (auto simp: wf_store_def intro: distinct_map_filter')
  moreover have "set (map u_id (filter P (st_users s))) \<subseteq> set (map u_id (st_users s))"
    by (rule set_map_filter_sub)
  ultimately show ?thesis using assms unfolding wf_store_def issued_def by auto
qed

lemma user_delete_wf:
  "wf_store s \<Longrightarrow> user_delete s i = Inr s' \<Longrightarrow> wf_store s'"
  by (auto simp: user_delete_def wf_store_users_filter split: if_splits)

lemma user_update_wf:
  assumes "wf_store s" and "user_update s i f = Inr s'"
    and "\<And>u. u_id (f u) = u_id u" and "\<And>u. u_email (f u) = u_email u"
  shows "wf_store s'"
proof -
  let ?g = "\<lambda>u. if u_id u = i then f u else u"
  have s': "s' = s\<lparr>st_users := map ?g (st_users s)\<rparr>"
    using assms(2) by (simp add: user_update_def split: if_splits)
  have "map u_id (map ?g (st_users s)) = map u_id (st_users s)"
    and "map u_email (map ?g (st_users s)) = map u_email (st_users s)"
    by (rule map_key_preserving, simp add: assms(3,4))+
  with assms(1) show ?thesis unfolding s' by (rule wf_store_users_keys)
qed

lemma student_update_wf:
  assumes "wf_store s" and "student_update s i f = Inr s'"
    and "\<And>x. s_id (f x) = s_id x" and "\<And>x. student_key (f x) = student_key x"
  shows "wf_store s'"
proof -
  let ?g = "\<lambda>x. if s_id x = i then f x else x"
  have s': "s' = s\<lparr>st_students := map ?g (st_students s)\<rparr>"
    using assms(2) by (simp add: student_update_def split: if_splits)
  have "map s_id (map ?g (st_students s)) = map s_id (st_students s)"
    and "map student_key (map ?g (st_students s)) = map student_key (st_students s)"
    by (rule map_key_preserving, simp add: assms(3,4))+
  with assms(1) show ?thesis unfolding s' by (rule wf_store_students_keys)
qed

lemma insert_skip_wf:
  assumes "wf_store s"
  shows "wf_store (insert_skip t s inp)"
proof (cases "input_key inp \<in> set (map student_key (st_students s))")
  case True
  then show ?thesis using assms by (simp add: insert_skip_def)
next
  case False
  have "fresh_id s \<notin> s_id ` set (st_students s)"
    using wf_store_issued_student [OF assms] fresh_id_not_issued [of s] by force
  moreover have "fresh_id s \<notin> u_id ` set (st_users s)"
    using wf_store_issued_user [OF assms] fresh_id_not_issued [of s] by force
  ultimately show ?thesis
    using assms False
    by (auto simp: insert_skip_def wf_store_def new_student_def student_key_def issued_def
        fresh_id_def input_key_def)
qed

lemma foldl_insert_skip_wf:
  "wf_store s \<Longrightarrow> wf_store (foldl (insert_skip t) s xs)"
  by (induction xs arbitrary: s) (simp_all add: insert_skip_wf)

lemma wf_store_clock [simp]: "wf_store (s\<lparr>st_clock := c\<rparr>) = wf_store s"
  by (simp add: wf_store_def issued_def)

lemma student_create_many_wf:
  "wf_store s \<Longrightarrow> wf_store (student_create_many s xs)"
  by (simp add: student_create_many_def foldl_insert_skip_wf)

subsection \<open>What \<open>createMany\<close> with \<open>skipDuplicates\<close> does\<close>

lemma student_key_new_student [simp]: "student_key (new_student s t inp) = input_key inp"
  by (simp add: student_key_def new_student_def input_key_def)

lemma insert_skip_users [simp]: "st_users (insert_skip t s inp) = st_users s"
  by (simp add: insert_skip_def)

lemma foldl_insert_skip_users [simp]: "st_users (foldl (insert_skip t) s xs) = st_users s"
  by (induction xs arbitrary: s) simp_all

lemma foldl_insert_skip_appends:
  "\<exists>new. st_students (foldl (insert_skip t) s xs) = st_students s @ new \<and>
     (\<forall>x \<in> set new. \<exists>inp \<in> set xs. s_uploaded_by x = i_uploaded_by inp \<and>
        s_call_status x = NOT_CALLED \<and> s_last_updated_by x = None \<and> s_created x = t)"
proof (induction xs arbitrary: s)
  case Nil
  show ?case by simp
next
  case (Cons inp xs)
  obtain new where new: "st_students (foldl (insert_skip t) (insert_skip t s inp) xs)
      = st_students (insert_skip t s inp) @ new"
    and own: "\<forall>x \<in> set new. \<exists>i \<in> set xs. s_uploaded_by x = i_uploaded_by i \<and>
        s_call_status x = NOT_CALLED \<and> s_last_updated_by x = None \<and> s_created x = t"
    using Cons.IH by blast
  show ?case
  proof (cases "input_key inp \<in> set (map student_key (st_students s))")
    case True
    then have "insert_skip t s inp = s" by (simp add: insert_skip_def)
    then show ?thesis using new own by fastforce
  next
    case False
    then have "st_students (insert_skip t s inp) = st_students s @ [new_student s t inp]"
      by (simp add: insert_skip_def)
    then show ?thesis using new own
      by (intro exI [of _ "new_student s t inp # new"]) (auto simp: new_student_def)
  qed
qed

lemma foldl_insert_skip_keys:
  "student_key ` set (st_students (foldl (insert_skip t) s xs)) =
     student_key ` set (st_students s) \<union> input_key ` set xs"
  by (induction xs arbitrary: s) (auto simp: insert_skip_def)

lemma foldl_insert_skip_present:
  "input_key ` set xs \<subseteq> set (map student_key (st_students s)) \<Longrightarrow>
     st_students (foldl (insert_skip t) s xs) = st_students s"
proof (induction xs arbitrary: s)
  case Nil
  then show ?case by simp
next
  case (Cons inp xs)
  then have "insert_skip t s inp = s" by (simp add: insert_skip_def)
  with Cons show ?case by simp
qed

lemma student_create_many_students:
  "st_students (student_create_many s xs) = st_students (foldl (insert_skip (st_clock s)) s xs)"
  by (simp add: student_create_many_def)

lemma student_create_many_users [simp]: "st_users (student_create_many s xs) = st_users s"
  by (simp add: student_create_many_def)

subsection \<open>Queries\<close>

lemma order_desc_sorted: "sorted_wrt (\<lambda>a b. f b \<le> f a) (order_desc f xs)"
proof -
  have "sorted (map f (sort_key f xs))" by simp
  then have "sorted_wrt (\<lambda>a b. f a \<le> f b) (sort_key f xs)" by (simp add: sorted_map)
  then show ?thesis by (simp add: order_desc_def sorted_wrt_rev)
qed

lemma mset_order_desc [simp]: "mset (order_desc f xs) = mset xs"
  by (simp add: order_desc_def)

lemma sum_group_count: "sum_list (map snd (group_count f xs)) = length xs"
proof -
  have "sum_list (map snd (group_count f xs)) = (\<Sum>k\<leftarrow>remdups (map f xs). length (filter (\<lambda>x. f x = k) xs))"
    by (simp add: group_count_def comp_def)
  also have "\<dots> = length xs" by (rule sum_list_count_filter) auto
  finally show ?thesis .
qed

text \<open>At most as many groups as the values the field can take.\<close>

lemma length_group_count:
  assumes "\<forall>x \<in> set xs. f x \<in> set ks"
  shows "length (group_count f xs) \<le> length ks"
proof -
  have "length (group_count f xs) = card (set (map f xs))"
    by (simp add: group_count_def length_remdups_card_conv)
  also have "\<dots> \<le> card (set ks)" using assms by (intro card_mono) auto
  also have "\<dots> \<le> length ks" by (rule card_length)
  finally show ?thesis .
qed

lemma find_key_map:
  "find (\<lambda>(k', c). k' = k) (map (\<lambda>k. (k, g k)) ks) = (if k \<in> set ks then Some (k, g k) else None)"
  by (induction ks) auto

lemma group_count_find:
  "(case find (\<lambda>(k', c). k' = k) (group_count f xs) of Some (_, c) \<Rightarrow> c | None \<Rightarrow> 0) =
     length (filter (\<lambda>x. f x = k) xs)"
  unfolding group_count_def find_key_map by (auto simp: filter_empty_conv)

end
