(* ===== verification/Auth.thy ===== *)
theory Auth
  imports Record_Store
begin

text \<open>
  Authentication as \<open>src/auth.ts\<close> configures next-auth: the credentials
  check (\<open>authorize\<close>), the token issued at sign-in, and the session
  callback that rebuilds \<open>session.user\<close> on every request, reading the
  role afresh from the store. Password hashing is \<open>bcryptjs\<close>, abstracted
  as in the data model; the e-mail syntax check of
  \<open>zod\<close> is a parameter.
\<close>

definition bcrypt_hash :: "string option \<Rightarrow> pw_hash result" where
  "bcrypt_hash p = (case p of None \<Rightarrow> Inl IllegalArguments | Some w \<Rightarrow> Inr (Bcrypt w))"

fun bcrypt_compare :: "string \<Rightarrow> pw_hash \<Rightarrow> bool" where
  "bcrypt_compare p (Bcrypt q) = (p = q)"

definition authorize ::
  "(string \<Rightarrow> bool) \<Rightarrow> store \<Rightarrow> string option \<Rightarrow> string option \<Rightarrow> user option" where
  "authorize is_email s email password =
     (case (email, password) of
        (Some e, Some p) \<Rightarrow>
          if is_email e then
            (case find_user_by_email s e of
               None \<Rightarrow> None
             | Some u \<Rightarrow> if bcrypt_compare p (u_password u) then Some u else None)
          else None
      | _ \<Rightarrow> None)"

text \<open>The token next-auth issues for a signed-in user; the \<open>jwt\<close> callback returns it unchanged.\<close>

record token =
  t_sub :: "uid option"
  t_name :: "string option"

definition sign_in_token :: "user \<Rightarrow> token" where
  "sign_in_token u = \<lparr>t_sub = Some (u_id u), t_name = Some (u_name u)\<rparr>"

definition jwt_callback :: "token \<Rightarrow> token" where
  "jwt_callback t = t"

definition session_callback :: "store \<Rightarrow> token \<Rightarrow> principal" where
  "session_callback s t =
     (case t_sub t of
        Some sub \<Rightarrow>
          if sub \<noteq> [] then
            \<lparr>p_id = Some sub, p_name = t_name t, p_role = map_option u_role (find_user s sub)\<rparr>
          else \<lparr>p_id = None, p_name = t_name t, p_role = None\<rparr>
      | None \<Rightarrow> \<lparr>p_id = None, p_name = t_name t, p_role = None\<rparr>)"

text \<open>\<open>auth()\<close>: no session without a token.\<close>

definition auth :: "store \<Rightarrow> token option \<Rightarrow> principal option" where
  "auth s t = map_option (\<lambda>tk. session_callback s (jwt_callback tk)) t"

subsection \<open>Lemmas\<close>

lemma bcrypt_hash_Inr: "bcrypt_hash p = Inr h \<longleftrightarrow> (\<exists>w. p = Some w \<and> h = Bcrypt w)"
  by (cases p) (auto simp: bcrypt_hash_def)

lemma bcrypt_compare_hash: "bcrypt_compare p (Bcrypt q) \<longleftrightarrow> p = q"
  by simp

lemma authorize_Some:
  "authorize is_email s (Some e) (Some p) = Some u \<longleftrightarrow>
     is_email e \<and> find_user_by_email s e = Some u \<and> bcrypt_compare p (u_password u)"
  by (auto simp: authorize_def split: option.splits if_splits)

lemma auth_role:
  "auth s (Some t) = Some pr \<Longrightarrow> p_id pr = Some i \<Longrightarrow>
     p_role pr = map_option u_role (find_user s i)"
  by (auto simp: auth_def session_callback_def jwt_callback_def split: option.splits if_splits)

lemma auth_role_Some:
  "auth s tk = Some pr \<Longrightarrow> p_role pr = Some r \<Longrightarrow>
     \<exists>i u. p_id pr = Some i \<and> find_user s i = Some u \<and> u_role u = r"
  by (auto simp: auth_def session_callback_def jwt_callback_def split: option.splits if_splits)

end
