(* ===== verification/Policy.thy ===== *)
theory Policy
  imports Auth
begin

text \<open>
  The authorization policy, as the role tests written into the server actions
  and the pages: which roles count as account managers, which accounts the
  faculty screen offers to manage (\<open>canManage\<close>), whether the navigation
  shows the faculty screen, and the two student-visibility filters, one for the
  calling list and one for the dashboard aggregates.
\<close>

text \<open>\<open>currentUserRole === Role.SUPER_ADMIN || currentUserRole === Role.ADMIN\<close>\<close>

definition is_manager :: "role option \<Rightarrow> bool" where
  "is_manager r \<longleftrightarrow> r = Some SUPER_ADMIN \<or> r = Some ADMIN"

text \<open>
  Strict equality of two identifiers that may be absent: a form value that is
  \<open>null\<close> never equals a session identifier that is \<open>undefined\<close>.
\<close>

fun same_id :: "string option \<Rightarrow> string option \<Rightarrow> bool" where
  "same_id (Some a) (Some b) = (a = b)"
| "same_id _ _ = False"

text \<open>\<open>canManage\<close> of the faculty screen, for the signed-in user and one listed account.\<close>

definition can_manage :: "principal \<Rightarrow> user \<Rightarrow> bool" where
  "can_manage cur f \<longleftrightarrow>
     (let is_me = same_id (Some (u_id f)) (p_id cur);
          is_super = (p_role cur = Some SUPER_ADMIN);
          is_admin = (p_role cur = Some ADMIN);
          target_super = (u_role f = SUPER_ADMIN);
          target_admin = (u_role f = ADMIN)
      in \<not> is_me \<and> (is_super \<or> (is_admin \<and> \<not> target_super \<and> \<not> target_admin)))"

text \<open>The role options the faculty screen offers in the role selector.\<close>

definition role_options :: "principal \<Rightarrow> role list" where
  "role_options cur = [FACULTY, ADMIN] @ (if p_role cur = Some SUPER_ADMIN then [SUPER_ADMIN] else [])"

text \<open>The navigation shows the faculty screen to managers only.\<close>

definition show_faculty_link :: "principal \<Rightarrow> bool" where
  "show_faculty_link cur \<longleftrightarrow> is_manager (p_role cur)"

text \<open>Calling list: only the super admin sees every student.\<close>

definition list_where :: "principal \<Rightarrow> uid option" where
  "list_where cur = (if p_role cur = Some SUPER_ADMIN then None else p_id cur)"

text \<open>Dashboard: super admins and admins aggregate over every student.\<close>

definition stats_where :: "principal \<Rightarrow> uid option" where
  "stats_where cur = (if is_manager (p_role cur) then None else p_id cur)"

subsection \<open>Lemmas\<close>

lemma same_id_Some: "same_id (Some a) b \<longleftrightarrow> b = Some a"
  by (cases b) auto

lemma can_manage_iff:
  "can_manage cur f \<longleftrightarrow>
     p_id cur \<noteq> Some (u_id f) \<and>
     (p_role cur = Some SUPER_ADMIN \<or> (p_role cur = Some ADMIN \<and> u_role f = FACULTY))"
  by (cases "u_role f") (auto simp: can_manage_def same_id_Some)

lemma is_manager_cases:
  "is_manager r \<longleftrightarrow> (\<exists>x. r = Some x \<and> ADMIN \<le> x)"
proof (cases r)
  case (Some x)
  then show ?thesis by (cases x) (auto simp: is_manager_def less_eq_role_def)
qed (simp add: is_manager_def)

end
