(* ===== verification/Accounts.thy ===== *)
theory Accounts
  imports Policy
begin

text \<open>
  The account-management server actions of \<open>src/app/actions.ts\<close>:
  \<open>createFaculty\<close>, \<open>deleteFaculty\<close>, \<open>adminResetPassword\<close>,
  \<open>updateUserRole\<close> and \<open>updateOwnPassword\<close>. Each takes the store, the
  session user (\<open>None\<close> when there is no session) and the submitted form,
  and returns either the error it throws, or its reply with the new store.
  An action writes at most once, at its end, so a thrown error leaves the store
  as it was. \<open>revalidatePath\<close> only refreshes cached pages and is omitted.
\<close>

text \<open>\<open>(session?.user as any).role\<close>: reading the role of a missing session throws.\<close>

definition session_user_of :: "principal option \<Rightarrow> principal result" where
  "session_user_of sess = (case sess of None \<Rightarrow> Inl TypeError | Some p \<Rightarrow> Inr p)"

text \<open>\<open>!newPassword || newPassword.length < 6\<close>\<close>

definition password_too_short :: "string option \<Rightarrow> bool" where
  "password_too_short pw = (case pw of None \<Rightarrow> True | Some w \<Rightarrow> length w < 6)"

definition set_password :: "string \<Rightarrow> user \<Rightarrow> user" where
  "set_password w u = u\<lparr>u_password := Bcrypt w\<rparr>"

definition set_role :: "role \<Rightarrow> user \<Rightarrow> user" where
  "set_role r u = u\<lparr>u_role := r\<rparr>"

definition create_faculty :: "store \<Rightarrow> principal option \<Rightarrow> form \<Rightarrow> (reply \<times> store) result" where
  "create_faculty s sess fd =
     (case session_user_of sess of Inl e \<Rightarrow> Inl e | Inr p \<Rightarrow>
      if \<not> is_manager (p_role p) then Inl Forbidden else
      (case bcrypt_hash (form_get fd ''password'') of Inl e \<Rightarrow> Inl e | Inr h \<Rightarrow>
       (case (form_get fd ''name'', form_get fd ''email'') of
          (Some n, Some e) \<Rightarrow>
            (case user_create s n e h FACULTY of Inl err \<Rightarrow> Inl err | Inr s' \<Rightarrow> Inr (RVoid, s'))
        | _ \<Rightarrow> Inl InvalidValue)))"

definition delete_faculty :: "store \<Rightarrow> principal option \<Rightarrow> form \<Rightarrow> (reply \<times> store) result" where
  "delete_faculty s sess fd =
     (case session_user_of sess of Inl e \<Rightarrow> Inl e | Inr p \<Rightarrow>
      if \<not> is_manager (p_role p) then Inl Forbidden else
      (case form_get fd ''id'' of None \<Rightarrow> Inl InvalidValue | Some tid \<Rightarrow>
       (case find_user s tid of None \<Rightarrow> Inr (RVoid, s) | Some t \<Rightarrow>
        if p_role p = Some ADMIN \<and> (u_role t = ADMIN \<or> u_role t = SUPER_ADMIN)
        then Inl AdminsOnlyRemoveFaculty
        else if same_id (Some tid) (p_id p) then Inr (RVoid, s)
        else (case user_delete s tid of Inl e \<Rightarrow> Inl e | Inr s' \<Rightarrow> Inr (RVoid, s')))))"

definition admin_reset_password :: "store \<Rightarrow> principal option \<Rightarrow> form \<Rightarrow> (reply \<times> store) result" where
  "admin_reset_password s sess fd =
     (case session_user_of sess of Inl e \<Rightarrow> Inl e | Inr p \<Rightarrow>
      if \<not> is_manager (p_role p) then Inl Forbidden else
      (let tid = form_get fd ''id''; np = form_get fd ''newPassword'' in
       if password_too_short np then Inl PasswordTooShort else
       (case tid of None \<Rightarrow> Inl InvalidValue | Some i \<Rightarrow>
        (case find_user s i of None \<Rightarrow> Inl UserNotFound | Some t \<Rightarrow>
         if p_role p = Some ADMIN \<and> (u_role t = SUPER_ADMIN \<or> u_role t = ADMIN)
         then Inl AdminsOnlyResetFaculty
         else (case np of None \<Rightarrow> Inl IllegalArguments | Some w \<Rightarrow>
               (case user_update s i (set_password w) of
                  Inl e \<Rightarrow> Inl e | Inr s' \<Rightarrow> Inr (RSuccess, s')))))))"

definition update_user_role :: "store \<Rightarrow> principal option \<Rightarrow> form \<Rightarrow> (reply \<times> store) result" where
  "update_user_role s sess fd =
     (case session_user_of sess of Inl e \<Rightarrow> Inl e | Inr p \<Rightarrow>
      if p_role p \<noteq> Some SUPER_ADMIN
      then Inr (RError ''Only Super Admin can change roles.'', s) else
      (let tid = form_get fd ''id''; nr = form_get fd ''newRole'' in
       if same_id tid (p_id p) then Inr (RError ''You cannot change your own role.'', s) else
       (case (tid, map_option parse_role nr) of
          (Some i, Some (Some r)) \<Rightarrow>
            (case user_update s i (set_role r) of Inl e \<Rightarrow> Inl e | Inr s' \<Rightarrow> Inr (RSuccess, s'))
        | _ \<Rightarrow> Inl InvalidValue)))"

definition update_own_password :: "store \<Rightarrow> principal option \<Rightarrow> form \<Rightarrow> (reply \<times> store) result" where
  "update_own_password s sess fd =
     (case sess of None \<Rightarrow> Inl Unauthorized | Some p \<Rightarrow>
      (let np = form_get fd ''newPassword'' in
       if password_too_short np then Inl PasswordTooShort else
       (case (p_id p, np) of
          (Some i, Some w) \<Rightarrow>
            (case user_update s i (set_password w) of Inl e \<Rightarrow> Inl e | Inr s' \<Rightarrow> Inr (RSuccess, s'))
        | _ \<Rightarrow> Inl InvalidValue)))"

lemmas account_defs = create_faculty_def delete_faculty_def admin_reset_password_def
  update_user_role_def update_own_password_def session_user_of_def

subsection \<open>Store effects of the actions\<close>

lemma user_delete_found:
  "find_user s i = Some t \<Longrightarrow>
     user_delete s i = Inr (s\<lparr>st_users := filter (\<lambda>u. u_id u \<noteq> i) (st_users s)\<rparr>)"
  by (simp add: user_delete_def)

lemma user_update_found:
  "find_user s i = Some t \<Longrightarrow>
     user_update s i f = Inr (s\<lparr>st_users := map (\<lambda>u. if u_id u = i then f u else u) (st_users s)\<rparr>)"
  by (simp add: user_update_def)

lemma filter_removes_found:
  assumes "find_user s i = Some t"
  shows "s\<lparr>st_users := filter (\<lambda>u. u_id u \<noteq> i) (st_users s)\<rparr> \<noteq> s"
proof -
  from assms have "t \<in> set (st_users s)" and "u_id t = i" by auto
  then have "length (filter (\<lambda>u. u_id u \<noteq> i) (st_users s)) < length (st_users s)"
    by (auto simp: length_filter_less)
  then show ?thesis by (metis less_irrefl store.select_convs(1) store.surjective store.update_convs(1))
qed

lemma session_principal_role:
  assumes "auth s (Some tk) = Some p" and "p_id p = Some i" and "find_user s i = Some u"
  shows "p_role p = Some (u_role u)"
  using auth_role [OF assms(1,2)] assms(3) by simp

subsection \<open>Deleting an account\<close>

text \<open>
  C1: the server deletes an existing account exactly when the faculty screen
  offers the delete button for it (\<open>canManage\<close>): a super admin may delete
  anyone but themselves, an admin only faculty, and faculty nobody.
\<close>

theorem delete_faculty_refines_can_manage:
  assumes "form_get fd ''id'' = Some i" and "find_user s i = Some t"
  shows "(\<exists>s'. delete_faculty s (Some p) fd = Inr (RVoid, s') \<and> s' \<noteq> s) \<longleftrightarrow> can_manage p t"
proof -
  have ti: "u_id t = i" using assms(2) by auto
  have del: "user_delete s i = Inr (s\<lparr>st_users := filter (\<lambda>u. u_id u \<noteq> i) (st_users s)\<rparr>)"
    by (rule user_delete_found [OF assms(2)])
  have ne: "s\<lparr>st_users := filter (\<lambda>u. u_id u \<noteq> i) (st_users s)\<rparr> \<noteq> s"
    by (rule filter_removes_found [OF assms(2)])
  show ?thesis
    using assms del ne ti
    by (cases "u_role t")
      (auto simp: delete_faculty_def session_user_of_def can_manage_iff is_manager_def same_id_Some)
qed

text \<open>
  C2: deleting oneself is a silent no-op only for a super admin; the role
  checks come first, so an admin's own account trips the hierarchy rule and a
  faculty member is refused outright.
\<close>

theorem delete_faculty_self:
  assumes "auth s (Some tk) = Some p" and "p_id p = Some i" and "find_user s i = Some u"
  shows "delete_faculty s (Some p) [(''id'', i)] =
           (case u_role u of
              SUPER_ADMIN \<Rightarrow> Inr (RVoid, s)
            | ADMIN \<Rightarrow> Inl AdminsOnlyRemoveFaculty
            | FACULTY \<Rightarrow> Inl Forbidden)"
proof -
  have "p_role p = Some (u_role u)" by (rule session_principal_role [OF assms])
  then show ?thesis
    using assms(2,3)
    by (cases "u_role u") (auto simp: delete_faculty_def session_user_of_def is_manager_def form_get_def)
qed

subsection \<open>Resetting a password\<close>

text \<open>
  C3: with a valid new password and an existing target, the reset succeeds
  exactly for a super admin, or for an admin acting on faculty, and then
  replaces only the target's password hash; otherwise it throws the
  hierarchy error (admins) or \<open>Forbidden\<close> (everyone else).
\<close>

theorem admin_reset_password_behaviour:
  assumes "form_get fd ''id'' = Some i" and "form_get fd ''newPassword'' = Some w"
    and "6 \<le> length w" and "find_user s i = Some t"
  shows "admin_reset_password s (Some p) fd =
    (if p_role p = Some SUPER_ADMIN \<or> (p_role p = Some ADMIN \<and> u_role t = FACULTY)
     then Inr (RSuccess,
               s\<lparr>st_users := map (\<lambda>u. if u_id u = i then set_password w u else u) (st_users s)\<rparr>)
     else if p_role p = Some ADMIN then Inl AdminsOnlyResetFaculty else Inl Forbidden)"
  using assms user_update_found [OF assms(4)]
  by (cases "u_role t")
    (auto simp: admin_reset_password_def session_user_of_def is_manager_def password_too_short_def)

text \<open>
  C4: a password shorter than six characters is rejected with the validation
  error only when the caller is an admin or super admin; the role check runs
  first, so anyone else receives \<open>Forbidden\<close>.
\<close>

theorem admin_reset_password_short:
  assumes "password_too_short (form_get fd ''newPassword'')"
  shows "admin_reset_password s (Some p) fd =
           Inl (if is_manager (p_role p) then PasswordTooShort else Forbidden)"
  using assms by (simp add: admin_reset_password_def session_user_of_def)

text \<open>
  A missing target is a silent no-op for delete but an error for reset.
\<close>

theorem missing_target_delete_vs_reset:
  assumes "is_manager (p_role p)" and "find_user s i = None"
    and "form_get fd ''id'' = Some i" and "\<not> password_too_short (form_get fd ''newPassword'')"
  shows "delete_faculty s (Some p) fd = Inr (RVoid, s) \<and>
         admin_reset_password s (Some p) fd = Inl UserNotFound"
  using assms by (simp add: delete_faculty_def admin_reset_password_def session_user_of_def)

subsection \<open>Changing a role, creating an account, changing one's own password\<close>

text \<open>
  C6: a role change that writes the store was made by a super admin, on an
  account other than their own, and sets only that account's role to the
  submitted valid role.
\<close>

theorem update_user_role_guard:
  assumes "update_user_role s sess fd = Inr (r, s')" and "s' \<noteq> s"
  shows "\<exists>p i nr. sess = Some p \<and> p_role p = Some SUPER_ADMIN \<and>
           form_get fd ''id'' = Some i \<and> p_id p \<noteq> Some i \<and>
           map_option parse_role (form_get fd ''newRole'') = Some (Some nr) \<and>
           st_users s' = map (\<lambda>u. if u_id u = i then set_role nr u else u) (st_users s) \<and>
           st_students s' = st_students s"
  using assms
  by (auto simp: update_user_role_def session_user_of_def user_update_def same_id_Some Let_def
      split: option.splits if_splits sum.splits)

text \<open>
  C7: account creation is open to admins and super admins only, appends exactly
  one account, and that account has the FACULTY role whatever the creator's tier.
\<close>

theorem create_faculty_new_faculty:
  assumes "create_faculty s sess fd = Inr (r, s')"
  shows "\<exists>p u. sess = Some p \<and> is_manager (p_role p) \<and> st_users s' = st_users s @ [u] \<and>
           u_role u = FACULTY \<and> form_get fd ''email'' = Some (u_email u) \<and>
           st_students s' = st_students s"
  using assms
  by (auto simp: create_faculty_def session_user_of_def user_create_def new_user_def
      split: option.splits if_splits sum.splits)

text \<open>
  C8: changing one's own password needs no role, validates the length, and
  rewrites only the caller's own password hash.
\<close>

theorem update_own_password_effect:
  assumes "update_own_password s sess fd = Inr (r, s')"
  shows "\<exists>p i w. sess = Some p \<and> p_id p = Some i \<and> form_get fd ''newPassword'' = Some w \<and>
           6 \<le> length w \<and>
           st_users s' = map (\<lambda>u. if u_id u = i then set_password w u else u) (st_users s) \<and>
           st_students s' = st_students s"
  using assms
  by (auto simp: update_own_password_def password_too_short_def user_update_def Let_def
      split: option.splits if_splits sum.splits)

subsection \<open>Witnesses\<close>

lemmas demo_eval = demo_defs form_get_def find_user_def find_user_by_email_def
  user_update_def user_create_def new_user_def fresh_id_def id_of_def set_password_def set_role_def

theorem delete_faculty_refines_can_manage_witness:
  "form_get [(''id'', ''c2'')] ''id'' = Some ''c2'' \<and> find_user demo_store ''c2'' = Some demo_faculty \<and>
   ((\<exists>s'. delete_faculty demo_store (Some (principal_of demo_admin)) [(''id'', ''c2'')] = Inr (RVoid, s')
        \<and> s' \<noteq> demo_store) \<longleftrightarrow> can_manage (principal_of demo_admin) demo_faculty)"
proof -
  have h1: "form_get [(''id'', ''c2'')] ''id'' = Some ''c2''" by (simp add: form_get_def)
  have h2: "find_user demo_store ''c2'' = Some demo_faculty" by (simp add: demo_eval)
  show ?thesis using delete_faculty_refines_can_manage [OF h1 h2] h1 h2 by simp
qed

theorem delete_faculty_self_witness:
  "auth demo_store (Some (sign_in_token demo_admin)) = Some (principal_of demo_admin) \<and>
   p_id (principal_of demo_admin) = Some ''c1'' \<and> find_user demo_store ''c1'' = Some demo_admin \<and>
   delete_faculty demo_store (Some (principal_of demo_admin)) [(''id'', ''c1'')] = Inl AdminsOnlyRemoveFaculty"
proof -
  have h1: "auth demo_store (Some (sign_in_token demo_admin)) = Some (principal_of demo_admin)"
    by (simp add: auth_def jwt_callback_def session_callback_def sign_in_token_def demo_eval)
  have h2: "p_id (principal_of demo_admin) = Some ''c1''" by (simp add: demo_eval)
  have h3: "find_user demo_store ''c1'' = Some demo_admin" by (simp add: demo_eval)
  show ?thesis using delete_faculty_self [OF h1 h2 h3] h1 h2 h3 by (simp add: demo_admin_def)
qed

theorem admin_reset_password_behaviour_witness:
  "form_get [(''id'', ''c2''), (''newPassword'', ''newpass1'')] ''id'' = Some ''c2'' \<and>
   form_get [(''id'', ''c2''), (''newPassword'', ''newpass1'')] ''newPassword'' = Some ''newpass1'' \<and>
   6 \<le> length ''newpass1'' \<and> find_user demo_store ''c2'' = Some demo_faculty \<and>
   admin_reset_password demo_store (Some (principal_of demo_admin))
     [(''id'', ''c2''), (''newPassword'', ''newpass1'')] =
   Inr (RSuccess, demo_store\<lparr>st_users := [demo_super, demo_admin, set_password ''newpass1'' demo_faculty]\<rparr>)"
proof -
  have h1: "form_get [(''id'', ''c2''), (''newPassword'', ''newpass1'')] ''id'' = Some ''c2''"
    by (simp add: form_get_def)
  have h2: "form_get [(''id'', ''c2''), (''newPassword'', ''newpass1'')] ''newPassword'' = Some ''newpass1''"
    by (simp add: form_get_def)
  have h3: "6 \<le> length ''newpass1''" by simp
  have h4: "find_user demo_store ''c2'' = Some demo_faculty" by (simp add: demo_eval)
  show ?thesis
    using admin_reset_password_behaviour [OF h1 h2 h3 h4, of "principal_of demo_admin"] h1 h2 h3 h4
    by (simp add: demo_eval)
qed

theorem admin_reset_password_short_witness:
  "password_too_short (form_get [(''id'', ''c1''), (''newPassword'', ''12345'')] ''newPassword'') \<and>
   admin_reset_password demo_store (Some (principal_of demo_faculty))
     [(''id'', ''c1''), (''newPassword'', ''12345'')] = Inl Forbidden"
proof -
  have h: "password_too_short (form_get [(''id'', ''c1''), (''newPassword'', ''12345'')] ''newPassword'')"
    by (simp add: password_too_short_def form_get_def)
  show ?thesis
    using admin_reset_password_short [OF h, of demo_store "principal_of demo_faculty"] h
    by (simp add: demo_defs is_manager_def)
qed

theorem missing_target_delete_vs_reset_witness:
  "is_manager (p_role (principal_of demo_super)) \<and> find_user demo_store ''c9'' = None \<and>
   form_get [(''id'', ''c9''), (''newPassword'', ''newpass1'')] ''id'' = Some ''c9'' \<and>
   \<not> password_too_short (form_get [(''id'', ''c9''), (''newPassword'', ''newpass1'')] ''newPassword'') \<and>
   delete_faculty demo_store (Some (principal_of demo_super)) [(''id'', ''c9''), (''newPassword'', ''newpass1'')]
     = Inr (RVoid, demo_store) \<and>
   admin_reset_password demo_store (Some (principal_of demo_super))
     [(''id'', ''c9''), (''newPassword'', ''newpass1'')] = Inl UserNotFound"
proof -
  have h1: "is_manager (p_role (principal_of demo_super))" by (simp add: demo_defs is_manager_def)
  have h2: "find_user demo_store ''c9'' = None" by (simp add: demo_eval)
  have h3: "form_get [(''id'', ''c9''), (''newPassword'', ''newpass1'')] ''id'' = Some ''c9''"
    by (simp add: form_get_def)
  have h4: "\<not> password_too_short (form_get [(''id'', ''c9''), (''newPassword'', ''newpass1'')] ''newPassword'')"
    by (simp add: password_too_short_def form_get_def)
  show ?thesis using missing_target_delete_vs_reset [OF h1 h2 h3 h4] h1 h2 h3 h4 by simp
qed

theorem update_user_role_guard_witness:
  "update_user_role demo_store (Some (principal_of demo_super)) [(''id'', ''c2''), (''newRole'', ''ADMIN'')]
     = Inr (RSuccess, demo_store\<lparr>st_users := [demo_super, demo_admin, set_role ADMIN demo_faculty]\<rparr>) \<and>
   demo_store\<lparr>st_users := [demo_super, demo_admin, set_role ADMIN demo_faculty]\<rparr> \<noteq> demo_store \<and>
   (\<exists>p i nr. Some (principal_of demo_super) = Some p \<and> p_role p = Some SUPER_ADMIN \<and>
      form_get [(''id'', ''c2''), (''newRole'', ''ADMIN'')] ''id'' = Some i \<and> p_id p \<noteq> Some i \<and>
      map_option parse_role (form_get [(''id'', ''c2''), (''newRole'', ''ADMIN'')] ''newRole'') = Some (Some nr) \<and>
      st_users (demo_store\<lparr>st_users := [demo_super, demo_admin, set_role ADMIN demo_faculty]\<rparr>)
        = map (\<lambda>u. if u_id u = i then set_role nr u else u) (st_users demo_store) \<and>
      st_students (demo_store\<lparr>st_users := [demo_super, demo_admin, set_role ADMIN demo_faculty]\<rparr>)
        = st_students demo_store)"
proof -
  let ?s' = "demo_store\<lparr>st_users := [demo_super, demo_admin, set_role ADMIN demo_faculty]\<rparr>"
  have h1: "update_user_role demo_store (Some (principal_of demo_super))
              [(''id'', ''c2''), (''newRole'', ''ADMIN'')] = Inr (RSuccess, ?s')"
    by (simp add: update_user_role_def session_user_of_def parse_role_def parse_enum_def
        role_values_def demo_eval)
  have h2: "?s' \<noteq> demo_store" by (simp add: demo_eval)
  show ?thesis using update_user_role_guard [OF h1 h2] h1 h2 by blast
qed

theorem create_faculty_new_faculty_witness:
  "create_faculty demo_store (Some (principal_of demo_admin))
     [(''name'', ''Kiran''), (''email'', ''kiran@college.edu''), (''password'', ''init123'')] =
   Inr (RVoid, demo_store\<lparr>st_users := st_users demo_store @
          [new_user demo_store ''Kiran'' ''kiran@college.edu'' (Bcrypt ''init123'') FACULTY],
        st_next := 5, st_clock := 5\<rparr>) \<and>
   (\<exists>p u. Some (principal_of demo_admin) = Some p \<and> is_manager (p_role p) \<and>
      st_users demo_store @ [new_user demo_store ''Kiran'' ''kiran@college.edu'' (Bcrypt ''init123'') FACULTY]
        = st_users demo_store @ [u] \<and> u_role u = FACULTY \<and>
      form_get [(''name'', ''Kiran''), (''email'', ''kiran@college.edu''), (''password'', ''init123'')] ''email''
        = Some (u_email u) \<and> st_students demo_store = st_students demo_store)"
proof -
  have h: "create_faculty demo_store (Some (principal_of demo_admin))
     [(''name'', ''Kiran''), (''email'', ''kiran@college.edu''), (''password'', ''init123'')] =
   Inr (RVoid, demo_store\<lparr>st_users := st_users demo_store @
          [new_user demo_store ''Kiran'' ''kiran@college.edu'' (Bcrypt ''init123'') FACULTY],
        st_next := 5, st_clock := 5\<rparr>)"
    by (simp add: create_faculty_def session_user_of_def is_manager_def bcrypt_hash_def demo_eval)
  show ?thesis using create_faculty_new_faculty [OF h] h by simp
qed

theorem update_own_password_effect_witness:
  "update_own_password demo_store (Some (principal_of demo_faculty)) [(''newPassword'', ''better12'')] =
   Inr (RSuccess, demo_store\<lparr>st_users := [demo_super, demo_admin, set_password ''better12'' demo_faculty]\<rparr>) \<and>
   (\<exists>p i w. Some (principal_of demo_faculty) = Some p \<and> p_id p = Some i \<and>
      form_get [(''newPassword'', ''better12'')] ''newPassword'' = Some w \<and> 6 \<le> length w \<and>
      [demo_super, demo_admin, set_password ''better12'' demo_faculty]
        = map (\<lambda>u. if u_id u = i then set_password w u else u) (st_users demo_store))"
proof -
  have h: "update_own_password demo_store (Some (principal_of demo_faculty)) [(''newPassword'', ''better12'')] =
   Inr (RSuccess, demo_store\<lparr>st_users := [demo_super, demo_admin, set_password ''better12'' demo_faculty]\<rparr>)"
    by (simp add: update_own_password_def password_too_short_def demo_eval)
  show ?thesis using update_own_password_effect [OF h] h by simp
qed

end
