(* ===== verification/Students.thy ===== *)
theory Students
  imports Policy
begin

text \<open>
  The student record service: the server actions \<open>uploadStudents\<close> and
  \<open>updateStudent\<close> and the query \<open>getDashboardStats\<close> of
  \<open>src/app/actions.ts\<close>, the calling-list query of
  \<open>src/app/dashboard/students/page.tsx\<close>, and the search of the calling
  list in \<open>client-view.tsx\<close>. Uploaded rows are the objects the sheet
  parser produces, modelled as association lists of cells.
\<close>

subsection \<open>Bulk upload\<close>

text \<open>\<open>String(v || "")\<close> and \<open>v ? String(v) : null\<close> on a cell.\<close>

definition str_or_empty :: "cell option \<Rightarrow> string" where
  "str_or_empty v = (case v of Some c \<Rightarrow> if truthy v then js_string c else [] | None \<Rightarrow> [])"

definition opt_string :: "cell option \<Rightarrow> string option" where
  "opt_string v = (if truthy v then map_option js_string v else None)"

definition row_to_input :: "uid \<Rightarrow> row \<Rightarrow> student_input" where
  "row_to_input u r =
     (let prev_course_val =
        js_or (js_or (js_or (row_get r ''Previous Course'') (row_get r ''PreviousCourse''))
                (row_get r ''prev_course'')) (row_get r ''previous course'')
      in \<lparr>i_name = js_trim (str_or_empty (js_or (row_get r ''Name'') (row_get r ''name''))),
          i_phone = js_trim (str_or_empty (js_or (row_get r ''Phone'') (row_get r ''phone''))),
          i_address = opt_string (js_or (row_get r ''Address'') (row_get r ''address'')),
          i_prev_course = opt_string prev_course_val,
          i_uploaded_by = u\<rparr>)"

definition valid_input :: "student_input \<Rightarrow> bool" where
  "valid_input x \<longleftrightarrow> 0 < length (i_name x) \<and> 0 < length (i_phone x) \<and> i_phone x \<noteq> ''undefined''"

definition upload_students :: "store \<Rightarrow> principal option \<Rightarrow> row list \<Rightarrow> (reply \<times> store) result" where
  "upload_students s sess rows =
     (case sess of None \<Rightarrow> Inl Unauthorized | Some p \<Rightarrow>
      (case p_id p of None \<Rightarrow> Inl Unauthorized | Some u \<Rightarrow>
       if u = [] then Inl Unauthorized else
       (let xs = filter valid_input (map (row_to_input u) rows) in
        if xs = [] then Inr (RError ''No valid students found.'', s)
        else Inr (RSuccess, student_create_many s xs))))"

subsection \<open>Recording a call\<close>

definition updater_name :: "principal \<Rightarrow> string" where
  "updater_name p = (case p_name p of Some n \<Rightarrow> if n \<noteq> [] then n else ''Unknown Staff''
                                     | None \<Rightarrow> ''Unknown Staff'')"

text \<open>\<open>interest === "OTHER" && !Object.values(Interest).includes(interest) ? null : interest\<close>\<close>

definition normalize_interest :: "string option \<Rightarrow> string option" where
  "normalize_interest v =
     (if v = Some ''OTHER'' \<and> ''OTHER'' \<notin> set (map interest_name interest_values) then None else v)"

text \<open>The values Prisma accepts for the enum columns: a required status, an optional interest.\<close>

definition prisma_status :: "string option \<Rightarrow> call_status result" where
  "prisma_status v = (case v of None \<Rightarrow> Inl InvalidValue | Some n \<Rightarrow>
                        (case parse_call_status n of None \<Rightarrow> Inl InvalidValue | Some c \<Rightarrow> Inr c))"

definition prisma_interest :: "string option \<Rightarrow> interest option result" where
  "prisma_interest v = (case v of None \<Rightarrow> Inr None | Some n \<Rightarrow>
                          (case parse_interest n of None \<Rightarrow> Inl InvalidValue | Some i \<Rightarrow> Inr (Some i)))"

definition record_call ::
  "call_status \<Rightarrow> interest option \<Rightarrow> string option \<Rightarrow> string option \<Rightarrow> string \<Rightarrow> student \<Rightarrow> student" where
  "record_call st fi notes prev who x =
     x\<lparr>s_call_status := st, s_future_interest := fi, s_notes := notes,
       s_prev_course := prev, s_last_updated_by := Some who\<rparr>"

definition update_student :: "store \<Rightarrow> principal option \<Rightarrow> sid \<Rightarrow> form \<Rightarrow> (reply \<times> store) result" where
  "update_student s sess i fd =
     (case sess of None \<Rightarrow> Inl Unauthorized | Some p \<Rightarrow>
      (let status = form_get fd ''status''; interest = form_get fd ''interest'';
           notes = form_get fd ''notes''; prev_course = form_get fd ''prevCourse'';
           who = updater_name p
       in (case prisma_status status of Inl e \<Rightarrow> Inl e | Inr st \<Rightarrow>
           (case prisma_interest (normalize_interest interest) of Inl e \<Rightarrow> Inl e | Inr fi \<Rightarrow>
            (case student_update s i (record_call st fi notes prev_course who) of
               Inl e \<Rightarrow> Inl e | Inr s' \<Rightarrow> Inr (RVoid, s'))))))"

subsection \<open>Queries\<close>

text \<open>The calling list: \<open>findMany({where, orderBy: {createdAt: 'desc'}})\<close>.\<close>

definition students_page :: "store \<Rightarrow> principal option \<Rightarrow> student list result" where
  "students_page s sess =
     (case sess of None \<Rightarrow> Inl TypeError | Some p \<Rightarrow>
        Inr (order_desc s_created (where_uploaded (list_where p) (st_students s))))"

record dashboard_stats =
  ds_total :: nat
  ds_interest :: "(interest option \<times> nat) list"
  ds_status :: "(call_status \<times> nat) list"

definition get_dashboard_stats :: "store \<Rightarrow> principal option \<Rightarrow> dashboard_stats option" where
  "get_dashboard_stats s sess =
     (case sess of None \<Rightarrow> None | Some p \<Rightarrow>
      (let xs = where_uploaded (stats_where p) (st_students s) in
       Some \<lparr>ds_total = length xs,
             ds_interest = group_count s_future_interest (filter (\<lambda>x. s_future_interest x \<noteq> None) xs),
             ds_status = group_count s_call_status xs\<rparr>))"

text \<open>The "Interested" card of the dashboard page.\<close>

definition interested_count :: "dashboard_stats \<Rightarrow> nat" where
  "interested_count d = (case find (\<lambda>(k, c). k = INTERESTED) (ds_status d) of
                           Some (_, c) \<Rightarrow> c | None \<Rightarrow> 0)"

subsection \<open>Example data\<close>

definition demo_rows :: "row list" where
  "demo_rows = [[(''Name'', CStr ''A''), (''Phone'', CStr ''123'')],
                [(''name'', CStr ''B''), (''phone'', CStr ''456'')],
                [(''Name'', CStr ''''), (''Phone'', CStr ''789'')]]"

definition demo_inputs :: "student_input list" where
  "demo_inputs = [\<lparr>i_name = ''A'', i_phone = ''123'', i_address = None, i_prev_course = None, i_uploaded_by = ''c2''\<rparr>,
                  \<lparr>i_name = ''B'', i_phone = ''456'', i_address = None, i_prev_course = None, i_uploaded_by = ''c2''\<rparr>]"

definition demo_call_form :: form where
  "demo_call_form = [(''status'', ''INTERESTED''), (''interest'', ''MCA''), (''notes'', ''call again'')]"

subsection \<open>Lemmas on the upload\<close>

lemma row_to_input_owner [simp]: "i_uploaded_by (row_to_input u r) = u"
  by (simp add: row_to_input_def Let_def)

lemma upload_students_cases:
  assumes "upload_students s sess rows = Inr (r, s')"
  obtains p u where "sess = Some p" "p_id p = Some u" "u \<noteq> []"
    "filter valid_input (map (row_to_input u) rows) = []" "r = RError ''No valid students found.''" "s' = s"
  | p u where "sess = Some p" "p_id p = Some u" "u \<noteq> []"
    "filter valid_input (map (row_to_input u) rows) \<noteq> []" "r = RSuccess"
    "s' = student_create_many s (filter valid_input (map (row_to_input u) rows))"
  using assms by (auto simp: upload_students_def Let_def split: option.splits if_splits)

lemma upload_students_Some:
  "sess = Some p \<Longrightarrow> p_id p = Some u \<Longrightarrow> u \<noteq> [] \<Longrightarrow>
   upload_students s sess rows =
     (let xs = filter valid_input (map (row_to_input u) rows) in
      if xs = [] then Inr (RError ''No valid students found.'', s)
      else Inr (RSuccess, student_create_many s xs))"
  by (simp add: upload_students_def)

text \<open>
  C9: a successful upload keeps every existing student, appends new rows that
  all belong to the uploader and start uncalled, ends with every valid row's
  (name, phone) key present exactly once, and leaves the accounts alone.
\<close>

theorem upload_students_effect:
  assumes "wf_store s" and "upload_students s (Some p) rows = Inr (RSuccess, s')"
  shows "\<exists>u new. p_id p = Some u \<and> st_students s' = st_students s @ new \<and>
     (\<forall>x \<in> set new. s_uploaded_by x = u \<and> s_call_status x = NOT_CALLED \<and> s_last_updated_by x = None) \<and>
     set (map student_key (st_students s')) =
       set (map student_key (st_students s)) \<union>
       input_key ` set (filter valid_input (map (row_to_input u) rows)) \<and>
     distinct (map student_key (st_students s')) \<and> st_users s' = st_users s"
  using assms(2)
proof (cases rule: upload_students_cases)
  case (2 q u)
  let ?xs = "filter valid_input (map (row_to_input u) rows)"
  obtain new where new: "st_students (foldl (insert_skip (st_clock s)) s ?xs) = st_students s @ new"
    and own: "\<forall>x \<in> set new. \<exists>inp \<in> set ?xs. s_uploaded_by x = i_uploaded_by inp \<and>
        s_call_status x = NOT_CALLED \<and> s_last_updated_by x = None \<and> s_created x = st_clock s"
    using foldl_insert_skip_appends by blast
  have "wf_store s'" using 2 student_create_many_wf [OF assms(1)] by simp
  then have dist: "distinct (map student_key (st_students s'))" by (simp add: wf_store_def)
  have own': "\<forall>x \<in> set new. s_uploaded_by x = u \<and> s_call_status x = NOT_CALLED \<and> s_last_updated_by x = None"
    using own by fastforce
  have keys: "set (map student_key (st_students s')) =
      set (map student_key (st_students s)) \<union> input_key ` set ?xs"
    using 2 by (simp add: student_create_many_students foldl_insert_skip_keys)
  have app: "st_students s' = st_students s @ new"
    using 2 new by (simp add: student_create_many_students)
  have "st_users s' = st_users s" using 2 by simp
  with 2 dist own' keys app show ?thesis by blast
qed simp

text \<open>
  C10: uploading the same sheet again raises no error, gives the same reply,
  and adds no student: duplicates are skipped row by row.
\<close>

theorem upload_students_idempotent:
  assumes "upload_students s sess rows = Inr (r, s')"
  shows "\<exists>s''. upload_students s' sess rows = Inr (r, s'') \<and>
           st_students s'' = st_students s' \<and> st_users s'' = st_users s'"
  using assms
proof (cases rule: upload_students_cases)
  case (1 p u)
  then show ?thesis by (simp add: upload_students_Some)
next
  case (2 p u)
  let ?xs = "filter valid_input (map (row_to_input u) rows)"
  have "input_key ` set ?xs \<subseteq> set (map student_key (st_students s'))"
    using 2 by (simp add: student_create_many_students foldl_insert_skip_keys)
  then have "st_students (student_create_many s' ?xs) = st_students s'"
    by (simp add: student_create_many_students foldl_insert_skip_present)
  then show ?thesis using 2 by (simp add: upload_students_Some Let_def)
qed

text \<open>
  The example of the specification: of the rows
  \<open>{Name: "A", Phone: "123"}\<close>, \<open>{name: "B", phone: 456}\<close> and
  \<open>{Name: "", Phone: "789"}\<close> uploaded by a faculty member, the first two
  are inserted with that member as owner and the third is dropped.
\<close>

theorem upload_spec_example:
  "\<exists>s'. upload_students demo_store (Some (principal_of demo_faculty))
     [[(''Name'', CStr ''A''), (''Phone'', CStr ''123'')],
      [(''name'', CStr ''B''), (''phone'', CNum 456)],
      [(''Name'', CStr ''''), (''Phone'', CStr ''789'')]] = Inr (RSuccess, s') \<and>
   map (\<lambda>x. (s_name x, s_phone x, s_uploaded_by x)) (st_students s') =
     [(''Meera'', ''9000000001'', ''c2''), (''A'', ''123'', ''c2''), (''B'', ''456'', ''c2'')]"
proof -
  have "case upload_students demo_store (Some (principal_of demo_faculty))
     [[(''Name'', CStr ''A''), (''Phone'', CStr ''123'')],
      [(''name'', CStr ''B''), (''phone'', CNum 456)],
      [(''Name'', CStr ''''), (''Phone'', CStr ''789'')]] of
     Inr (RSuccess, s') \<Rightarrow> map (\<lambda>x. (s_name x, s_phone x, s_uploaded_by x)) (st_students s') =
       [(''Meera'', ''9000000001'', ''c2''), (''A'', ''123'', ''c2''), (''B'', ''456'', ''c2'')]
   | _ \<Rightarrow> False"
    by code_simp
  then show ?thesis by (auto split: sum.splits prod.splits reply.splits)
qed

text \<open>
  C12: for a signed-in user with an id, an upload is answered with
  "No valid students found." and changes nothing exactly when no row of the
  sheet is valid; no other upload gets an error reply.
\<close>

theorem upload_students_rejects:
  assumes "p_id p = Some u" and "u \<noteq> []"
  shows "(upload_students s (Some p) rows = Inr (RError ''No valid students found.'', s) \<longleftrightarrow>
            (\<forall>r \<in> set rows. \<not> valid_input (row_to_input u r))) \<and>
         (\<forall>m s'. upload_students s (Some p) rows \<noteq> Inr (RError m, s') \<or>
            (m = ''No valid students found.'' \<and> s' = s))"
proof -
  let ?xs = "filter valid_input (map (row_to_input u) rows)"
  have e: "upload_students s (Some p) rows =
      (if ?xs = [] then Inr (RError ''No valid students found.'', s) else Inr (RSuccess, student_create_many s ?xs))"
    using assms by (simp add: upload_students_def Let_def)
  have "?xs = [] \<longleftrightarrow> (\<forall>r \<in> set rows. \<not> valid_input (row_to_input u r))"
    by (simp add: filter_empty_conv)
  then show ?thesis unfolding e by simp
qed

subsection \<open>Lemmas on recording a call\<close>

lemma prisma_status_name [simp]: "prisma_status (Some (call_status_name c)) = Inr c"
  by (simp add: prisma_status_def)

lemma prisma_interest_name [simp]: "prisma_interest (Some (interest_name k)) = Inr (Some k)"
  by (simp add: prisma_interest_def)

lemma student_update_found:
  "find_student s i = Some x \<Longrightarrow>
     student_update s i f = Inr (s\<lparr>st_students := map (\<lambda>y. if s_id y = i then f y else y) (st_students s)\<rparr>)"
  by (simp add: student_update_def)

text \<open>
  The guard on \<open>"OTHER"\<close> in \<open>updateStudent\<close> can never fire, because
  \<open>"OTHER"\<close> is a value of the \<open>Interest\<close> enumeration: the submitted
  interest is passed on unchanged.
\<close>

theorem normalize_interest_identity: "normalize_interest v = v"
  by (simp add: normalize_interest_def interest_values_def)

text \<open>
  C13: \<open>updateStudent\<close> checks no ownership and no role: for any signed-in
  user, valid form values and an existing student, it records the call on that
  student, stamping it with the caller's display name.
\<close>

theorem update_student_any_caller:
  assumes "find_student s i = Some x"
    and "form_get fd ''status'' = Some (call_status_name c)"
    and "form_get fd ''interest'' = Some (interest_name k)"
  shows "update_student s (Some p) i fd =
     Inr (RVoid, s\<lparr>st_students := map (\<lambda>y. if s_id y = i then
        record_call c (Some k) (form_get fd ''notes'') (form_get fd ''prevCourse'') (updater_name p) y
        else y) (st_students s)\<rparr>)"
  using assms
  by (simp add: update_student_def normalize_interest_def interest_values_def student_update_found)

text \<open>
  C15: recording a call never changes which students exist, their (name, phone)
  keys, their owners or their creation stamps, nor any account.
\<close>

theorem update_student_frame:
  assumes "update_student s sess i fd = Inr (r, s')"
  shows "map (\<lambda>x. (s_id x, student_key x, s_uploaded_by x, s_created x)) (st_students s') =
         map (\<lambda>x. (s_id x, student_key x, s_uploaded_by x, s_created x)) (st_students s) \<and>
         st_users s' = st_users s"
proof -
  obtain p st fi where s': "s' = s\<lparr>st_students :=
      map (\<lambda>y. if s_id y = i then record_call st fi (form_get fd ''notes'') (form_get fd ''prevCourse'')
                                   (updater_name p) y else y) (st_students s)\<rparr>"
    using assms
    by (fastforce simp: update_student_def student_update_def Let_def split: option.splits sum.splits if_splits)
  have "\<And>y. (\<lambda>x. (s_id x, student_key x, s_uploaded_by x, s_created x)) (record_call st fi n pc w y)
      = (\<lambda>x. (s_id x, student_key x, s_uploaded_by x, s_created x)) y" for st fi n pc w
    by (simp add: record_call_def student_key_def)
  then show ?thesis unfolding s' by (simp add: map_key_preserving)
qed

subsection \<open>Lemmas on the queries\<close>

lemma call_status_values_complete [simp]: "c \<in> set call_status_values"
  by (cases c) (simp_all add: call_status_values_def)

lemma interest_values_complete [simp]: "k \<in> set interest_values"
  by (cases k) (simp_all add: interest_values_def)

lemma where_uploaded_None [simp]: "where_uploaded None xs = xs"
  by (simp add: where_uploaded_def)

lemma where_uploaded_Some [simp]: "where_uploaded (Some u) xs = filter (\<lambda>x. s_uploaded_by x = u) xs"
  by (simp add: where_uploaded_def)

text \<open>
  C16: the visibility asymmetry: an admin's calling list holds only the
  students the admin uploaded, newest first, while the same admin's dashboard
  total counts every student.
\<close>

theorem admin_list_vs_stats:
  assumes "p_role p = Some ADMIN" and "p_id p = Some u"
  shows "students_page s (Some p) =
           Inr (order_desc s_created (filter (\<lambda>x. s_uploaded_by x = u) (st_students s))) \<and>
         map_option ds_total (get_dashboard_stats s (Some p)) = Some (length (st_students s))"
  using assms
  by (simp add: students_page_def get_dashboard_stats_def list_where_def stats_where_def is_manager_def
      Let_def)

text \<open>
  For a caller who is neither admin nor super admin (faculty, or an
  account whose role can no longer be read), the dashboard counts only the
  students that caller uploaded.
\<close>

theorem non_manager_stats_own:
  assumes "\<not> is_manager (p_role p)" and "p_id p = Some u"
  shows "map_option ds_total (get_dashboard_stats s (Some p)) =
           Some (length (filter (\<lambda>x. s_uploaded_by x = u) (st_students s)))"
  using assms by (simp add: get_dashboard_stats_def stats_where_def Let_def)

text \<open>
  The call-status groups of the dashboard partition its total, and the
  interest groups count at most that many students.
\<close>

theorem dashboard_groups_total:
  assumes "get_dashboard_stats s sess = Some d"
  shows "sum_list (map snd (ds_status d)) = ds_total d \<and> sum_list (map snd (ds_interest d)) \<le> ds_total d"
proof (cases sess)
  case None
  with assms show ?thesis by (simp add: get_dashboard_stats_def)
next
  case (Some p)
  let ?xs = "where_uploaded (stats_where p) (st_students s)"
  have d: "d = \<lparr>ds_total = length ?xs,
        ds_interest = group_count s_future_interest (filter (\<lambda>x. s_future_interest x \<noteq> None) ?xs),
        ds_status = group_count s_call_status ?xs\<rparr>"
    using assms Some by (simp add: get_dashboard_stats_def Let_def)
  show ?thesis by (simp add: d sum_group_count)
qed

text \<open>
  The calling list is ordered newest first and holds exactly the students
  the visibility filter selects.
\<close>

theorem students_page_sorted:
  assumes "students_page s sess = Inr xs"
  shows "\<exists>p. sess = Some p \<and> sorted_wrt (\<lambda>a b. s_created b \<le> s_created a) xs \<and>
           mset xs = mset (where_uploaded (list_where p) (st_students s))"
  using assms by (auto simp: students_page_def order_desc_sorted split: option.splits)

subsection \<open>Witnesses\<close>

lemma demo_upload:
  "upload_students demo_store (Some (principal_of demo_faculty)) demo_rows =
     Inr (RSuccess, student_create_many demo_store demo_inputs)"
  by code_simp

theorem upload_students_effect_witness:
  "wf_store demo_store \<and>
   upload_students demo_store (Some (principal_of demo_faculty)) demo_rows =
     Inr (RSuccess, student_create_many demo_store demo_inputs) \<and>
   (\<exists>u new. p_id (principal_of demo_faculty) = Some u \<and>
     st_students (student_create_many demo_store demo_inputs) = st_students demo_store @ new \<and>
     (\<forall>x \<in> set new. s_uploaded_by x = u \<and> s_call_status x = NOT_CALLED \<and> s_last_updated_by x = None) \<and>
     set (map student_key (st_students (student_create_many demo_store demo_inputs))) =
       set (map student_key (st_students demo_store)) \<union>
       input_key ` set (filter valid_input (map (row_to_input u) demo_rows)) \<and>
     distinct (map student_key (st_students (student_create_many demo_store demo_inputs))) \<and>
     st_users (student_create_many demo_store demo_inputs) = st_users demo_store)"
proof -
  have h1: "wf_store demo_store" by code_simp
  show ?thesis using upload_students_effect [OF h1 demo_upload] h1 demo_upload by blast
qed

theorem upload_students_idempotent_witness:
  "upload_students demo_store (Some (principal_of demo_faculty)) demo_rows =
     Inr (RSuccess, student_create_many demo_store demo_inputs) \<and>
   (\<exists>s''. upload_students (student_create_many demo_store demo_inputs)
            (Some (principal_of demo_faculty)) demo_rows = Inr (RSuccess, s'') \<and>
         st_students s'' = st_students (student_create_many demo_store demo_inputs) \<and>
         st_users s'' = st_users (student_create_many demo_store demo_inputs))"
  using upload_students_idempotent [OF demo_upload] demo_upload by blast

theorem upload_students_rejects_witness:
  "p_id (principal_of demo_faculty) = Some ''c2'' \<and>
   upload_students demo_store (Some (principal_of demo_faculty)) [[(''Phone'', CStr ''789'')]] =
     Inr (RError ''No valid students found.'', demo_store)"
proof -
  have h1: "p_id (principal_of demo_faculty) = Some ''c2''" by (simp add: demo_defs)
  have h2: "''c2'' \<noteq> []" by simp
  have inv: "\<forall>r \<in> set [[(''Phone'', CStr ''789'')]]. \<not> valid_input (row_to_input ''c2'' r)"
    by code_simp
  have "upload_students demo_store (Some (principal_of demo_faculty)) [[(''Phone'', CStr ''789'')]] =
     Inr (RError ''No valid students found.'', demo_store)"
    by (rule iffD2 [OF conjunct1 [OF upload_students_rejects [OF h1 h2]] inv])
  then show ?thesis using h1 by simp
qed

theorem update_student_any_caller_witness:
  "find_student demo_store ''c3'' = Some demo_student \<and>
   form_get demo_call_form ''status'' = Some (call_status_name INTERESTED) \<and>
   form_get demo_call_form ''interest'' = Some (interest_name MCA) \<and>
   update_student demo_store (Some (principal_of demo_admin)) ''c3'' demo_call_form =
     Inr (RVoid, demo_store\<lparr>st_students :=
       [record_call INTERESTED (Some MCA) (Some ''call again'') None ''Asha'' demo_student]\<rparr>)"
proof -
  have h1: "find_student demo_store ''c3'' = Some demo_student"
    by (simp add: find_student_def demo_defs)
  have h2: "form_get demo_call_form ''status'' = Some (call_status_name INTERESTED)"
    by (simp add: form_get_def demo_call_form_def)
  have h3: "form_get demo_call_form ''interest'' = Some (interest_name MCA)"
    by (simp add: form_get_def demo_call_form_def)
  show ?thesis
    using update_student_any_caller [OF h1 h2 h3, of "principal_of demo_admin"] h1 h2 h3
    by (simp add: demo_defs form_get_def demo_call_form_def updater_name_def)
qed

theorem update_student_frame_witness:
  "update_student demo_store (Some (principal_of demo_admin)) ''c3'' demo_call_form =
     Inr (RVoid, demo_store\<lparr>st_students :=
       [record_call INTERESTED (Some MCA) (Some ''call again'') None ''Asha'' demo_student]\<rparr>) \<and>
   map (\<lambda>x. (s_id x, student_key x, s_uploaded_by x, s_created x))
     [record_call INTERESTED (Some MCA) (Some ''call again'') None ''Asha'' demo_student] =
   map (\<lambda>x. (s_id x, student_key x, s_uploaded_by x, s_created x)) (st_students demo_store)"
proof -
  have h: "update_student demo_store (Some (principal_of demo_admin)) ''c3'' demo_call_form =
     Inr (RVoid, demo_store\<lparr>st_students :=
       [record_call INTERESTED (Some MCA) (Some ''call again'') None ''Asha'' demo_student]\<rparr>)"
    by code_simp
  show ?thesis using update_student_frame [OF h] h by simp
qed

theorem admin_list_vs_stats_witness:
  "p_role (principal_of demo_admin) = Some ADMIN \<and> p_id (principal_of demo_admin) = Some ''c1'' \<and>
   students_page demo_store (Some (principal_of demo_admin)) = Inr [] \<and>
   map_option ds_total (get_dashboard_stats demo_store (Some (principal_of demo_admin))) = Some 1"
proof -
  have h1: "p_role (principal_of demo_admin) = Some ADMIN" by (simp add: demo_defs)
  have h2: "p_id (principal_of demo_admin) = Some ''c1''" by (simp add: demo_defs)
  show ?thesis
    using admin_list_vs_stats [OF h1 h2, of demo_store] h1 h2 by (simp add: demo_defs order_desc_def)
qed

theorem non_manager_stats_own_witness:
  "\<not> is_manager (p_role (principal_of demo_faculty)) \<and> p_id (principal_of demo_faculty) = Some ''c2'' \<and>
   map_option ds_total (get_dashboard_stats demo_store (Some (principal_of demo_faculty))) = Some 1"
proof -
  have h1: "\<not> is_manager (p_role (principal_of demo_faculty))" by (simp add: demo_defs is_manager_def)
  have h2: "p_id (principal_of demo_faculty) = Some ''c2''" by (simp add: demo_defs)
  show ?thesis using non_manager_stats_own [OF h1 h2, of demo_store] h1 h2 by (simp add: demo_defs)
qed

theorem dashboard_groups_total_witness:
  "get_dashboard_stats demo_store (Some (principal_of demo_super)) =
     Some \<lparr>ds_total = 1, ds_interest = [], ds_status = [(NOT_CALLED, 1)]\<rparr> \<and>
   sum_list (map snd [(NOT_CALLED, 1::nat)]) = 1 \<and> sum_list (map snd ([] :: (interest option \<times> nat) list)) \<le> 1"
proof -
  have h: "get_dashboard_stats demo_store (Some (principal_of demo_super)) =
     Some \<lparr>ds_total = 1, ds_interest = [], ds_status = [(NOT_CALLED, 1)]\<rparr>" by code_simp
  show ?thesis using dashboard_groups_total [OF h] h by simp
qed

theorem students_page_sorted_witness:
  "students_page demo_store (Some (principal_of demo_super)) = Inr [demo_student] \<and>
   sorted_wrt (\<lambda>a b. s_created b \<le> s_created a) [demo_student] \<and>
   mset [demo_student] = mset (where_uploaded (list_where (principal_of demo_super)) (st_students demo_store))"
proof -
  have h: "students_page demo_store (Some (principal_of demo_super)) = Inr [demo_student]" by code_simp
  show ?thesis using students_page_sorted [OF h] h by auto
qed

end
