(* ===== verification/System.thy ===== *)
theory System
  imports Accounts Students
begin

text \<open>
  The whole server: a request is one server action submitted by a browser that
  may hold a session token; the session user is rebuilt from the token and the
  current store (\<open>auth()\<close>), then the action runs. The seed script creates
  the first super admin. The reachable stores are those obtained from the
  seeded empty store by any sequence of requests, with any tokens, including
  tokens of accounts that have since been deleted; the seed may be rerun.
  Invariants over reachable stores are proved by rule induction.
\<close>

datatype request =
    Upload "row list"
  | UpdateStudent sid form
  | CreateFaculty form
  | DeleteFaculty form
  | ResetPassword form
  | UpdateRole form
  | UpdateOwnPassword form

definition handle :: "store \<Rightarrow> principal option \<Rightarrow> request \<Rightarrow> (reply \<times> store) result" where
  "handle s sess rq =
     (case rq of
        Upload rows \<Rightarrow> upload_students s sess rows
      | UpdateStudent i fd \<Rightarrow> update_student s sess i fd
      | CreateFaculty fd \<Rightarrow> create_faculty s sess fd
      | DeleteFaculty fd \<Rightarrow> delete_faculty s sess fd
      | ResetPassword fd \<Rightarrow> admin_reset_password s sess fd
      | UpdateRole fd \<Rightarrow> update_user_role s sess fd
      | UpdateOwnPassword fd \<Rightarrow> update_own_password s sess fd)"

definition serve :: "store \<Rightarrow> token option \<Rightarrow> request \<Rightarrow> (reply \<times> store) result" where
  "serve s tk rq = handle s (auth s tk) rq"

text \<open>\<open>prisma.user.upsert\<close> of \<open>src/prisma/seed.ts\<close>: create the super admin unless the e-mail exists.\<close>

definition seed :: "store \<Rightarrow> store" where
  "seed s =
     (case find_user_by_email s ''admin@college.edu'' of
        Some _ \<Rightarrow> s
      | None \<Rightarrow> (case user_create s ''Super Admin'' ''admin@college.edu'' (Bcrypt ''admin123'') SUPER_ADMIN of
                   Inl _ \<Rightarrow> s | Inr s' \<Rightarrow> s'))"

definition empty_store :: store where
  "empty_store = \<lparr>st_users = [], st_students = [], st_next = 0, st_clock = 0\<rparr>"

inductive reachable :: "store \<Rightarrow> bool" where
  init: "reachable (seed empty_store)"
| reseed: "reachable s \<Longrightarrow> reachable (seed s)"
| request: "reachable s \<Longrightarrow> serve s tk rq = Inr (r, s') \<Longrightarrow> reachable s'"

definition has_super_admin :: "store \<Rightarrow> bool" where
  "has_super_admin s \<longleftrightarrow> list_ex (\<lambda>u. u_role u = SUPER_ADMIN) (st_users s)"

definition role_of :: "store \<Rightarrow> uid \<Rightarrow> role option" where
  "role_of s i = map_option u_role (find_user s i)"


text \<open>Example form used by the witnesses.\<close>

definition demo_reset_form :: form where
  "demo_reset_form = [(''id'', ''c2''), (''newPassword'', ''newpass1'')]"

subsection \<open>What each action can do to the store\<close>

lemma create_faculty_Inr_cases:
  assumes "create_faculty s sess fd = Inr (r, s')"
  obtains p n e w where "sess = Some p" "is_manager (p_role p)"
    "user_create s n e (Bcrypt w) FACULTY = Inr s'"
  using assms
  by (auto simp: create_faculty_def session_user_of_def bcrypt_hash_def
      split: option.splits if_splits sum.splits)

lemma delete_faculty_Inr_cases:
  assumes res: "delete_faculty s sess fd = Inr (r, s')"
  obtains "s' = s"
  | p i t where "sess = Some p" "is_manager (p_role p)" "form_get fd ''id'' = Some i"
    "find_user s i = Some t" "\<not> (p_role p = Some ADMIN \<and> u_role t \<noteq> FACULTY)" "p_id p \<noteq> Some i"
    "s' = s\<lparr>st_users := filter (\<lambda>u. u_id u \<noteq> i) (st_users s)\<rparr>"
proof (cases sess)
  case None
  with res show thesis by (simp add: delete_faculty_def session_user_of_def)
next
  case (Some p)
  note sp = this
  show thesis
  proof (cases "is_manager (p_role p)")
    case False
    with res sp show thesis by (simp add: delete_faculty_def session_user_of_def)
  next
    case mgr: True
    show thesis
    proof (cases "form_get fd ''id''")
      case None
      with res sp mgr show thesis by (simp add: delete_faculty_def session_user_of_def)
    next
      case (Some i)
      note fi = this
      show thesis
      proof (cases "find_user s i")
        case None
        with res sp mgr fi have "s' = s" by (simp add: delete_faculty_def session_user_of_def)
        then show thesis by (rule that(1))
      next
        case (Some t)
        note ft = this
        let ?guard = "p_role p = Some ADMIN \<and> (u_role t = ADMIN \<or> u_role t = SUPER_ADMIN)"
        have res': "(if ?guard then Inl AdminsOnlyRemoveFaculty
              else if same_id (Some i) (p_id p) then Inr (RVoid, s)
              else (case user_delete s i of Inl e \<Rightarrow> Inl e | Inr s' \<Rightarrow> Inr (RVoid, s'))) = Inr (r, s')"
          using res sp mgr fi ft by (simp add: delete_faculty_def session_user_of_def)
        show thesis
        proof (cases ?guard)
          case True
          with res' show thesis by simp
        next
          case ng: False
          then have g: "\<not> (p_role p = Some ADMIN \<and> u_role t \<noteq> FACULTY)"
            by (simp add: role_not_faculty_iff)
          show thesis
          proof (cases "same_id (Some i) (p_id p)")
            case True
            with res' ng have "s' = s" by simp
            then show thesis by (rule that(1))
          next
            case False
            with res' ng user_delete_found [OF ft]
            have "s' = s\<lparr>st_users := filter (\<lambda>u. u_id u \<noteq> i) (st_users s)\<rparr>" by simp
            moreover from False have "p_id p \<noteq> Some i" by (simp add: same_id_Some)
            ultimately show thesis using that(2) [OF sp mgr fi ft g] by blast
          qed
        qed
      qed
    qed
  qed
qed

lemma admin_reset_password_Inr_cases:
  assumes "admin_reset_password s sess fd = Inr (r, s')"
  obtains p i w t where "sess = Some p" "is_manager (p_role p)" "form_get fd ''id'' = Some i"
    "find_user s i = Some t" "\<not> (p_role p = Some ADMIN \<and> u_role t \<noteq> FACULTY)"
    "s' = s\<lparr>st_users := map (\<lambda>u. if u_id u = i then set_password w u else u) (st_users s)\<rparr>"
    "6 \<le> length w"
  using assms that
  by (auto simp: admin_reset_password_def session_user_of_def Let_def user_update_found role_not_faculty_iff
      password_too_short_def split: option.splits if_splits sum.splits)

lemma update_user_role_Inr_cases:
  assumes res: "update_user_role s sess fd = Inr (r, s')"
  obtains "s' = s"
  | p i nr where "sess = Some p" "p_role p = Some SUPER_ADMIN" "form_get fd ''id'' = Some i"
    "p_id p \<noteq> Some i" "find_user s i \<noteq> None"
    "s' = s\<lparr>st_users := map (\<lambda>u. if u_id u = i then set_role nr u else u) (st_users s)\<rparr>"
proof (cases sess)
  case None
  with res show thesis by (simp add: update_user_role_def session_user_of_def)
next
  case (Some p)
  note sp = this
  show thesis
  proof (cases "p_role p = Some SUPER_ADMIN")
    case False
    with res sp have "s' = s" by (simp add: update_user_role_def session_user_of_def)
    then show thesis by (rule that(1))
  next
    case sa: True
    show thesis
    proof (cases "same_id (form_get fd ''id'') (p_id p)")
      case True
      with res sp sa have "s' = s" by (simp add: update_user_role_def session_user_of_def Let_def)
      then show thesis by (rule that(1))
    next
      case ns: False
      have res': "(case (form_get fd ''id'', map_option parse_role (form_get fd ''newRole'')) of
            (Some i, Some (Some r)) \<Rightarrow>
              (case user_update s i (set_role r) of Inl e \<Rightarrow> Inl e | Inr s' \<Rightarrow> Inr (RSuccess, s'))
          | _ \<Rightarrow> Inl InvalidValue) = Inr (r, s')"
        using res sp sa ns by (simp add: update_user_role_def session_user_of_def Let_def)
      obtain i nr where fi: "form_get fd ''id'' = Some i"
        and upd: "user_update s i (set_role nr) = Inr s'"
        using res' by (auto split: option.splits sum.splits)
      have "find_user s i \<noteq> None" and "s' = s\<lparr>st_users := map (\<lambda>u. if u_id u = i then set_role nr u else u) (st_users s)\<rparr>"
        using upd by (auto simp: user_update_def split: if_splits)
      moreover have "p_id p \<noteq> Some i" using ns fi by (simp add: same_id_Some)
      ultimately show thesis using that(2) [OF sp sa fi] by blast
    qed
  qed
qed

lemma update_own_password_Inr_cases:
  assumes "update_own_password s sess fd = Inr (r, s')"
  obtains p i w where "sess = Some p" "p_id p = Some i"
    "s' = s\<lparr>st_users := map (\<lambda>u. if u_id u = i then set_password w u else u) (st_users s)\<rparr>"
    "6 \<le> length w" "find_user s i \<noteq> None"
  using assms
  by (auto simp: update_own_password_def Let_def user_update_def password_too_short_def
      split: option.splits if_splits sum.splits)

lemma update_student_Inr_cases:
  assumes "update_student s sess i fd = Inr (r, s')"
  obtains f where "student_update s i f = Inr s'" "\<And>x. s_id (f x) = s_id x"
    "\<And>x. student_key (f x) = student_key x" "\<And>x. s_uploaded_by (f x) = s_uploaded_by x"
    "\<And>x. s_created (f x) = s_created x"
  using assms
  by (auto simp: update_student_def Let_def record_call_def student_key_def
      split: option.splits sum.splits)


subsection \<open>Helper facts on account tables\<close>

lemma wf_store_users_map:
  assumes "wf_store s" and "\<And>u. u_id (f u) = u_id u" and "\<And>u. u_email (f u) = u_email u"
  shows "wf_store (s\<lparr>st_users := map f (st_users s)\<rparr>)"
  using assms by (intro wf_store_users_keys) (simp_all add: map_key_preserving)

lemma set_password_keys [simp]:
  "u_id (set_password w u) = u_id u" "u_email (set_password w u) = u_email u"
  "u_role (set_password w u) = u_role u"
  by (simp_all add: set_password_def)

lemma set_role_keys [simp]:
  "u_id (set_role r u) = u_id u" "u_email (set_role r u) = u_email u"
  by (simp_all add: set_role_def)

lemma map_at_member:
  "v \<in> set (map (\<lambda>u. if u_id u = i then g u else u) us) \<Longrightarrow>
     \<exists>w \<in> set us. v = (if u_id w = i then g w else w)"
  by auto

lemma map_at_keeps:
  assumes "v \<in> set us" and "u_id v \<noteq> i"
  shows "v \<in> set (map (\<lambda>u. if u_id u = i then g u else u) us)"
  unfolding set_map by (rule rev_image_eqI [OF assms(1)]) (simp add: assms(2))

lemma has_super_admin_iff: "has_super_admin s \<longleftrightarrow> (\<exists>u \<in> set (st_users s). u_role u = SUPER_ADMIN)"
  by (simp add: has_super_admin_def list_ex_iff)

lemma user_create_users: "user_create s n e h r = Inr s' \<Longrightarrow> st_users s' = st_users s @ [new_user s n e h r]"
  by (auto simp: user_create_def split: if_splits)

lemma user_create_students: "user_create s n e h r = Inr s' \<Longrightarrow> st_students s' = st_students s"
  by (auto simp: user_create_def split: if_splits)

lemma student_update_users: "student_update s i f = Inr s' \<Longrightarrow> st_users s' = st_users s"
  by (auto simp: student_update_def split: if_splits)

lemma upload_students_users:
  "upload_students s sess rows = Inr (r, s') \<Longrightarrow> st_users s' = st_users s"
  by (erule upload_students_cases) simp_all

lemma auth_actor:
  assumes "auth s tk = Some p" and "p_role p = Some r"
  obtains a ua where "p_id p = Some a" "ua \<in> set (st_users s)" "u_id ua = a" "u_role ua = r"
proof -
  obtain a ua where pa: "p_id p = Some a" and fu: "find_user s a = Some ua" and ro: "u_role ua = r"
    using auth_role_Some [OF assms] by blast
  from fu have mem: "ua \<in> set (st_users s)" and ia: "u_id ua = a" by auto
  from pa mem ia ro show thesis by (rule that)
qed

lemma wf_same_id_user:
  "wf_store s \<Longrightarrow> u \<in> set (st_users s) \<Longrightarrow> v \<in> set (st_users s) \<Longrightarrow> u_id u = u_id v \<Longrightarrow> u = v"
  unfolding wf_store_def by (elim conjE) (rule distinct_map_key_eq)

lemma handle_cases [consumes 1, case_names Upload UpdateStudent CreateFaculty DeleteFaculty
    ResetPassword UpdateRole UpdateOwnPassword]:
  assumes "handle s sess rq = Inr (r, s')"
  obtains rows where "upload_students s sess rows = Inr (r, s')"
  | i fd where "update_student s sess i fd = Inr (r, s')"
  | fd where "create_faculty s sess fd = Inr (r, s')"
  | fd where "delete_faculty s sess fd = Inr (r, s')"
  | fd where "admin_reset_password s sess fd = Inr (r, s')"
  | fd where "update_user_role s sess fd = Inr (r, s')"
  | fd where "update_own_password s sess fd = Inr (r, s')"
  using assms by (cases rq) (auto simp: handle_def intro: that)


subsection \<open>Every request keeps the store well-formed\<close>

lemma handle_wf:
  assumes wf: "wf_store s" and res: "handle s sess rq = Inr (r, s')"
  shows "wf_store s'"
  using res
proof (cases rule: handle_cases)
  case (Upload rows)
  then show ?thesis by (cases rule: upload_students_cases) (simp_all add: wf student_create_many_wf)
next
  case (UpdateStudent i fd)
  then show ?thesis by (cases rule: update_student_Inr_cases) (rule student_update_wf [OF wf])
next
  case (CreateFaculty fd)
  then show ?thesis by (cases rule: create_faculty_Inr_cases) (erule user_create_wf [OF wf])
next
  case (DeleteFaculty fd)
  then show ?thesis by (cases rule: delete_faculty_Inr_cases) (simp_all add: wf wf_store_users_filter)
next
  case (ResetPassword fd)
  then show ?thesis by (cases rule: admin_reset_password_Inr_cases) (simp add: wf wf_store_users_map)
next
  case (UpdateRole fd)
  then show ?thesis by (cases rule: update_user_role_Inr_cases) (simp_all add: wf wf_store_users_map)
next
  case (UpdateOwnPassword fd)
  then show ?thesis by (cases rule: update_own_password_Inr_cases) (simp add: wf wf_store_users_map)
qed

lemma empty_store_wf: "wf_store empty_store"
  by (simp add: empty_store_def wf_store_def issued_def)

lemma seed_cases:
  obtains "seed s = s"
  | "user_create s ''Super Admin'' ''admin@college.edu'' (Bcrypt ''admin123'') SUPER_ADMIN = Inr (seed s)"
proof (cases "find_user_by_email s ''admin@college.edu''")
  case None
  show thesis
  proof (cases "user_create s ''Super Admin'' ''admin@college.edu'' (Bcrypt ''admin123'') SUPER_ADMIN")
    case (Inl e)
    with None have "seed s = s" by (simp add: seed_def)
    then show thesis by (rule that(1))
  next
    case (Inr s')
    with None have "user_create s ''Super Admin'' ''admin@college.edu'' (Bcrypt ''admin123'') SUPER_ADMIN
        = Inr (seed s)" by (simp add: seed_def)
    then show thesis by (rule that(2))
  qed
next
  case (Some u)
  then have "seed s = s" by (simp add: seed_def)
  then show thesis by (rule that(1))
qed

lemma seed_wf: "wf_store s \<Longrightarrow> wf_store (seed s)"
  by (cases s rule: seed_cases) (simp_all add: user_create_wf)

subsection \<open>Reachable stores: well-formed, with a super admin\<close>

lemma has_super_admin_map:
  assumes "has_super_admin s" and "\<And>u. u_role (f u) = u_role u"
  shows "has_super_admin (s\<lparr>st_users := map f (st_users s)\<rparr>)"
  using assms by (auto simp: has_super_admin_iff)

lemma has_super_admin_keep:
  "u \<in> set (st_users s') \<Longrightarrow> u_role u = SUPER_ADMIN \<Longrightarrow> has_super_admin s'"
  by (auto simp: has_super_admin_iff)

lemma delete_keeps_super_admin:
  assumes wf: "wf_store s" and hs: "has_super_admin s" and au: "auth s tk = Some p"
    and fi: "find_user s i = Some t" and g: "\<not> (p_role p = Some ADMIN \<and> u_role t \<noteq> FACULTY)"
    and mg: "is_manager (p_role p)" and ni: "p_id p \<noteq> Some i"
  shows "has_super_admin (s\<lparr>st_users := filter (\<lambda>u. u_id u \<noteq> i) (st_users s)\<rparr>)"
proof (cases "u_role t = SUPER_ADMIN")
  case True
  with g mg have sa: "p_role p = Some SUPER_ADMIN" by (auto simp: is_manager_def)
  obtain a ua where "p_id p = Some a" "ua \<in> set (st_users s)" "u_id ua = a" "u_role ua = SUPER_ADMIN"
    by (rule auth_actor [OF au sa])
  with ni show ?thesis by (intro has_super_admin_keep [of ua]) auto
next
  case False
  obtain w where w: "w \<in> set (st_users s)" "u_role w = SUPER_ADMIN" using hs by (auto simp: has_super_admin_iff)
  have "t \<in> set (st_users s)" "u_id t = i" using fi by auto
  with w False wf have "u_id w \<noteq> i" using wf_same_id_user by blast
  with w show ?thesis by (intro has_super_admin_keep [of w]) auto
qed

lemma serve_keeps_super_admin:
  assumes wf: "wf_store s" and hs: "has_super_admin s" and res: "serve s tk rq = Inr (r, s')"
  shows "has_super_admin s'"
proof -
  have "handle s (auth s tk) rq = Inr (r, s')" using res by (simp add: serve_def)
  then show ?thesis
  proof (cases rule: handle_cases)
    case (Upload rows)
    then show ?thesis using hs by (simp add: has_super_admin_def upload_students_users)
  next
    case (UpdateStudent i fd)
    then show ?thesis using hs
      by (cases rule: update_student_Inr_cases) (simp add: has_super_admin_def student_update_users)
  next
    case (CreateFaculty fd)
    then show ?thesis using hs by (cases rule: create_faculty_Inr_cases) (auto simp: has_super_admin_iff user_create_users)
  next
    case (DeleteFaculty fd)
    then show ?thesis
    proof (cases rule: delete_faculty_Inr_cases)
      case 1
      then show ?thesis using hs by simp
    next
      case (2 p i t)
      then show ?thesis using delete_keeps_super_admin [OF wf hs _ 2(4,5,2,6)] by simp
    qed
  next
    case (ResetPassword fd)
    then show ?thesis using hs by (cases rule: admin_reset_password_Inr_cases) (simp add: has_super_admin_map)
  next
    case (UpdateRole fd)
    then show ?thesis
    proof (cases rule: update_user_role_Inr_cases)
      case 1
      then show ?thesis using hs by simp
    next
      case (2 p i nr)
      then obtain a ua where "p_id p = Some a" "ua \<in> set (st_users s)" "u_id ua = a" "u_role ua = SUPER_ADMIN"
        by (metis auth_actor)
      with 2 show ?thesis by (intro has_super_admin_keep [of ua]) (auto intro: map_at_keeps)
    qed
  next
    case (UpdateOwnPassword fd)
    then show ?thesis using hs by (cases rule: update_own_password_Inr_cases) (simp add: has_super_admin_map)
  qed
qed

lemma seed_has_super_admin: "has_super_admin s \<Longrightarrow> has_super_admin (seed s)"
  by (cases s rule: seed_cases) (auto simp: has_super_admin_iff user_create_users)

lemma seed_empty_has_super_admin: "has_super_admin (seed empty_store)"
  by (simp add: seed_def empty_store_def find_user_by_email_def user_create_def new_user_def
      has_super_admin_def)

lemma reachable_wf_super_admin: "reachable s \<Longrightarrow> wf_store s \<and> has_super_admin s"
proof (induction rule: reachable.induct)
  case init
  show ?case using seed_wf [OF empty_store_wf] seed_empty_has_super_admin by simp
next
  case (reseed s)
  then show ?case using seed_wf seed_has_super_admin by simp
next
  case (request s tk rq r s')
  then show ?case using serve_keeps_super_admin handle_wf by (auto simp: serve_def)
qed

text \<open>
  C20: every reachable store is well-formed (account identifiers and e-mails
  are unique, student identifiers and (name, phone) keys are unique, and all
  identifiers were drawn from the identifier counter) and some account in it
  holds the SUPER_ADMIN role: no one can delete or demote themselves, and
  removing or demoting a super admin takes another super admin, who remains.
\<close>

theorem reachable_wf: "reachable s \<Longrightarrow> wf_store s \<and> has_super_admin s"
  by (rule reachable_wf_super_admin)


subsection \<open>Students and their owners\<close>

lemma student_update_member:
  assumes "student_update s i f = Inr s'" and "x \<in> set (st_students s)"
  shows "f x \<in> set (st_students s') \<or> x \<in> set (st_students s')"
  using assms by (auto simp: student_update_def image_iff split: if_splits)

lemma handle_students_cases [consumes 1, case_names Same Update Upload]:
  assumes "handle s sess rq = Inr (r, s')"
  obtains "st_students s' = st_students s"
  | i f where "student_update s i f = Inr s'" "\<And>x. s_id (f x) = s_id x"
      "\<And>x. student_key (f x) = student_key x" "\<And>x. s_uploaded_by (f x) = s_uploaded_by x"
      "\<And>x. s_created (f x) = s_created x"
  | p u rows where "sess = Some p" "p_id p = Some u" "u \<noteq> []"
      "s' = student_create_many s (filter valid_input (map (row_to_input u) rows))"
  using assms
proof (cases rule: handle_cases)
  case (Upload rows)
  then show thesis by (cases rule: upload_students_cases) (simp_all add: that)
next
  case (UpdateStudent i fd)
  then show thesis by (cases rule: update_student_Inr_cases) (rule that(2))
next
  case (CreateFaculty fd)
  then show thesis by (cases rule: create_faculty_Inr_cases) (simp add: that user_create_students)
next
  case (DeleteFaculty fd)
  then show thesis by (cases rule: delete_faculty_Inr_cases) (simp_all add: that)
next
  case (ResetPassword fd)
  then show thesis by (cases rule: admin_reset_password_Inr_cases) (simp add: that)
next
  case (UpdateRole fd)
  then show thesis by (cases rule: update_user_role_Inr_cases) (simp_all add: that)
next
  case (UpdateOwnPassword fd)
  then show thesis by (cases rule: update_own_password_Inr_cases) (simp add: that)
qed

text \<open>
  C25: no request loses a student, and the student's identifier, (name, phone)
  key, owner and creation stamp never change.
\<close>

theorem request_keeps_students:
  assumes res: "serve s tk rq = Inr (r, s')" and x: "x \<in> set (st_students s)"
  shows "\<exists>y \<in> set (st_students s'). s_id y = s_id x \<and> student_key y = student_key x \<and>
           s_uploaded_by y = s_uploaded_by x \<and> s_created y = s_created x"
proof -
  have h: "handle s (auth s tk) rq = Inr (r, s')" using res by (simp add: serve_def)
  from h show ?thesis
  proof (cases rule: handle_students_cases)
    case Same
    then show ?thesis using x by auto
  next
    case (Update i f)
    then show ?thesis using student_update_member [OF Update(1) x] by (metis (no_types, lifting))
  next
    case (Upload p u rows)
    then obtain new where "st_students s' = st_students s @ new"
      using foldl_insert_skip_appends by (metis student_create_many_students)
    then show ?thesis using x by auto
  qed
qed

subsection \<open>Sessions of deleted accounts\<close>

lemma auth_deleted:
  assumes "t_sub tk = Some i" and "i \<noteq> []" and "find_user s i = None"
  shows "auth s (Some tk) = Some \<lparr>p_id = Some i, p_name = t_name tk, p_role = None\<rparr>"
  using assms by (simp add: auth_def jwt_callback_def session_callback_def)

text \<open>
  C26: the session of an account that has been deleted still resolves to a
  user with an identifier (its role is merely unreadable), so its token can
  still upload students, which are then owned by the deleted account.
\<close>

theorem deleted_account_still_uploads:
  assumes "t_sub tk = Some i" and "i \<noteq> []" and "find_user s i = None"
    and "filter valid_input (map (row_to_input i) rows) \<noteq> []"
  shows "serve s (Some tk) (Upload rows) =
           Inr (RSuccess, student_create_many s (filter valid_input (map (row_to_input i) rows)))"
  using assms by (simp add: serve_def handle_def auth_deleted upload_students_Some)


subsection \<open>Witnesses\<close>

lemma demo_store_wf: "wf_store demo_store"
  by code_simp

lemma demo_admin_session: "auth demo_store (Some (sign_in_token demo_admin)) = Some (principal_of demo_admin)"
  by (simp add: auth_def jwt_callback_def session_callback_def sign_in_token_def find_user_def demo_defs)

lemma demo_admin_reset:
  "serve demo_store (Some (sign_in_token demo_admin)) (ResetPassword demo_reset_form) =
     Inr (RSuccess, demo_store\<lparr>st_users := [demo_super, demo_admin, set_password ''newpass1'' demo_faculty]\<rparr>)"
  by code_simp

theorem reachable_wf_witness:
  "reachable (seed empty_store) \<and> wf_store (seed empty_store) \<and> has_super_admin (seed empty_store)"
  using reachable_wf [OF reachable.init] reachable.init by simp

theorem request_keeps_students_witness:
  "serve demo_store (Some (sign_in_token demo_admin)) (ResetPassword demo_reset_form) =
     Inr (RSuccess, demo_store\<lparr>st_users := [demo_super, demo_admin, set_password ''newpass1'' demo_faculty]\<rparr>) \<and>
   demo_student \<in> set (st_students demo_store) \<and>
   (\<exists>y \<in> set (st_students demo_store). s_id y = s_id demo_student \<and> student_key y = student_key demo_student \<and>
      s_uploaded_by y = s_uploaded_by demo_student \<and> s_created y = s_created demo_student)"
proof -
  have h: "demo_student \<in> set (st_students demo_store)" by (simp add: demo_defs)
  show ?thesis using request_keeps_students [OF demo_admin_reset h] demo_admin_reset h by simp
qed

theorem deleted_account_still_uploads_witness:
  "t_sub \<lparr>t_sub = Some ''c9'', t_name = Some ''Gone''\<rparr> = Some ''c9'' \<and> ''c9'' \<noteq> [] \<and>
   find_user demo_store ''c9'' = None \<and>
   filter valid_input (map (row_to_input ''c9'') demo_rows) \<noteq> [] \<and>
   serve demo_store (Some \<lparr>t_sub = Some ''c9'', t_name = Some ''Gone''\<rparr>) (Upload demo_rows) =
     Inr (RSuccess, student_create_many demo_store (filter valid_input (map (row_to_input ''c9'') demo_rows)))"
proof -
  have h1: "t_sub \<lparr>t_sub = Some ''c9'', t_name = Some ''Gone''\<rparr> = Some ''c9''" by simp
  have h2: "''c9'' \<noteq> []" by simp
  have h3: "find_user demo_store ''c9'' = None" by (simp add: find_user_def demo_defs)
  have h4: "filter valid_input (map (row_to_input ''c9'') demo_rows) \<noteq> []" by code_simp
  show ?thesis using deleted_account_still_uploads [OF h1 h2 h3 h4] h1 h2 h3 h4 by simp
qed

end
