(* ===== verification/Account_Policy.thy ===== *)
theory Account_Policy
  imports System
begin

text \<open>
  The access-control contract for staff accounts, stated abstractly as the
  specification words it (sections 4.1 and 4.3): the operations that may
  change the account table, their effect, and who may perform which.
  \<open>serve_account_effect\<close> shows that every request of the implementation is
  one permitted operation; the hierarchy properties follow from the contract
  alone.
\<close>

subsection \<open>The contract\<close>

datatype acct_op = Keep | Create user | Remove uid | SetPassword uid string | SetRole uid role

fun acct_apply :: "acct_op \<Rightarrow> user list \<Rightarrow> user list" where
  "acct_apply Keep us = us"
| "acct_apply (Create u) us = us @ [u]"
| "acct_apply (Remove i) us = filter (\<lambda>u. u_id u \<noteq> i) us"
| "acct_apply (SetPassword i w) us = map (\<lambda>u. if u_id u = i then set_password w u else u) us"
| "acct_apply (SetRole i r) us = map (\<lambda>u. if u_id u = i then set_role r u else u) us"

text \<open>The account an operation acts on, if any.\<close>

fun acct_target :: "acct_op \<Rightarrow> uid option" where
  "acct_target Keep = None"
| "acct_target (Create u) = None"
| "acct_target (Remove i) = Some i"
| "acct_target (SetPassword i w) = Some i"
| "acct_target (SetRole i r) = Some i"

text \<open>\<open>canManageAccount\<close>, \<open>canChangeRole\<close> and \<open>canCreateAccount\<close> of section 4.1.\<close>

definition spec_can_manage :: "principal \<Rightarrow> user \<Rightarrow> bool" where
  "spec_can_manage a t \<longleftrightarrow> p_id a \<noteq> Some (u_id t) \<and>
     (p_role a = Some SUPER_ADMIN \<or> (p_role a = Some ADMIN \<and> u_role t = FACULTY))"

definition spec_can_change_role :: "principal \<Rightarrow> bool" where
  "spec_can_change_role a \<longleftrightarrow> p_role a = Some SUPER_ADMIN"

definition spec_can_create :: "principal \<Rightarrow> bool" where
  "spec_can_create a \<longleftrightarrow> p_role a = Some SUPER_ADMIN \<or> p_role a = Some ADMIN"

text \<open>
  Who may perform which operation (section 4.3): create a faculty account with a
  fresh identifier; delete a manageable account; set a password of at least six
  characters on one's own account, or as a super admin on any account, or as an
  admin on a faculty account; change the role of another account as super admin.
\<close>

definition acct_allowed :: "store \<Rightarrow> principal option \<Rightarrow> acct_op \<Rightarrow> bool" where
  "acct_allowed s sess op =
     (case op of
        Keep \<Rightarrow> True
      | Create u \<Rightarrow>
          (case sess of None \<Rightarrow> False | Some a \<Rightarrow> spec_can_create a) \<and>
          u_role u = FACULTY \<and> u_id u = fresh_id s
      | Remove i \<Rightarrow>
          (case (sess, find_user s i) of (Some a, Some t) \<Rightarrow> spec_can_manage a t | _ \<Rightarrow> False)
      | SetPassword i w \<Rightarrow> 6 \<le> length w \<and>
          (case (sess, find_user s i) of
             (Some a, Some t) \<Rightarrow> p_id a = Some i \<or> p_role a = Some SUPER_ADMIN \<or>
                                 (p_role a = Some ADMIN \<and> u_role t = FACULTY)
           | _ \<Rightarrow> False)
      | SetRole i r \<Rightarrow> find_user s i \<noteq> None \<and>
          (case sess of None \<Rightarrow> False | Some a \<Rightarrow> spec_can_change_role a \<and> p_id a \<noteq> Some i))"

subsection \<open>Lemmas on the contract\<close>

lemma acct_apply_keeps:
  assumes "v \<in> set us" and "acct_target op \<noteq> Some (u_id v)"
  shows "v \<in> set (acct_apply op us)"
  using assms by (cases op) (auto intro: map_at_keeps)

lemma acct_apply_role_change:
  assumes d: "distinct (map u_id us)" and u: "u \<in> set us" and v: "v \<in> set (acct_apply op us)"
    and same: "u_id v = u_id u" and changed: "u_role v \<noteq> u_role u"
    and fresh: "\<And>w. op = Create w \<Longrightarrow> u_id w \<notin> u_id ` set us"
  shows "\<exists>r. op = SetRole (u_id u) r"
proof -
  have old: False if "x \<in> set us" "u_id x = u_id u" "u_role x \<noteq> u_role u" for x
    using distinct_map_key_eq [OF d that(1) u that(2)] that(3) by simp
  show ?thesis
  proof (cases op)
    case Keep
    with v have "v \<in> set us" by simp
    with same changed show ?thesis by (auto dest: old)
  next
    case (Create w)
    with v have "v \<in> set us \<or> v = w" by auto
    moreover have "u_id w \<noteq> u_id u" using fresh [OF Create] u by auto
    ultimately show ?thesis using same changed by (auto dest: old)
  next
    case (Remove i)
    with v have "v \<in> set us" by simp
    with same changed show ?thesis by (auto dest: old)
  next
    case (SetPassword i w)
    with v obtain x where x: "x \<in> set us" and vx: "v = (if u_id x = i then set_password w x else x)"
      by auto
    then have "u_id x = u_id u" "u_role x \<noteq> u_role u" using same changed by (simp_all split: if_splits)
    with x show ?thesis by (auto dest: old)
  next
    case (SetRole i r)
    with v obtain x where x: "x \<in> set us" and vx: "v = (if u_id x = i then set_role r x else x)"
      by auto
    show ?thesis
    proof (cases "u_id x = i")
      case True
      with vx same have "i = u_id u" by simp
      with SetRole show ?thesis by blast
    next
      case False
      with vx x same changed show ?thesis by (auto dest: old)
    qed
  qed
qed

text \<open>Every request changes the account table by one operation the contract permits.\<close>

lemma handle_account_effect:
  assumes "handle s sess rq = Inr (r, s')"
  shows "\<exists>op. acct_allowed s sess op \<and> st_users s' = acct_apply op (st_users s)"
  using assms
proof (cases rule: handle_cases)
  case (Upload rows)
  then show ?thesis by (intro exI [of _ Keep]) (simp add: acct_allowed_def upload_students_users)
next
  case (UpdateStudent i fd)
  then show ?thesis
    by (cases rule: update_student_Inr_cases) (intro exI [of _ Keep], simp add: acct_allowed_def student_update_users)
next
  case (CreateFaculty fd)
  then show ?thesis
  proof (cases rule: create_faculty_Inr_cases)
    case (1 p n e w)
    then show ?thesis
      by (intro exI [of _ "Create (new_user s n e (Bcrypt w) FACULTY)"])
        (simp add: acct_allowed_def spec_can_create_def is_manager_def new_user_def user_create_users)
  qed
next
  case (DeleteFaculty fd)
  then show ?thesis
  proof (cases rule: delete_faculty_Inr_cases)
    case 1
    then show ?thesis by (intro exI [of _ Keep]) (simp add: acct_allowed_def)
  next
    case (2 p i t)
    then have "u_id t = i" by auto
    with 2 show ?thesis
      by (intro exI [of _ "Remove i"]) (auto simp: acct_allowed_def spec_can_manage_def is_manager_def)
  qed
next
  case (ResetPassword fd)
  then show ?thesis
  proof (cases rule: admin_reset_password_Inr_cases)
    case (1 p i w t)
    then show ?thesis
      by (intro exI [of _ "SetPassword i w"]) (auto simp: acct_allowed_def is_manager_def)
  qed
next
  case (UpdateRole fd)
  then show ?thesis
  proof (cases rule: update_user_role_Inr_cases)
    case 1
    then show ?thesis by (intro exI [of _ Keep]) (simp add: acct_allowed_def)
  next
    case (2 p i nr)
    then show ?thesis
      by (intro exI [of _ "SetRole i nr"]) (simp add: acct_allowed_def spec_can_change_role_def)
  qed
next
  case (UpdateOwnPassword fd)
  then show ?thesis
  proof (cases rule: update_own_password_Inr_cases)
    case (1 p i w)
    then show ?thesis
      by (intro exI [of _ "SetPassword i w"]) (auto simp: acct_allowed_def split: option.splits)
  qed
qed

lemma serve_account_effect:
  "serve s tk rq = Inr (r, s') \<Longrightarrow>
     \<exists>op. acct_allowed s (auth s tk) op \<and> st_users s' = acct_apply op (st_users s)"
  unfolding serve_def by (rule handle_account_effect)


subsection \<open>Each permitted operation has a request that performs it\<close>

lemma remove_realised:
  assumes "find_user s i = Some t" and "spec_can_manage a t"
  shows "delete_faculty s (Some a) [(''id'', i)] =
           Inr (RVoid, s\<lparr>st_users := filter (\<lambda>u. u_id u \<noteq> i) (st_users s)\<rparr>)"
proof -
  have "u_id t = i" using assms(1) by auto
  with assms show ?thesis
    by (auto simp: delete_faculty_def session_user_of_def is_manager_def spec_can_manage_def form_get_def
        same_id_Some user_delete_found)
qed

lemma own_password_realised:
  assumes "p_id a = Some i" and "find_user s i = Some t" and "6 \<le> length w"
  shows "update_own_password s (Some a) [(''newPassword'', w)] =
           Inr (RSuccess, s\<lparr>st_users := map (\<lambda>u. if u_id u = i then set_password w u else u) (st_users s)\<rparr>)"
  using assms by (simp add: update_own_password_def password_too_short_def form_get_def user_update_found)

lemma reset_realised:
  assumes "find_user s i = Some t" and "6 \<le> length w"
    and "p_role a = Some SUPER_ADMIN \<or> (p_role a = Some ADMIN \<and> u_role t = FACULTY)"
  shows "admin_reset_password s (Some a) [(''id'', i), (''newPassword'', w)] =
           Inr (RSuccess, s\<lparr>st_users := map (\<lambda>u. if u_id u = i then set_password w u else u) (st_users s)\<rparr>)"
  using assms
  by (auto simp: admin_reset_password_def session_user_of_def is_manager_def password_too_short_def
      form_get_def user_update_found)

lemma role_realised:
  assumes "find_user s i = Some t" and "p_role a = Some SUPER_ADMIN" and "p_id a \<noteq> Some i"
  shows "update_user_role s (Some a) [(''id'', i), (''newRole'', role_name r)] =
           Inr (RSuccess, s\<lparr>st_users := map (\<lambda>u. if u_id u = i then set_role r u else u) (st_users s)\<rparr>)"
  using assms
  by (simp add: update_user_role_def session_user_of_def form_get_def same_id_Some user_update_found)

subsection \<open>The implementation meets the contract\<close>

text \<open>
  C39: the account table changes exactly as the contract permits: every
  request changes it by one permitted operation, and every permitted operation
  on an existing account is carried out by some request of the same session.
\<close>

theorem serve_account_policy_exact:
  "(serve s tk rq = Inr (r, s') \<longrightarrow>
      (\<exists>op. acct_allowed s (auth s tk) op \<and> st_users s' = acct_apply op (st_users s))) \<and>
   (acct_allowed s (auth s tk) op \<and> acct_target op \<noteq> None \<longrightarrow>
      (\<exists>rq' r' s''. serve s tk rq' = Inr (r', s'') \<and> st_users s'' = acct_apply op (st_users s)))"
proof (intro conjI impI)
  assume "serve s tk rq = Inr (r, s')"
  then show "\<exists>op. acct_allowed s (auth s tk) op \<and> st_users s' = acct_apply op (st_users s)"
    by (rule serve_account_effect)
next
  assume a: "acct_allowed s (auth s tk) op \<and> acct_target op \<noteq> None"
  then obtain p where p: "auth s tk = Some p"
    by (cases op) (auto simp: acct_allowed_def split: option.splits)
  show "\<exists>rq' r' s''. serve s tk rq' = Inr (r', s'') \<and> st_users s'' = acct_apply op (st_users s)"
  proof (cases op)
    case (Remove i)
    then obtain t where "find_user s i = Some t" "spec_can_manage p t"
      using a p by (auto simp: acct_allowed_def split: option.splits)
    then show ?thesis using remove_realised Remove p
      by (intro exI [of _ "DeleteFaculty [(''id'', i)]"]) (simp add: serve_def handle_def)
  next
    case (SetPassword i w)
    then obtain t where t: "find_user s i = Some t" and w: "6 \<le> length w"
      and g: "p_id p = Some i \<or> p_role p = Some SUPER_ADMIN \<or> (p_role p = Some ADMIN \<and> u_role t = FACULTY)"
      using a p by (auto simp: acct_allowed_def split: option.splits)
    show ?thesis
    proof (cases "p_id p = Some i")
      case True
      then show ?thesis using own_password_realised [OF True t w] SetPassword p
        by (intro exI [of _ "UpdateOwnPassword [(''newPassword'', w)]"]) (simp add: serve_def handle_def)
    next
      case False
      with g have "p_role p = Some SUPER_ADMIN \<or> (p_role p = Some ADMIN \<and> u_role t = FACULTY)" by simp
      then show ?thesis using reset_realised [OF t w] SetPassword p
        by (intro exI [of _ "ResetPassword [(''id'', i), (''newPassword'', w)]"]) (simp add: serve_def handle_def)
    qed
  next
    case (SetRole i nr)
    then obtain t where "find_user s i = Some t" "p_role p = Some SUPER_ADMIN" "p_id p \<noteq> Some i"
      using a p by (auto simp: acct_allowed_def spec_can_change_role_def split: option.splits)
    then show ?thesis using role_realised SetRole p
      by (intro exI [of _ "UpdateRole [(''id'', i), (''newRole'', role_name nr)]"]) (simp add: serve_def handle_def)
  qed (use a in simp_all)
qed


subsection \<open>The account hierarchy, from the contract\<close>

text \<open>
  C22: whatever an admin submits, every admin or super-admin account other
  than the admin's own is left exactly as it was.
\<close>

theorem admin_cannot_touch_peers:
  assumes wf: "wf_store s" and au: "auth s tk = Some p" and adm: "p_role p = Some ADMIN"
    and pid: "p_id p = Some a" and res: "serve s tk rq = Inr (r, s')"
    and v: "v \<in> set (st_users s)" and vr: "u_role v \<noteq> FACULTY" and va: "u_id v \<noteq> a"
  shows "v \<in> set (st_users s')"
proof -
  obtain op where al: "acct_allowed s (Some p) op" and us: "st_users s' = acct_apply op (st_users s)"
    using serve_account_effect [OF res] au by auto
  have fv: "find_user s (u_id v) = Some v" by (rule find_user_in_wf [OF wf v])
  have "acct_target op \<noteq> Some (u_id v)"
    using al fv adm pid va vr
    by (cases op) (auto simp: acct_allowed_def spec_can_manage_def spec_can_change_role_def)
  with v us show ?thesis by (simp add: acct_apply_keeps)
qed

text \<open>
  C23: a caller who is neither admin nor super admin (faculty, or an account
  whose role can no longer be read) changes no account except, at most, the
  password hash of their own.
\<close>

theorem non_manager_accounts:
  assumes au: "auth s tk = Some p" and nm: "\<not> is_manager (p_role p)"
    and res: "serve s tk rq = Inr (r, s')"
  shows "st_users s' = st_users s \<or>
         (\<exists>a w. p_id p = Some a \<and>
            st_users s' = map (\<lambda>u. if u_id u = a then set_password w u else u) (st_users s))"
proof -
  obtain op where al: "acct_allowed s (Some p) op" and us: "st_users s' = acct_apply op (st_users s)"
    using serve_account_effect [OF res] au by auto
  from al nm show ?thesis unfolding us
    by (cases op) (auto simp: acct_allowed_def spec_can_create_def spec_can_manage_def
        spec_can_change_role_def is_manager_def split: option.splits)
qed

text \<open>
  C24: the role of an existing account changes only through a request of a
  super admin, and never on the super admin's own account.
\<close>

theorem role_change_needs_super_admin:
  assumes wf: "wf_store s" and res: "serve s tk rq = Inr (r, s')"
    and u: "u \<in> set (st_users s)" and v: "v \<in> set (st_users s')"
    and same: "u_id v = u_id u" and changed: "u_role v \<noteq> u_role u"
  shows "\<exists>p. auth s tk = Some p \<and> p_role p = Some SUPER_ADMIN \<and> p_id p \<noteq> Some (u_id u)"
proof -
  obtain op where al: "acct_allowed s (auth s tk) op" and us: "st_users s' = acct_apply op (st_users s)"
    using serve_account_effect [OF res] by blast
  have d: "distinct (map u_id (st_users s))" using wf by (simp add: wf_store_def)
  have fresh: "u_id w \<notin> u_id ` set (st_users s)" if "op = Create w" for w
  proof
    assume "u_id w \<in> u_id ` set (st_users s)"
    then obtain x where "x \<in> set (st_users s)" "u_id x = u_id w" by auto
    then have "u_id w \<in> issued s" using wf_store_issued_user [OF wf] by metis
    moreover have "u_id w = fresh_id s" using al that by (simp add: acct_allowed_def)
    ultimately show False by simp
  qed
  obtain nr where "op = SetRole (u_id u) nr"
    using acct_apply_role_change [OF d u _ same changed fresh] v us by auto
  with al show ?thesis by (auto simp: acct_allowed_def spec_can_change_role_def split: option.splits)
qed

subsection \<open>Witnesses\<close>

theorem serve_account_policy_exact_witness:
  "serve demo_store (Some (sign_in_token demo_admin)) (ResetPassword demo_reset_form) =
     Inr (RSuccess, demo_store\<lparr>st_users := [demo_super, demo_admin, set_password ''newpass1'' demo_faculty]\<rparr>) \<and>
   acct_allowed demo_store (auth demo_store (Some (sign_in_token demo_admin))) (Remove ''c2'') \<and>
   acct_target (Remove ''c2'') \<noteq> None \<and>
   (\<exists>op. acct_allowed demo_store (auth demo_store (Some (sign_in_token demo_admin))) op \<and>
      [demo_super, demo_admin, set_password ''newpass1'' demo_faculty] = acct_apply op (st_users demo_store)) \<and>
   (\<exists>rq' r' s''. serve demo_store (Some (sign_in_token demo_admin)) rq' = Inr (r', s'') \<and>
      st_users s'' = [demo_super, demo_admin])"
proof -
  have al: "acct_allowed demo_store (auth demo_store (Some (sign_in_token demo_admin))) (Remove ''c2'')"
    unfolding demo_admin_session by (simp add: acct_allowed_def spec_can_manage_def find_user_def demo_defs)
  note ex = serve_account_policy_exact [of demo_store "Some (sign_in_token demo_admin)"
      "ResetPassword demo_reset_form" RSuccess
      "demo_store\<lparr>st_users := [demo_super, demo_admin, set_password ''newpass1'' demo_faculty]\<rparr>"
      "Remove ''c2''"]
  have "acct_apply (Remove ''c2'') (st_users demo_store) = [demo_super, demo_admin]"
    by (simp add: demo_defs)
  then show ?thesis using ex demo_admin_reset al by simp
qed

theorem admin_cannot_touch_peers_witness:
  "wf_store demo_store \<and> auth demo_store (Some (sign_in_token demo_admin)) = Some (principal_of demo_admin) \<and>
   p_role (principal_of demo_admin) = Some ADMIN \<and> p_id (principal_of demo_admin) = Some ''c1'' \<and>
   demo_super \<in> set (st_users demo_store) \<and> u_role demo_super \<noteq> FACULTY \<and> u_id demo_super \<noteq> ''c1'' \<and>
   demo_super \<in> set [demo_super, demo_admin, set_password ''newpass1'' demo_faculty]"
proof -
  have h3: "p_role (principal_of demo_admin) = Some ADMIN" by (simp add: demo_defs)
  have h4: "p_id (principal_of demo_admin) = Some ''c1''" by (simp add: demo_defs)
  have h6: "demo_super \<in> set (st_users demo_store)" by (simp add: demo_defs)
  have h7: "u_role demo_super \<noteq> FACULTY" by (simp add: demo_defs)
  have h8: "u_id demo_super \<noteq> ''c1''" by (simp add: demo_defs)
  have "demo_super \<in> set (st_users (demo_store\<lparr>st_users :=
          [demo_super, demo_admin, set_password ''newpass1'' demo_faculty]\<rparr>))"
    by (rule admin_cannot_touch_peers [OF demo_store_wf demo_admin_session h3 h4 demo_admin_reset h6 h7 h8])
  then show ?thesis using demo_store_wf demo_admin_session h3 h4 h6 h7 h8 by simp
qed

theorem non_manager_accounts_witness:
  "auth demo_store (Some (sign_in_token demo_faculty)) = Some (principal_of demo_faculty) \<and>
   \<not> is_manager (p_role (principal_of demo_faculty)) \<and>
   serve demo_store (Some (sign_in_token demo_faculty)) (UpdateOwnPassword [(''newPassword'', ''better12'')]) =
     Inr (RSuccess, demo_store\<lparr>st_users := [demo_super, demo_admin, set_password ''better12'' demo_faculty]\<rparr>) \<and>
   (\<exists>a w. p_id (principal_of demo_faculty) = Some a \<and>
      [demo_super, demo_admin, set_password ''better12'' demo_faculty] =
      map (\<lambda>u. if u_id u = a then set_password w u else u) (st_users demo_store))"
proof -
  have h1: "auth demo_store (Some (sign_in_token demo_faculty)) = Some (principal_of demo_faculty)"
    by (simp add: auth_def jwt_callback_def session_callback_def sign_in_token_def find_user_def demo_defs)
  have h2: "\<not> is_manager (p_role (principal_of demo_faculty))" by (simp add: is_manager_def demo_defs)
  have h3: "serve demo_store (Some (sign_in_token demo_faculty)) (UpdateOwnPassword [(''newPassword'', ''better12'')]) =
     Inr (RSuccess, demo_store\<lparr>st_users := [demo_super, demo_admin, set_password ''better12'' demo_faculty]\<rparr>)"
    by code_simp
  have "[demo_super, demo_admin, set_password ''better12'' demo_faculty] \<noteq> st_users demo_store"
    by (simp add: demo_defs set_password_def)
  then show ?thesis using non_manager_accounts [OF h1 h2 h3] h1 h2 h3 by auto
qed

theorem role_change_needs_super_admin_witness:
  "wf_store demo_store \<and>
   serve demo_store (Some (sign_in_token demo_super)) (UpdateRole [(''id'', ''c2''), (''newRole'', ''ADMIN'')]) =
     Inr (RSuccess, demo_store\<lparr>st_users := [demo_super, demo_admin, set_role ADMIN demo_faculty]\<rparr>) \<and>
   demo_faculty \<in> set (st_users demo_store) \<and>
   set_role ADMIN demo_faculty \<in> set [demo_super, demo_admin, set_role ADMIN demo_faculty] \<and>
   u_id (set_role ADMIN demo_faculty) = u_id demo_faculty \<and> u_role (set_role ADMIN demo_faculty) \<noteq> u_role demo_faculty \<and>
   (\<exists>p. auth demo_store (Some (sign_in_token demo_super)) = Some p \<and> p_role p = Some SUPER_ADMIN \<and>
        p_id p \<noteq> Some (u_id demo_faculty))"
proof -
  have h2: "serve demo_store (Some (sign_in_token demo_super)) (UpdateRole [(''id'', ''c2''), (''newRole'', ''ADMIN'')]) =
     Inr (RSuccess, demo_store\<lparr>st_users := [demo_super, demo_admin, set_role ADMIN demo_faculty]\<rparr>)"
    by code_simp
  have h3: "demo_faculty \<in> set (st_users demo_store)" by (simp add: demo_defs)
  have h4: "set_role ADMIN demo_faculty \<in> set (st_users (demo_store\<lparr>st_users :=
      [demo_super, demo_admin, set_role ADMIN demo_faculty]\<rparr>))" by simp
  have h5: "u_id (set_role ADMIN demo_faculty) = u_id demo_faculty" by simp
  have h6: "u_role (set_role ADMIN demo_faculty) \<noteq> u_role demo_faculty" by (simp add: set_role_def demo_defs)
  show ?thesis
    using role_change_needs_super_admin [OF demo_store_wf h2 h3 h4 h5 h6] demo_store_wf h2 h3 h4 h5 h6 by simp
qed


end
