(* ===== verification/Client_View.thy ===== *)
theory Client_View
  imports Students "HOL-Library.List_Lexorder" "HOL-Library.Char_ord" "HOL-Library.Sublist"
begin

text \<open>
  The calling-list client component \<open>StudentClient\<close>
  (\<open>src/app/dashboard/students/client-view.tsx\<close>): the search box, the column
  sort, the status badge and the values the update dialog submits. Strings are
  compared as JavaScript compares them, code unit by code unit, which is the
  lexicographic order on \<open>char\<close> lists of \<open>List_Lexorder\<close>;
  \<open>toLowerCase\<close> is modelled on ASCII letters. \<open>Array.prototype.sort\<close> is
  stable (ECMAScript 2019), so for a consistent comparator its result is the
  unique stable sorted permutation; \<open>js_sort\<close> computes it by insertion.
\<close>

subsection \<open>JavaScript string operations\<close>

text \<open>\<open>String.prototype.toLowerCase\<close> on ASCII: \<open>A\<close>..\<open>Z\<close> become \<open>a\<close>..\<open>z\<close>.\<close>

definition js_lower_char :: "char \<Rightarrow> char" where
  "js_lower_char c = (let n = (of_char c :: nat) in if 65 \<le> n \<and> n \<le> 90 then char_of (n + 32) else c)"

definition js_lower :: "string \<Rightarrow> string" where
  "js_lower s = map js_lower_char s"

text \<open>\<open>hay.includes(needle)\<close>: the needle occurs at some position of the haystack.\<close>

fun js_includes :: "string \<Rightarrow> string \<Rightarrow> bool" where
  "js_includes hay [] = True"
| "js_includes [] (c # cs) = False"
| "js_includes (h # hs) (c # cs) = (prefix (c # cs) (h # hs) \<or> js_includes hs (c # cs))"

text \<open>\<open>str.replace('_', ' ')\<close>: a string pattern replaces its first occurrence only.\<close>

fun js_replace_first :: "char \<Rightarrow> char \<Rightarrow> string \<Rightarrow> string" where
  "js_replace_first a b [] = []"
| "js_replace_first a b (c # cs) = (if c = a then b # cs else c # js_replace_first a b cs)"

subsection \<open>Search\<close>

text \<open>
  Lines 47--51: a student is shown when its lower-cased name contains the
  lower-cased query or its phone contains the query as typed.
\<close>

definition search_match :: "string \<Rightarrow> student \<Rightarrow> bool" where
  "search_match q x \<longleftrightarrow> js_includes (js_lower (s_name x)) (js_lower q) \<or> js_includes (s_phone x) q"

definition search_filter :: "string \<Rightarrow> student list \<Rightarrow> student list" where
  "search_filter q xs = filter (search_match q) xs"

subsection \<open>Sorting\<close>

datatype sort_dir = Asc | Desc

type_synonym sort_config = "(string \<times> sort_dir) option"

text \<open>\<open>handleSort\<close> (lines 54--60): a second click on the ascending column turns it descending.\<close>

definition handle_sort :: "sort_config \<Rightarrow> string \<Rightarrow> sort_config" where
  "handle_sort cfg key = Some (key, if cfg = Some (key, Asc) then Desc else Asc)"

text \<open>
  \<open>a[key]\<close> for the string-valued columns of a student row (the enumerations
  are their names, absent optional columns are \<open>null\<close>); any other key reads
  \<open>undefined\<close>. The screen sorts by \<open>futureInterest\<close> and \<open>callStatus\<close>.
\<close>

definition student_prop :: "student \<Rightarrow> string \<Rightarrow> string option" where
  "student_prop x key =
     (if key = ''id'' then Some (s_id x)
      else if key = ''name'' then Some (s_name x)
      else if key = ''phone'' then Some (s_phone x)
      else if key = ''address'' then s_address x
      else if key = ''prevCourse'' then s_prev_course x
      else if key = ''callStatus'' then Some (call_status_name (s_call_status x))
      else if key = ''futureInterest'' then map_option interest_name (s_future_interest x)
      else if key = ''notes'' then s_notes x
      else if key = ''lastUpdatedBy'' then s_last_updated_by x
      else if key = ''uploadedById'' then Some (s_uploaded_by x)
      else None)"

text \<open>\<open>(a[key] || "").toString().toLowerCase()\<close>\<close>

definition sort_value :: "string \<Rightarrow> student \<Rightarrow> string" where
  "sort_value key x = js_lower (case student_prop x key of None \<Rightarrow> [] | Some v \<Rightarrow> v)"

text \<open>The comparator of lines 62--73.\<close>

definition sort_cmp :: "sort_config \<Rightarrow> student \<Rightarrow> student \<Rightarrow> int" where
  "sort_cmp cfg a b =
     (case cfg of None \<Rightarrow> 0 | Some (key, dir) \<Rightarrow>
       (let va = sort_value key a; vb = sort_value key b in
        if va < vb then (if dir = Asc then -1 else 1)
        else if vb < va then (if dir = Asc then 1 else -1)
        else 0))"

text \<open>
  A stable sort with a comparator: each element is inserted in front of the
  first element it does not compare greater than, so equal elements keep
  their order.
\<close>

fun js_insort :: "('a \<Rightarrow> 'a \<Rightarrow> int) \<Rightarrow> 'a \<Rightarrow> 'a list \<Rightarrow> 'a list" where
  "js_insort c x [] = [x]"
| "js_insort c x (y # ys) = (if 0 < c x y then y # js_insort c x ys else x # y # ys)"

fun js_sort :: "('a \<Rightarrow> 'a \<Rightarrow> int) \<Rightarrow> 'a list \<Rightarrow> 'a list" where
  "js_sort c [] = []"
| "js_sort c (x # xs) = js_insort c x (js_sort c xs)"

text \<open>\<open>sortedStudents = [...filtered].sort(...)\<close>: the rows the table shows.\<close>

definition sorted_students :: "sort_config \<Rightarrow> string \<Rightarrow> student list \<Rightarrow> student list" where
  "sorted_students cfg q xs = js_sort (sort_cmp cfg) (search_filter q xs)"

subsection \<open>Table cells and the update dialog\<close>

text \<open>The status badge: \<open>s.callStatus.replace('_', ' ')\<close> (line 142).\<close>

definition status_label :: "call_status \<Rightarrow> string" where
  "status_label c = js_replace_first (CHR ''_'') (CHR '' '') (call_status_name c)"

text \<open>
  What the update dialog (lines 166--223) submits when the user changes no
  field: the status select starts at the student's status, the course input at
  \<open>prevCourse || ""\<close>, the interest select at \<open>futureInterest || "OTHER"\<close>,
  and the notes input, whose default is the notes or nothing, at the notes or
  the empty string.
\<close>

definition dialog_form :: "student \<Rightarrow> form" where
  "dialog_form x =
     [(''status'', call_status_name (s_call_status x)),
      (''prevCourse'', case s_prev_course x of None \<Rightarrow> [] | Some v \<Rightarrow> v),
      (''interest'', case s_future_interest x of None \<Rightarrow> ''OTHER'' | Some k \<Rightarrow> interest_name k),
      (''notes'', case s_notes x of None \<Rightarrow> [] | Some v \<Rightarrow> v)]"


subsection \<open>The sort with a comparator\<close>

lemma set_js_insort [simp]: "set (js_insort c x ys) = insert x (set ys)"
  by (induction ys) auto

lemma mset_js_insort [simp]: "mset (js_insort c x ys) = add_mset x (mset ys)"
  by (induction ys) auto

lemma mset_js_sort [simp]: "mset (js_sort c xs) = mset xs"
  by (induction xs) auto

lemma js_sort_zero: "js_sort (\<lambda>a b. 0) xs = xs"
proof (induction xs)
  case (Cons x xs)
  then show ?case by (cases xs) auto
qed simp

text \<open>A comparator that orders by a key ascending makes \<open>js_sort\<close> the library's stable \<open>sort_key\<close>.\<close>

lemma js_sort_asc:
  assumes "\<And>a b. 0 < c a b \<longleftrightarrow> f b < f a"
  shows "js_sort c xs = sort_key f xs"
proof -
  have ins: "js_insort c x ys = insort_key f x ys" for x ys
    using assms by (induction ys) (auto simp: not_less)
  show ?thesis by (induction xs) (simp_all add: ins)
qed

text \<open>A comparator that orders by a key descending sorts by that key descending, stably.\<close>

lemma js_sort_desc_sorted:
  fixes f :: "'a \<Rightarrow> 'b::linorder"
  assumes "\<And>a b. 0 < c a b \<longleftrightarrow> f a < f b"
  shows "sorted_wrt (\<lambda>a b. f b \<le> f a) (js_sort c xs)"
proof -
  have ins: "sorted_wrt (\<lambda>a b. f b \<le> f a) (js_insort c x ys)"
    if "sorted_wrt (\<lambda>a b. f b \<le> f a) ys" for x ys
    using that assms by (induction ys) (auto simp: not_less less_imp_le intro: order.trans)
  show ?thesis by (induction xs) (simp_all add: ins)
qed

lemma js_sort_desc_stable:
  fixes f :: "'a \<Rightarrow> 'b::linorder"
  assumes "\<And>a b. 0 < c a b \<longleftrightarrow> f a < f b"
  shows "filter (\<lambda>y. f y = v) (js_sort c xs) = filter (\<lambda>y. f y = v) xs"
proof -
  have ins: "filter (\<lambda>y. f y = v) (js_insort c x ys) =
      (if f x = v then x # filter (\<lambda>y. f y = v) ys else filter (\<lambda>y. f y = v) ys)" for x ys
    using assms by (induction ys) auto
  show ?thesis by (induction xs) (simp_all add: ins)
qed

lemma sort_cmp_asc: "0 < sort_cmp (Some (k, Asc)) a b \<longleftrightarrow> sort_value k b < sort_value k a"
  by (auto simp: sort_cmp_def Let_def)

lemma sort_cmp_desc: "0 < sort_cmp (Some (k, Desc)) a b \<longleftrightarrow> sort_value k a < sort_value k b"
  by (auto simp: sort_cmp_def Let_def)

lemma sort_cmp_None: "sort_cmp None = (\<lambda>a b. 0)"
  by (simp add: fun_eq_iff sort_cmp_def)

lemma js_includes_sublist: "js_includes hay n \<longleftrightarrow> sublist n hay"
  by (induction hay n rule: js_includes.induct) (auto simp: sublist_Cons_right)

lemma sublist_append_prefix:
  assumes "sublist (a @ b) h"
  shows "sublist a h"
proof -
  obtain ps ss where "h = ps @ (a @ b) @ ss" using assms by (auto simp: sublist_def)
  then show ?thesis unfolding sublist_def by (intro exI [of _ ps] exI [of _ "b @ ss"]) simp
qed

lemma js_lower_append: "js_lower (q @ r) = js_lower q @ js_lower r"
  by (simp add: js_lower_def)

lemma search_match_append: "search_match (q @ r) x \<Longrightarrow> search_match q x"
  by (auto simp: search_match_def js_includes_sublist js_lower_append intro: sublist_append_prefix)

subsection \<open>Properties of the calling-list view\<close>

text \<open>
  C33: sorting a column ascending shows the searched students in the order of
  the library's stable sort on the lower-cased column value.
\<close>

theorem sorted_students_asc:
  "sorted_students (Some (k, Asc)) q xs = sort_key (sort_value k) (search_filter q xs)"
  unfolding sorted_students_def by (rule js_sort_asc) (rule sort_cmp_asc)

text \<open>
  C34: sorting a column descending shows a permutation of the searched
  students, ordered by the lower-cased column value from greatest to least,
  with students of equal value in their original order.
\<close>

theorem sorted_students_desc:
  "mset (sorted_students (Some (k, Desc)) q xs) = mset (search_filter q xs) \<and>
   sorted_wrt (\<lambda>a b. sort_value k b \<le> sort_value k a) (sorted_students (Some (k, Desc)) q xs) \<and>
   (\<forall>v. filter (\<lambda>y. sort_value k y = v) (sorted_students (Some (k, Desc)) q xs) =
        filter (\<lambda>y. sort_value k y = v) (search_filter q xs))"
  unfolding sorted_students_def
  using js_sort_desc_sorted [of "sort_cmp (Some (k, Desc))" "sort_value k", OF sort_cmp_desc]
    js_sort_desc_stable [of "sort_cmp (Some (k, Desc))" "sort_value k", OF sort_cmp_desc] by simp

text \<open>
  The search keeps, in their order, exactly the students whose lower-cased
  name contains the lower-cased query or whose phone contains the query as
  typed; before any column is chosen the table shows that list unsorted.
\<close>

theorem search_filter_spec:
  "search_filter q xs = filter (\<lambda>x. sublist (js_lower q) (js_lower (s_name x)) \<or> sublist q (s_phone x)) xs \<and>
   sorted_students None q xs = search_filter q xs"
proof -
  have "search_match q = (\<lambda>x. sublist (js_lower q) (js_lower (s_name x)) \<or> sublist q (s_phone x))"
    by (rule ext) (simp add: search_match_def js_includes_sublist)
  then show ?thesis by (simp add: search_filter_def sorted_students_def sort_cmp_None js_sort_zero)
qed

text \<open>
  C35: the search narrows as the user types: an empty search box shows every
  student, and the students shown for a query extended by more characters are
  those shown for the shorter query that also match the longer one, in the
  same order, so typing never brings back a row.
\<close>

theorem search_narrows:
  "search_filter [] xs = xs \<and>
   search_filter (q @ r) xs = filter (search_match (q @ r)) (search_filter q xs)"
proof -
  have "search_match [] x" for x by (simp add: search_match_def js_includes_sublist js_lower_def)
  moreover have "filter (search_match (q @ r)) (filter (search_match q) xs) = filter (search_match (q @ r)) xs"
    by (rule filter_filter [THEN trans], rule filter_cong) (auto dest: search_match_append)
  ultimately show ?thesis by (simp add: search_filter_def)
qed

text \<open>
  Clicking the same column header alternates its direction: after the
  first click the column is ascending, unless it was already ascending, and
  each further click flips it.
\<close>

theorem handle_sort_alternates:
  "((\<lambda>c. handle_sort c k) ^^ Suc n) cfg = Some (k, if even n = (cfg \<noteq> Some (k, Asc)) then Asc else Desc)"
  by (induction n) (auto simp: handle_sort_def)

text \<open>
  Replacing only the first underscore is enough for the status badge:
  no status name has a second one, so the label has no underscore left.
\<close>

theorem status_label_no_underscore:
  "status_label c = map (\<lambda>ch. if ch = CHR ''_'' then CHR '' '' else ch) (call_status_name c) \<and>
   CHR ''_'' \<notin> set (status_label c)"
  by (cases c) (simp_all add: status_label_def)

text \<open>
  C38: saving the update dialog without touching a field rewrites the student
  with its own status, but records the interest OTHER when the student had
  none, and empty strings for missing notes and course.
\<close>

theorem dialog_unchanged_save:
  assumes "find_student s i = Some x"
  shows "update_student s (Some p) i (dialog_form x) =
    Inr (RVoid, s\<lparr>st_students := map (\<lambda>y. if s_id y = i then
      record_call (s_call_status x) (Some (case s_future_interest x of None \<Rightarrow> OTHER | Some k \<Rightarrow> k))
        (Some (case s_notes x of None \<Rightarrow> [] | Some v \<Rightarrow> v))
        (Some (case s_prev_course x of None \<Rightarrow> [] | Some v \<Rightarrow> v)) (updater_name p) y
      else y) (st_students s)\<rparr>)"
proof -
  have "prisma_interest (normalize_interest (Some (case s_future_interest x of None \<Rightarrow> ''OTHER''
          | Some k \<Rightarrow> interest_name k))) =
        Inr (Some (case s_future_interest x of None \<Rightarrow> OTHER | Some k \<Rightarrow> k))"
    using prisma_interest_name [of OTHER]
    by (cases "s_future_interest x") (simp_all add: normalize_interest_def interest_values_def)
  then show ?thesis
    using assms by (simp add: update_student_def dialog_form_def form_get_def student_update_found)
qed


subsection \<open>Witnesses\<close>

theorem dialog_unchanged_save_witness:
  "find_student demo_store ''c3'' = Some demo_student \<and>
   update_student demo_store (Some (principal_of demo_faculty)) ''c3'' (dialog_form demo_student) =
     Inr (RVoid, demo_store\<lparr>st_students :=
       [record_call NOT_CALLED (Some OTHER) (Some []) (Some ''BCA'') ''Ravi'' demo_student]\<rparr>)"
proof -
  have h: "find_student demo_store ''c3'' = Some demo_student"
    by (simp add: find_student_def demo_defs)
  show ?thesis
    using dialog_unchanged_save [OF h, of "principal_of demo_faculty"] h
    by (simp add: demo_defs updater_name_def)
qed

end
