(* ===== verification/Pages.thy ===== *)
theory Pages
  imports System Client_View
begin

text \<open>
  The server-rendered pages and the sign-in action: the dashboard layout and
  its navigation (\<open>src/app/dashboard/layout.tsx\<close>), the faculty page
  (\<open>src/app/dashboard/faculty/page.tsx\<close>) with the forms its client component
  submits (\<open>faculty-client.tsx\<close>), the dashboard overview
  (\<open>src/app/dashboard/page.tsx\<close>, \<open>dashboard-charts.tsx\<close>) and
  \<open>authenticate\<close> (\<open>src/app/actions.ts\<close>) behind the login form. A page
  either redirects or renders the data it reads; markup is not modelled.
\<close>

datatype 'a page = Redirect string | Render 'a

subsection \<open>Dashboard layout\<close>

text \<open>The navigation links; the faculty link only for \<open>SUPER_ADMIN\<close> and \<open>ADMIN\<close>.\<close>

definition nav_links :: "principal \<Rightarrow> string list" where
  "nav_links p = [''/dashboard'', ''/dashboard/students''] @
                 (if show_faculty_link p then [''/dashboard/faculty''] else [])"

definition dashboard_layout :: "store \<Rightarrow> token option \<Rightarrow> string list page" where
  "dashboard_layout s tk = (case auth s tk of None \<Rightarrow> Redirect ''/login'' | Some p \<Rightarrow> Render (nav_links p))"

subsection \<open>Faculty page and screen\<close>

text \<open>
  What the faculty page hands to its client component: every account newest
  first, the faculty accounts (read but not used), and the session user.
\<close>

record faculty_view =
  fv_users :: "user list"
  fv_faculty :: "user list"
  fv_current :: principal

definition faculty_page :: "store \<Rightarrow> principal option \<Rightarrow> faculty_view page" where
  "faculty_page s sess =
     (case sess of None \<Rightarrow> Redirect ''/login'' | Some p \<Rightarrow>
      if \<not> is_manager (p_role p) then Redirect ''/dashboard''
      else Render \<lparr>fv_users = order_desc u_created (st_users s),
                   fv_faculty = order_desc u_created (filter (\<lambda>u. u_role u = FACULTY) (st_users s)),
                   fv_current = p\<rparr>)"

text \<open>The forms the faculty screen submits for one listed account.\<close>

definition role_form :: "user \<Rightarrow> role \<Rightarrow> form" where
  "role_form f r = [(''id'', u_id f), (''newRole'', role_name r)]"

definition delete_form :: "user \<Rightarrow> form" where
  "delete_form f = [(''id'', u_id f)]"

definition reset_form :: "user \<Rightarrow> string \<Rightarrow> form" where
  "reset_form f w = [(''id'', u_id f), (''newPassword'', w)]"

text \<open>The browser's check on the reset field: \<open>required minLength={6}\<close>.\<close>

definition client_password_ok :: "string \<Rightarrow> bool" where
  "client_password_ok w \<longleftrightarrow> w \<noteq> [] \<and> 6 \<le> length w"

subsection \<open>Sign-in\<close>

text \<open>
  next-auth's \<open>signIn('credentials', formData)\<close> (its internals are not in
  \<open>src/\<close>): it runs \<open>authorize\<close>; a \<open>null\<close> user is thrown as the
  \<open>AuthError\<close> of type \<open>CredentialsSignin\<close>, an error inside \<open>authorize\<close> as an
  \<open>AuthError\<close> of another type, and a user ends the action with the redirect
  (itself a thrown error, not an \<open>AuthError\<close>) that sets the session cookie.
\<close>

datatype auth_error = CredentialsSignin | OtherAuthError

definition sign_in :: "(string \<Rightarrow> bool) \<Rightarrow> store \<Rightarrow> form \<Rightarrow> auth_error + token" where
  "sign_in is_email s fd =
     (case authorize is_email s (form_get fd ''email'') (form_get fd ''password'') of
        None \<Rightarrow> Inl CredentialsSignin
      | Some u \<Rightarrow> Inr (jwt_callback (sign_in_token u)))"

text \<open>
  \<open>authenticate\<close> (lines 17--31): the \<open>catch\<close> turns an \<open>AuthError\<close> into a
  message by its type and rethrows everything else, so the redirect of a
  successful sign-in goes through.
\<close>

datatype login_outcome = LoginMessage string | LoginRedirect token

definition authenticate :: "(string \<Rightarrow> bool) \<Rightarrow> store \<Rightarrow> form \<Rightarrow> login_outcome" where
  "authenticate is_email s fd =
     (case sign_in is_email s fd of
        Inl CredentialsSignin \<Rightarrow> LoginMessage ''Invalid credentials.''
      | Inl OtherAuthError \<Rightarrow> LoginMessage ''Something went wrong.''
      | Inr tk \<Rightarrow> LoginRedirect tk)"

subsection \<open>Dashboard overview\<close>

record dashboard_view =
  dv_total :: nat
  dv_interested :: nat
  dv_interest_chart :: "(string option \<times> nat) list"
  dv_status_chart :: "(string \<times> nat) list"

text \<open>\<open>DashboardCharts\<close>: one slice per group, named by the enumeration value.\<close>

definition interest_chart :: "(interest option \<times> nat) list \<Rightarrow> (string option \<times> nat) list" where
  "interest_chart gs = map (\<lambda>(k, c). (map_option interest_name k, c)) gs"

definition status_chart :: "(call_status \<times> nat) list \<Rightarrow> (string \<times> nat) list" where
  "status_chart gs = map (\<lambda>(k, c). (call_status_name k, c)) gs"

text \<open>\<open>None\<close> is the \<open>Loading...\<close> placeholder shown when there are no statistics.\<close>

definition dashboard_page :: "store \<Rightarrow> principal option \<Rightarrow> dashboard_view option" where
  "dashboard_page s sess =
     (case get_dashboard_stats s sess of None \<Rightarrow> None | Some d \<Rightarrow>
        Some \<lparr>dv_total = ds_total d, dv_interested = interested_count d,
              dv_interest_chart = interest_chart (ds_interest d),
              dv_status_chart = status_chart (ds_status d)\<rparr>)"


subsection \<open>Lemmas\<close>

lemma set_order_desc [simp]: "set (order_desc f xs) = set xs"
  by (metis mset_order_desc set_mset_mset)

lemma wf_user_id_not_Nil:
  assumes "wf_store s" and "u \<in> set (st_users s)"
  shows "u_id u \<noteq> []"
  using wf_store_issued_user [OF assms] by (auto simp: issued_def id_of_def)

lemma find_user_by_email_Some: "find_user_by_email s e = Some u \<Longrightarrow> u \<in> set (st_users s) \<and> u_email u = e"
  unfolding find_user_by_email_def using find_Some_in_set find_Some_prop by fastforce

lemma faculty_page_Render:
  assumes "faculty_page s sess = Render v"
  obtains p where "sess = Some p" and "is_manager (p_role p)" and "fv_current v = p"
    and "fv_users v = order_desc u_created (st_users s)"
  using assms by (cases sess) (auto simp: faculty_page_def split: if_splits)

lemma session_of_sign_in:
  assumes "wf_store s" and "u \<in> set (st_users s)"
  shows "auth s (Some (jwt_callback (sign_in_token u))) = Some (principal_of u)"
  using wf_user_id_not_Nil [OF assms] find_user_in_wf [OF assms]
  by (simp add: auth_def jwt_callback_def session_callback_def sign_in_token_def principal_of_def)

subsection \<open>Properties of the pages\<close>

text \<open>
  C28: the navigation shows the faculty link exactly to the sessions the faculty
  page renders for; every other session that reaches the page is redirected.
\<close>

theorem layout_link_iff_faculty_page:
  "(\<exists>ls. dashboard_layout s tk = Render ls \<and> ''/dashboard/faculty'' \<in> set ls) \<longleftrightarrow>
   (\<exists>v. faculty_page s (auth s tk) = Render v)"
  by (cases "auth s tk")
    (simp_all add: dashboard_layout_def nav_links_def show_faculty_link_def faculty_page_def)

text \<open>
  C27: every action the faculty screen offers on a listed account is carried out
  by the server: the delete removes it, the password reset (with a password the
  browser accepts) succeeds, and a role from the selector is set when the viewer
  is the super admin, while an admin's role change is refused with a message.
\<close>

theorem faculty_screen_actions:
  assumes "wf_store s" and "faculty_page s (auth s tk) = Render v"
    and "f \<in> set (fv_users v)" and "can_manage (fv_current v) f" and "client_password_ok w"
  shows "(\<exists>s'. delete_faculty s (Some (fv_current v)) (delete_form f) = Inr (RVoid, s') \<and> s' \<noteq> s) \<and>
         (\<exists>s'. admin_reset_password s (Some (fv_current v)) (reset_form f w) = Inr (RSuccess, s')) \<and>
         (\<forall>r \<in> set (role_options (fv_current v)).
            update_user_role s (Some (fv_current v)) (role_form f r) =
              (if p_role (fv_current v) = Some SUPER_ADMIN
               then Inr (RSuccess, s\<lparr>st_users := map (\<lambda>u. if u_id u = u_id f then set_role r u else u) (st_users s)\<rparr>)
               else Inr (RError ''Only Super Admin can change roles.'', s)))"
proof -
  obtain p where man: "is_manager (p_role p)" and cur: "fv_current v = p"
    and us: "fv_users v = order_desc u_created (st_users s)"
    using assms(2) by (rule faculty_page_Render)
  have mem: "f \<in> set (st_users s)" using assms(3) us by simp
  have fu: "find_user s (u_id f) = Some f" by (rule find_user_in_wf [OF assms(1) mem])
  have cm: "p_id p \<noteq> Some (u_id f)"
    "p_role p = Some SUPER_ADMIN \<or> (p_role p = Some ADMIN \<and> u_role f = FACULTY)"
    using assms(4) cur by (simp_all add: can_manage_iff)
  have del: "delete_faculty s (Some p) (delete_form f) =
      Inr (RVoid, s\<lparr>st_users := filter (\<lambda>u. u_id u \<noteq> u_id f) (st_users s)\<rparr>)"
    using cm man fu user_delete_found [OF fu]
    by (auto simp: delete_faculty_def session_user_of_def delete_form_def form_get_def same_id_Some)
  have reset: "admin_reset_password s (Some p) (reset_form f w) =
      Inr (RSuccess, s\<lparr>st_users := map (\<lambda>u. if u_id u = u_id f then set_password w u else u) (st_users s)\<rparr>)"
    using cm man fu assms(5) user_update_found [OF fu]
    by (auto simp: admin_reset_password_def session_user_of_def reset_form_def form_get_def
        password_too_short_def client_password_ok_def)
  have role: "update_user_role s (Some p) (role_form f r) =
      (if p_role p = Some SUPER_ADMIN
       then Inr (RSuccess, s\<lparr>st_users := map (\<lambda>u. if u_id u = u_id f then set_role r u else u) (st_users s)\<rparr>)
       else Inr (RError ''Only Super Admin can change roles.'', s))" for r
    using cm(1) user_update_found [OF fu]
    by (simp add: update_user_role_def session_user_of_def role_form_def form_get_def same_id_Some
        parse_role_name)
  show ?thesis using del reset role filter_removes_found [OF fu] cur by simp
qed

text \<open>
  The faculty page renders only for an admin or super admin, and then lists
  every account, newest first.
\<close>

theorem faculty_page_lists:
  assumes "faculty_page s sess = Render v"
  shows "\<exists>p. sess = Some p \<and> is_manager (p_role p) \<and> fv_current v = p \<and>
           mset (fv_users v) = mset (st_users s) \<and>
           sorted_wrt (\<lambda>a b. u_created b \<le> u_created a) (fv_users v)"
  using assms by (rule faculty_page_Render) (auto simp: order_desc_sorted)

text \<open>
  C29: signing in succeeds exactly when the form carries a well-formed e-mail of
  an account and the password whose hash that account stores; otherwise the
  page shows "Invalid credentials.", never "Something went wrong.", since
  \<open>authorize\<close> rejects by returning \<open>null\<close> and never throws.
\<close>

theorem authenticate_accepts:
  "(\<exists>tk. authenticate is_email s fd = LoginRedirect tk) \<longleftrightarrow>
   (\<exists>e w u. form_get fd ''email'' = Some e \<and> form_get fd ''password'' = Some w \<and> is_email e \<and>
      find_user_by_email s e = Some u \<and> u_password u = Bcrypt w) \<and>
   authenticate is_email s fd \<in> range LoginRedirect \<union> {LoginMessage ''Invalid credentials.''}"
proof -
  have "bcrypt_compare w h \<longleftrightarrow> h = Bcrypt w" for w h by (cases h) auto
  then show ?thesis
    by (auto simp: authenticate_def sign_in_def authorize_def split: option.splits if_splits)
qed

text \<open>
  C30: after a successful sign-in, the session built from the issued token is
  the signed-in account's: its id, its name and its stored role.
\<close>

theorem login_session:
  assumes "wf_store s" and "authenticate is_email s fd = LoginRedirect tk"
  shows "\<exists>e u. form_get fd ''email'' = Some e \<and> find_user_by_email s e = Some u \<and>
           auth s (Some tk) = Some (principal_of u)"
proof -
  obtain e w u where fe: "form_get fd ''email'' = Some e" and fw: "form_get fd ''password'' = Some w"
    and az: "authorize is_email s (Some e) (Some w) = Some u"
    and tk: "tk = jwt_callback (sign_in_token u)"
    using assms(2)
    by (auto simp: authenticate_def sign_in_def authorize_def split: option.splits if_splits)
  from az have fu: "find_user_by_email s e = Some u" by (simp add: authorize_Some)
  then have "u \<in> set (st_users s)" by (simp add: find_user_by_email_Some)
  then show ?thesis using fe fu session_of_sign_in [OF assms(1)] tk by blast
qed

text \<open>
  C32: the overview's Total card counts the students the caller may aggregate,
  the Interested card those of them whose call status is INTERESTED, and the
  status chart's slices add up to the total.
\<close>

theorem dashboard_page_cards:
  assumes "dashboard_page s sess = Some v"
  shows "\<exists>p. sess = Some p \<and>
    dv_total v = length (where_uploaded (stats_where p) (st_students s)) \<and>
    dv_interested v = length (filter (\<lambda>x. s_call_status x = INTERESTED)
                                (where_uploaded (stats_where p) (st_students s))) \<and>
    sum_list (map snd (dv_status_chart v)) = dv_total v"
proof -
  obtain p where sess: "sess = Some p" using assms
    by (cases sess) (simp_all add: dashboard_page_def get_dashboard_stats_def)
  let ?xs = "where_uploaded (stats_where p) (st_students s)"
  have v: "v = \<lparr>dv_total = length ?xs,
      dv_interested = interested_count \<lparr>ds_total = length ?xs,
        ds_interest = group_count s_future_interest (filter (\<lambda>x. s_future_interest x \<noteq> None) ?xs),
        ds_status = group_count s_call_status ?xs\<rparr>,
      dv_interest_chart = interest_chart (group_count s_future_interest
                        (filter (\<lambda>x. s_future_interest x \<noteq> None) ?xs)),
      dv_status_chart = status_chart (group_count s_call_status ?xs)\<rparr>"
    using assms sess by (simp add: dashboard_page_def get_dashboard_stats_def Let_def)
  have "interested_count \<lparr>ds_total = length ?xs,
        ds_interest = group_count s_future_interest (filter (\<lambda>x. s_future_interest x \<noteq> None) ?xs),
        ds_status = group_count s_call_status ?xs\<rparr> =
        length (filter (\<lambda>x. s_call_status x = INTERESTED) ?xs)"
    unfolding interested_count_def dashboard_stats.simps by (rule group_count_find)
  moreover have "sum_list (map snd (status_chart (group_count s_call_status ?xs))) = length ?xs"
    using sum_group_count [of s_call_status ?xs] by (simp add: status_chart_def case_prod_unfold comp_def)
  ultimately show ?thesis using sess v by simp
qed


subsection \<open>Witnesses\<close>

theorem faculty_screen_actions_witness:
  "wf_store demo_store \<and>
   faculty_page demo_store (auth demo_store (Some (sign_in_token demo_admin))) =
     Render \<lparr>fv_users = order_desc u_created (st_users demo_store),
             fv_faculty = order_desc u_created (filter (\<lambda>u. u_role u = FACULTY) (st_users demo_store)),
             fv_current = principal_of demo_admin\<rparr> \<and>
   demo_faculty \<in> set (order_desc u_created (st_users demo_store)) \<and>
   can_manage (principal_of demo_admin) demo_faculty \<and> client_password_ok ''newpass1'' \<and>
   (\<exists>s'. delete_faculty demo_store (Some (principal_of demo_admin)) (delete_form demo_faculty) = Inr (RVoid, s')
      \<and> s' \<noteq> demo_store) \<and>
   (\<exists>s'. admin_reset_password demo_store (Some (principal_of demo_admin)) (reset_form demo_faculty ''newpass1'')
      = Inr (RSuccess, s')) \<and>
   update_user_role demo_store (Some (principal_of demo_admin)) (role_form demo_faculty ADMIN) =
     Inr (RError ''Only Super Admin can change roles.'', demo_store)"
proof -
  let ?v = "\<lparr>fv_users = order_desc u_created (st_users demo_store),
             fv_faculty = order_desc u_created (filter (\<lambda>u. u_role u = FACULTY) (st_users demo_store)),
             fv_current = principal_of demo_admin\<rparr>"
  have h2: "faculty_page demo_store (auth demo_store (Some (sign_in_token demo_admin))) = Render ?v"
    unfolding faculty_page_def demo_admin_session by (simp add: is_manager_def principal_of_def demo_admin_def)
  have h3: "demo_faculty \<in> set (fv_users ?v)" by (simp add: demo_store_def)
  have h4: "can_manage (fv_current ?v) demo_faculty" by (simp add: can_manage_iff demo_defs)
  have h5: "client_password_ok ''newpass1''" by (simp add: client_password_ok_def)
  have r: "ADMIN \<in> set (role_options (fv_current ?v))" by (simp add: role_options_def)
  have "p_role (fv_current ?v) \<noteq> Some SUPER_ADMIN" by (simp add: demo_defs)
  then show ?thesis
    using faculty_screen_actions [OF demo_store_wf h2 h3 h4 h5] demo_store_wf h2 h3 h4 h5 r by auto
qed

theorem faculty_page_lists_witness:
  "faculty_page demo_store (Some (principal_of demo_super)) =
     Render \<lparr>fv_users = order_desc u_created (st_users demo_store),
             fv_faculty = order_desc u_created (filter (\<lambda>u. u_role u = FACULTY) (st_users demo_store)),
             fv_current = principal_of demo_super\<rparr> \<and>
   mset (order_desc u_created (st_users demo_store)) = mset (st_users demo_store) \<and>
   sorted_wrt (\<lambda>a b. u_created b \<le> u_created a) (order_desc u_created (st_users demo_store))"
proof -
  have h: "faculty_page demo_store (Some (principal_of demo_super)) =
     Render \<lparr>fv_users = order_desc u_created (st_users demo_store),
             fv_faculty = order_desc u_created (filter (\<lambda>u. u_role u = FACULTY) (st_users demo_store)),
             fv_current = principal_of demo_super\<rparr>"
    by (simp add: faculty_page_def is_manager_def principal_of_def demo_super_def)
  show ?thesis using faculty_page_lists [OF h] h by auto
qed

theorem login_session_witness:
  "wf_store demo_store \<and>
   authenticate (\<lambda>e. CHR ''@'' \<in> set e) demo_store
     [(''email'', ''asha@college.edu''), (''password'', ''secret1'')] = LoginRedirect (sign_in_token demo_admin) \<and>
   auth demo_store (Some (sign_in_token demo_admin)) = Some (principal_of demo_admin)"
proof -
  have h: "authenticate (\<lambda>e. CHR ''@'' \<in> set e) demo_store
     [(''email'', ''asha@college.edu''), (''password'', ''secret1'')] = LoginRedirect (sign_in_token demo_admin)"
    by (simp add: authenticate_def sign_in_def authorize_def form_get_def find_user_by_email_def jwt_callback_def demo_defs)
  have "\<exists>e u. form_get [(''email'', ''asha@college.edu''), (''password'', ''secret1'')] ''email'' = Some e \<and>
      find_user_by_email demo_store e = Some u \<and> auth demo_store (Some (sign_in_token demo_admin)) = Some (principal_of u)"
    using login_session [OF demo_store_wf h] .
  then have "auth demo_store (Some (sign_in_token demo_admin)) = Some (principal_of demo_admin)"
    by (auto simp: form_get_def find_user_by_email_def demo_defs)
  then show ?thesis using demo_store_wf h by simp
qed

theorem dashboard_page_cards_witness:
  "dashboard_page demo_store (Some (principal_of demo_faculty)) =
     Some \<lparr>dv_total = 1, dv_interested = 0, dv_interest_chart = [], dv_status_chart = [(''NOT_CALLED'', 1)]\<rparr> \<and>
   length (where_uploaded (stats_where (principal_of demo_faculty)) (st_students demo_store)) = 1"
proof -
  have h: "dashboard_page demo_store (Some (principal_of demo_faculty)) =
     Some \<lparr>dv_total = 1, dv_interested = 0, dv_interest_chart = [], dv_status_chart = [(''NOT_CALLED'', 1)]\<rparr>"
    by code_simp
  show ?thesis using dashboard_page_cards [OF h] h by auto
qed

end
