(* ===== verification/Invariants.thy ===== *)
theory Invariants
  imports Account_Policy Pages
begin

text \<open>
  Properties of the whole system that span components: the shape of every row
  of the student table in a reachable store (what \<open>uploadStudents\<close> establishes
  and no later action breaks), and that the system never loses the ability to
  add staff.
\<close>

subsection \<open>Well-typed student rows\<close>

text \<open>
  A student row as the upload admits it (spec section 4.2): name and phone
  non-empty, already trimmed, the phone not the literal \<open>"undefined"\<close>, and an
  owner with a non-empty identifier.
\<close>

definition input_ok :: "student_input \<Rightarrow> bool" where
  "input_ok inp \<longleftrightarrow> i_name inp \<noteq> [] \<and> i_phone inp \<noteq> [] \<and> i_phone inp \<noteq> ''undefined'' \<and>
     js_trim (i_name inp) = i_name inp \<and> js_trim (i_phone inp) = i_phone inp \<and> i_uploaded_by inp \<noteq> []"

definition student_ok :: "student \<Rightarrow> bool" where
  "student_ok x \<longleftrightarrow> s_name x \<noteq> [] \<and> s_phone x \<noteq> [] \<and> s_phone x \<noteq> ''undefined'' \<and>
     js_trim (s_name x) = s_name x \<and> js_trim (s_phone x) = s_phone x \<and> s_uploaded_by x \<noteq> []"

definition students_ok :: "store \<Rightarrow> bool" where
  "students_ok s \<longleftrightarrow> list_all student_ok (st_students s)"

subsection \<open>Lemmas\<close>

lemma student_ok_new [simp]: "student_ok (new_student s t inp) \<longleftrightarrow> input_ok inp"
  by (simp add: student_ok_def input_ok_def new_student_def)

lemma row_input_ok:
  assumes "u \<noteq> []" and "valid_input (row_to_input u r)"
  shows "input_ok (row_to_input u r)"
  using assms by (simp add: input_ok_def valid_input_def row_to_input_def Let_def js_trim_idem)

lemma foldl_insert_skip_ok:
  assumes "list_all input_ok xs" and "list_all student_ok (st_students s)"
  shows "list_all student_ok (st_students (foldl (insert_skip t) s xs))"
  using assms by (induction xs arbitrary: s) (simp_all add: insert_skip_def)

lemma student_update_ok:
  assumes "student_update s i f = Inr s'" and "list_all student_ok (st_students s)"
    and "\<And>x. student_key (f x) = student_key x" and "\<And>x. s_uploaded_by (f x) = s_uploaded_by x"
  shows "list_all student_ok (st_students s')"
proof -
  have "student_ok (f x) = student_ok x" for x
    using assms(3,4) [of x] by (simp add: student_ok_def student_key_def)
  then show ?thesis using assms(1,2) by (auto simp: student_update_def list_all_iff split: if_splits)
qed

lemma handle_students_ok:
  assumes "handle s sess rq = Inr (r, s')" and "students_ok s"
  shows "students_ok s'"
  using assms(1)
proof (cases rule: handle_students_cases)
  case Same
  then show ?thesis using assms(2) by (simp add: students_ok_def)
next
  case (Update i f)
  then show ?thesis using assms(2) student_update_ok by (simp add: students_ok_def)
next
  case (Upload p u rows)
  have "list_all input_ok (filter valid_input (map (row_to_input u) rows))"
    using row_input_ok [OF Upload(3)] by (auto simp: list_all_iff)
  then show ?thesis
    using Upload(4) assms(2) foldl_insert_skip_ok
    by (simp add: students_ok_def student_create_many_students)
qed

lemma seed_students [simp]: "st_students (seed s) = st_students s"
  by (cases s rule: seed_cases) (simp_all add: user_create_students)

subsection \<open>Properties\<close>

text \<open>
  C36: in every reachable store every student row is well-typed: its name and
  phone are non-empty and trimmed, the phone is not the string
  \<open>"undefined"\<close>, and it has an owner identifier.
\<close>

theorem reachable_students_ok: "reachable s \<Longrightarrow> students_ok s"
proof (induction rule: reachable.induct)
  case init
  show ?case by (simp add: students_ok_def empty_store_def)
next
  case (reseed s)
  then show ?case by (simp add: students_ok_def)
next
  case (request s tk rq r s')
  then show ?case using handle_students_ok by (simp add: serve_def)
qed

text \<open>
  C37: the system never loses the ability to add staff: in every reachable
  store, for any e-mail not yet registered, some session can create a faculty
  account with that e-mail, and the resulting store is again reachable.
\<close>

theorem staff_can_always_be_added:
  assumes r: "reachable s" and e: "find_user_by_email s e = None"
  shows "\<exists>tk rq r s'. serve s tk rq = Inr (r, s') \<and> reachable s' \<and>
           (\<exists>u \<in> set (st_users s'). u_email u = e \<and> u_role u = FACULTY)"
proof -
  have wf: "wf_store s" and hs: "has_super_admin s" using reachable_wf_super_admin [OF r] by auto
  obtain a where a: "a \<in> set (st_users s)" "u_role a = SUPER_ADMIN" using hs by (auto simp: has_super_admin_iff)
  have au: "auth s (Some (sign_in_token a)) = Some (principal_of a)"
    using session_of_sign_in [OF wf a(1)] by (simp add: jwt_callback_def)
  let ?fd = "[(''name'', ''Staff''), (''email'', e), (''password'', ''welcome1'')]"
  let ?s' = "s\<lparr>st_users := st_users s @ [new_user s ''Staff'' e (Bcrypt ''welcome1'') FACULTY],
               st_next := Suc (st_next s), st_clock := Suc (st_clock s)\<rparr>"
  have sv: "serve s (Some (sign_in_token a)) (CreateFaculty ?fd) = Inr (RVoid, ?s')"
    using au a(2) e
    by (simp add: serve_def handle_def create_faculty_def session_user_of_def is_manager_def
        principal_of_def bcrypt_hash_def form_get_def user_create_def)
  moreover have "reachable ?s'" by (rule reachable.request [OF r sv])
  moreover have "new_user s ''Staff'' e (Bcrypt ''welcome1'') FACULTY \<in> set (st_users ?s')" by simp
  ultimately show ?thesis by (fastforce simp: new_user_def)
qed

subsection \<open>Witnesses\<close>

theorem reachable_students_ok_witness:
  "reachable (student_create_many (seed empty_store) (filter valid_input (map (row_to_input ''c0'') demo_rows))) \<and>
   students_ok (student_create_many (seed empty_store) (filter valid_input (map (row_to_input ''c0'') demo_rows))) \<and>
   length (st_students (student_create_many (seed empty_store)
     (filter valid_input (map (row_to_input ''c0'') demo_rows)))) = 2"
proof -
  have h: "serve (seed empty_store) (Some \<lparr>t_sub = Some ''c0'', t_name = Some ''Super Admin''\<rparr>) (Upload demo_rows) =
      Inr (RSuccess, student_create_many (seed empty_store) (filter valid_input (map (row_to_input ''c0'') demo_rows)))"
    by code_simp
  have l: "length (st_students (student_create_many (seed empty_store)
     (filter valid_input (map (row_to_input ''c0'') demo_rows)))) = 2"
    by code_simp
  have r: "reachable (student_create_many (seed empty_store) (filter valid_input (map (row_to_input ''c0'') demo_rows)))"
    by (rule reachable.request [OF reachable.init h])
  show ?thesis using reachable_students_ok [OF r] r l by simp
qed

theorem staff_can_always_be_added_witness:
  "reachable (seed empty_store) \<and> find_user_by_email (seed empty_store) ''ravi@college.edu'' = None \<and>
   (\<exists>tk rq r s'. serve (seed empty_store) tk rq = Inr (r, s') \<and> reachable s' \<and>
      (\<exists>u \<in> set (st_users s'). u_email u = ''ravi@college.edu'' \<and> u_role u = FACULTY))"
proof -
  have h: "find_user_by_email (seed empty_store) ''ravi@college.edu'' = None"
    by (simp add: seed_def empty_store_def find_user_by_email_def user_create_def new_user_def)
  show ?thesis using staff_can_always_be_added [OF reachable.init h] reachable.init h by simp
qed

end
