(* ===== verification/Client_Feedback.thy ===== *)
theory Client_Feedback
  imports Pages
begin

text \<open>
  What the client components tell the user after calling a server action: the
  toast they raise, whether they reload the page, and whether a dialog stays
  open (\<open>client-view.tsx\<close>, \<open>faculty-client.tsx\<close>, \<open>user-profile-dialog.tsx\<close>).
  A handler that awaits an action without \<open>try\<close> lets a thrown error escape:
  no toast, no reload, the dialog unchanged. Each handler is modelled together
  with the action it calls, returning its feedback and the new store.
\<close>

datatype toast = Toast (toast_title: string) (toast_description: string) (toast_destructive: bool)

subsection \<open>Calling list\<close>

text \<open>\<open>handleFileUpload\<close> after the sheet is read: \<open>res?.success\<close> decides the toast.\<close>

definition upload_feedback :: "(reply \<times> store) result \<Rightarrow> toast option \<times> bool" where
  "upload_feedback res =
     (case res of
        Inl _ \<Rightarrow> (None, False)
      | Inr (RSuccess, _) \<Rightarrow> (Some (Toast ''Success'' ''Students uploaded successfully'' False), True)
      | Inr _ \<Rightarrow> (Some (Toast ''Error'' ''Upload failed'' True), False))"

definition handle_file_upload :: "store \<Rightarrow> principal option \<Rightarrow> row list \<Rightarrow> (toast option \<times> bool) \<times> store" where
  "handle_file_upload s sess rows =
     (let res = upload_students s sess rows
      in (upload_feedback res, case res of Inl _ \<Rightarrow> s | Inr (_, s') \<Rightarrow> s'))"

text \<open>
  The update dialog's form action: on success it closes the dialog, raises the
  toast and reloads; a thrown error leaves the dialog open and shows nothing.
  The result is the toast, the reload flag and whether the dialog is still open.
\<close>

definition save_call :: "store \<Rightarrow> principal option \<Rightarrow> student \<Rightarrow> form \<Rightarrow> (toast option \<times> bool \<times> bool) \<times> store" where
  "save_call s sess x fd =
     (case update_student s sess (s_id x) fd of
        Inl _ \<Rightarrow> ((None, False, True), s)
      | Inr (_, s') \<Rightarrow> ((Some (Toast ''Updated'' ''Student details saved.'' False), True, False), s'))"

subsection \<open>Faculty screen\<close>

text \<open>\<open>handleRoleChange\<close>: a returned \<open>error\<close> is shown, anything else reported as a change.\<close>

definition role_change_feedback :: "(reply \<times> store) result \<Rightarrow> toast option" where
  "role_change_feedback res =
     (case res of
        Inl _ \<Rightarrow> None
      | Inr (RError m, _) \<Rightarrow>
          if m \<noteq> [] then Some (Toast ''Error'' m True)
          else Some (Toast ''Updated'' ''User role changed.'' False)
      | Inr _ \<Rightarrow> Some (Toast ''Updated'' ''User role changed.'' False))"

definition handle_role_change :: "store \<Rightarrow> principal option \<Rightarrow> user \<Rightarrow> role \<Rightarrow> toast option \<times> store" where
  "handle_role_change s sess f r =
     (let res = update_user_role s sess (role_form f r)
      in (role_change_feedback res, case res of Inl _ \<Rightarrow> s | Inr (_, s') \<Rightarrow> s'))"

text \<open>The reset dialog catches every error; the flag says whether the dialog stays open.\<close>

definition reset_submit :: "store \<Rightarrow> principal option \<Rightarrow> user \<Rightarrow> string \<Rightarrow> (toast \<times> bool) \<times> store" where
  "reset_submit s sess f w =
     (case admin_reset_password s sess (reset_form f w) of
        Inl _ \<Rightarrow> ((Toast ''Error'' ''Failed to reset password.'' True, True), s)
      | Inr (_, s') \<Rightarrow> ((Toast ''Success'' ''Password reset.'' False, False), s'))"

subsection \<open>Profile dialog\<close>

text \<open>\<open>String.prototype.toUpperCase\<close> on ASCII: \<open>a\<close>..\<open>z\<close> become \<open>A\<close>..\<open>Z\<close>.\<close>

definition js_upper_char :: "char \<Rightarrow> char" where
  "js_upper_char c = (let n = (of_char c :: nat) in if 97 \<le> n \<and> n \<le> 122 then char_of (n - 32) else c)"

text \<open>\<open>user?.name?.substring(0, 2).toUpperCase() || "U"\<close>\<close>

definition profile_initials :: "principal \<Rightarrow> string" where
  "profile_initials p =
     (case p_name p of None \<Rightarrow> ''U''
      | Some n \<Rightarrow> if n = [] then ''U'' else map js_upper_char (take 2 n))"

text \<open>\<open>handleSubmit\<close> of the password form, which catches every error.\<close>

definition profile_submit :: "store \<Rightarrow> principal option \<Rightarrow> form \<Rightarrow> (toast \<times> bool) \<times> store" where
  "profile_submit s sess fd =
     (case update_own_password s sess fd of
        Inl _ \<Rightarrow> ((Toast ''Error'' ''Failed to update password.'' True, True), s)
      | Inr (_, s') \<Rightarrow> ((Toast ''Success'' ''Your password has been changed.'' False, False), s'))"


subsection \<open>Lemmas\<close>

lemma profile_initials_length: "1 \<le> length (profile_initials p) \<and> length (profile_initials p) \<le> 2"
  by (cases "p_name p") (auto simp: profile_initials_def Suc_le_eq)

lemma admin_role_change_refused:
  "p_role p = Some ADMIN \<Longrightarrow>
     handle_role_change s (Some p) f r = (Some (Toast ''Error'' ''Only Super Admin can change roles.'' True), s)"
  by (simp add: handle_role_change_def update_user_role_def session_user_of_def role_change_feedback_def)

lemma reset_submit_store:
  "snd (reset_submit s sess f w) = (case admin_reset_password s sess (reset_form f w) of Inl _ \<Rightarrow> s | Inr (_, s') \<Rightarrow> s')"
  by (simp add: reset_submit_def split: sum.split prod.split)

subsection \<open>Properties\<close>

text \<open>
  C40: for a signed-in user, the calling list reports "Students uploaded
  successfully" and reloads exactly when some row of the sheet is valid, even
  when every valid row duplicates a student already stored, so that nothing
  is inserted.
\<close>

theorem upload_reports_success:
  assumes "p_id p = Some u" and "u \<noteq> []"
  shows "(fst (handle_file_upload s (Some p) rows) =
            (Some (Toast ''Success'' ''Students uploaded successfully'' False), True) \<longleftrightarrow>
          filter valid_input (map (row_to_input u) rows) \<noteq> []) \<and>
         (input_key ` set (filter valid_input (map (row_to_input u) rows)) \<subseteq> set (map student_key (st_students s))
          \<longrightarrow> st_students (snd (handle_file_upload s (Some p) rows)) = st_students s)"
  using assms
  by (auto simp: handle_file_upload_def upload_students_def upload_feedback_def Let_def
      student_create_many_students foldl_insert_skip_present)

subsection \<open>Witnesses\<close>

theorem upload_reports_success_witness:
  "p_id (principal_of demo_faculty) = Some ''c2'' \<and>
   handle_file_upload demo_store (Some (principal_of demo_faculty))
     [[(''Name'', CStr ''Meera''), (''Phone'', CStr ''9000000001'')]] =
   ((Some (Toast ''Success'' ''Students uploaded successfully'' False), True),
    student_create_many demo_store (filter valid_input (map (row_to_input ''c2'')
      [[(''Name'', CStr ''Meera''), (''Phone'', CStr ''9000000001'')]]))) \<and>
   st_students (snd (handle_file_upload demo_store (Some (principal_of demo_faculty))
     [[(''Name'', CStr ''Meera''), (''Phone'', CStr ''9000000001'')]])) = st_students demo_store"
proof -
  have h1: "p_id (principal_of demo_faculty) = Some ''c2''" by (simp add: demo_defs)
  have h2: "''c2'' \<noteq> []" by simp
  have k: "input_key ` set (filter valid_input (map (row_to_input ''c2'')
      [[(''Name'', CStr ''Meera''), (''Phone'', CStr ''9000000001'')]])) \<subseteq> set (map student_key (st_students demo_store))"
    by code_simp
  have e: "handle_file_upload demo_store (Some (principal_of demo_faculty))
     [[(''Name'', CStr ''Meera''), (''Phone'', CStr ''9000000001'')]] =
   ((Some (Toast ''Success'' ''Students uploaded successfully'' False), True),
    student_create_many demo_store (filter valid_input (map (row_to_input ''c2'')
      [[(''Name'', CStr ''Meera''), (''Phone'', CStr ''9000000001'')]])))"
    by code_simp
  have st: "st_students (snd (handle_file_upload demo_store (Some (principal_of demo_faculty))
     [[(''Name'', CStr ''Meera''), (''Phone'', CStr ''9000000001'')]])) = st_students demo_store"
    by (rule mp [OF conjunct2 [OF upload_reports_success [OF h1 h2, of demo_store
        "[[(''Name'', CStr ''Meera''), (''Phone'', CStr ''9000000001'')]]"]] k])
  show ?thesis using h1 e st by simp
qed

end
