(* ===== verification/Screens.thy ===== *)
theory Screens
  imports Client_Feedback
begin

text \<open>
  What the screens display, computed from the data the pages hand them: the
  rows of the faculty screen with their controls (\<open>faculty-client.tsx\<close>), the
  rows of the calling-list table (\<open>client-view.tsx\<close>), the login page
  (\<open>login/page.tsx\<close>), the account-creation form of the faculty page, and the
  colours of the dashboard's pie charts (\<open>dashboard-charts.tsx\<close>). Class names
  are kept as strings; layout markup is not modelled.
\<close>

subsection \<open>Faculty screen rows\<close>

text \<open>\<open>getRoleColor\<close>\<close>

definition role_color :: "role \<Rightarrow> string" where
  "role_color r = (case r of
       SUPER_ADMIN \<Rightarrow> ''bg-purple-100 text-purple-700 hover:bg-purple-100''
     | ADMIN \<Rightarrow> ''bg-blue-100 text-blue-700 hover:bg-blue-100''
     | FACULTY \<Rightarrow> ''bg-gray-100 text-gray-700 hover:bg-gray-100'')"

text \<open>The read-only badge: \<open>f.role.replace('_', ' ')\<close>.\<close>

definition role_label :: "role \<Rightarrow> string" where
  "role_label r = js_replace_first (CHR ''_'') (CHR '' '') (role_name r)"

text \<open>
  The role column shows either the selector (current role and the options) or
  the badge (label and colour classes).
\<close>

datatype role_cell = RoleSelect role "role list" | RoleBadge string string

record faculty_row =
  fr_user :: user
  fr_is_me :: bool
  fr_role_cell :: role_cell
  fr_reset :: bool
  fr_delete :: bool

text \<open>One row of the table: \<open>isMe\<close>, \<open>canManage\<close> and the controls it gates.\<close>

definition faculty_row_of :: "principal \<Rightarrow> user \<Rightarrow> faculty_row" where
  "faculty_row_of cur f =
     (let m = can_manage cur f in
      \<lparr>fr_user = f, fr_is_me = same_id (Some (u_id f)) (p_id cur),
       fr_role_cell = (if m then RoleSelect (u_role f) (role_options cur)
                       else RoleBadge (role_label (u_role f)) (role_color (u_role f))),
       fr_reset = m, fr_delete = m\<rparr>)"

text \<open>\<open>FacultyClient\<close>: nothing without a current user, else one row per listed account.\<close>

definition faculty_client :: "user list \<Rightarrow> principal option \<Rightarrow> faculty_row list option" where
  "faculty_client us cur = (case cur of None \<Rightarrow> None | Some c \<Rightarrow> Some (map (faculty_row_of c) us))"

text \<open>The account-creation form of the faculty page.\<close>

definition create_form :: "string \<Rightarrow> string \<Rightarrow> string \<Rightarrow> form" where
  "create_form n e w = [(''name'', n), (''email'', e), (''password'', w)]"

subsection \<open>Calling-list table\<close>

text \<open>\<open>v || "-"\<close> for an optional text column.\<close>

definition dash_or :: "string option \<Rightarrow> string" where
  "dash_or v = (case v of None \<Rightarrow> ''-'' | Some x \<Rightarrow> if x = [] then ''-'' else x)"

record student_cells =
  sc_name :: string
  sc_phone :: string
  sc_prev_course :: string
  sc_interest :: string
  sc_status :: string
  sc_status_default :: bool
  sc_updated_by :: string

text \<open>The cells of one table row; the badge variant is \<open>default\<close> for INTERESTED.\<close>

definition student_cells_of :: "student \<Rightarrow> student_cells" where
  "student_cells_of x =
     \<lparr>sc_name = s_name x, sc_phone = s_phone x, sc_prev_course = dash_or (s_prev_course x),
      sc_interest = dash_or (map_option interest_name (s_future_interest x)),
      sc_status = status_label (s_call_status x), sc_status_default = (s_call_status x = INTERESTED),
      sc_updated_by = dash_or (s_last_updated_by x)\<rparr>"

datatype table_body = NoStudents | TableRows "student_cells list"

text \<open>The table body: the \<open>No students found\<close> row, or one row per shown student.\<close>

definition calling_list_table :: "sort_config \<Rightarrow> string \<Rightarrow> student list \<Rightarrow> table_body" where
  "calling_list_table cfg q xs =
     (let ys = sorted_students cfg q xs in if ys = [] then NoStudents else TableRows (map student_cells_of ys))"

subsection \<open>Login page\<close>

text \<open>The two fields of the login form.\<close>

definition login_form :: "string \<Rightarrow> string \<Rightarrow> form" where
  "login_form e w = [(''email'', e), (''password'', w)]"

text \<open>\<open>SubmitButton\<close>: the label while the form is pending and otherwise.\<close>

definition submit_label :: "bool \<Rightarrow> string" where
  "submit_label pending = (if pending then ''Signing in...'' else ''Sign In'')"

text \<open>\<open>{errorMessage && ...}\<close>: the banner shows a non-empty message.\<close>

definition login_banner :: "string option \<Rightarrow> string option" where
  "login_banner m = (case m of None \<Rightarrow> None | Some x \<Rightarrow> if x = [] then None else Some x)"

text \<open>
  Submitting the form through \<open>useFormState(authenticate)\<close>: a returned message
  becomes the banner, a successful sign-in leaves the page with the new token.
\<close>

definition login_submit :: "(string \<Rightarrow> bool) \<Rightarrow> store \<Rightarrow> string \<Rightarrow> string \<Rightarrow> string option + token" where
  "login_submit is_email s e w =
     (case authenticate is_email s (login_form e w) of
        LoginMessage m \<Rightarrow> Inl (login_banner (Some m))
      | LoginRedirect tk \<Rightarrow> Inr tk)"

subsection \<open>Chart colours\<close>

definition chart_colors :: "string list" where
  "chart_colors = [''#0088FE'', ''#00C49F'', ''#FFBB28'', ''#FF8042'', ''#8884d8'', ''#82ca9d'', ''#ffc658'']"

text \<open>\<open>COLORS[index % COLORS.length]\<close> for each slice of a chart.\<close>

definition slice_colors :: "'a list \<Rightarrow> string list" where
  "slice_colors xs = map (\<lambda>i. chart_colors ! (i mod length chart_colors)) [0..<length xs]"


subsection \<open>Lemmas\<close>

lemma sum_interest_chart: "sum_list (map snd (interest_chart gs)) = sum_list (map snd gs)"
  by (induction gs) (auto simp: interest_chart_def)

lemma length_charts [simp]:
  "length (interest_chart gs) = length gs" "length (status_chart hs) = length hs"
  by (simp_all add: interest_chart_def status_chart_def)

lemma slice_colors_bounded: "set (slice_colors xs) \<subseteq> set chart_colors"
proof -
  have "0 < length chart_colors" by (simp add: chart_colors_def)
  then show ?thesis by (auto simp: slice_colors_def intro!: nth_mem)
qed

lemma slice_colors_distinct:
  assumes "length xs \<le> length chart_colors"
  shows "distinct (slice_colors xs)"
proof -
  have d: "distinct chart_colors" by (simp add: chart_colors_def)
  have "inj_on (\<lambda>i. chart_colors ! (i mod length chart_colors)) {0..<length xs}"
    using assms by (auto simp: inj_on_def nth_eq_iff_index_eq [OF d])
  then show ?thesis by (simp add: slice_colors_def distinct_map)
qed

lemma search_filter_Nil [simp]: "search_filter [] xs = xs"
  by (simp add: search_filter_def search_match_def js_lower_def)

lemma sorted_students_None_Nil: "sorted_students None [] xs = xs"
  by (simp add: sorted_students_def sort_cmp_None js_sort_zero)

lemma login_submit_accepts:
  assumes "wf_store s" and "is_email e" and "find_user_by_email s e = Some u" and "u_password u = Bcrypt w"
  shows "\<exists>tk. login_submit is_email s e w = Inr tk \<and> auth s (Some tk) = Some (principal_of u)"
proof -
  have "u \<in> set (st_users s)" using assms(3) by (simp add: find_user_by_email_Some)
  then show ?thesis
    using assms session_of_sign_in [OF assms(1)]
    by (simp add: login_submit_def authenticate_def sign_in_def authorize_def login_form_def form_get_def)
qed

lemma login_submit_rejects:
  "authorize is_email s (Some e) (Some w) = None \<Longrightarrow>
     login_submit is_email s e w = Inl (Some ''Invalid credentials.'')"
  by (simp add: login_submit_def authenticate_def sign_in_def login_form_def form_get_def login_banner_def)

lemma create_form_creates:
  assumes "is_manager (p_role p)" and "find_user_by_email s e = None"
  shows "create_faculty s (Some p) (create_form n e w) =
           Inr (RVoid, s\<lparr>st_users := st_users s @ [new_user s n e (Bcrypt w) FACULTY],
                         st_next := Suc (st_next s), st_clock := Suc (st_clock s)\<rparr>)"
  using assms
  by (simp add: create_faculty_def session_user_of_def bcrypt_hash_def create_form_def form_get_def
      user_create_def)

subsection \<open>Properties\<close>

text \<open>
  C18: the dashboard's charts stay within the palette: the status chart has at
  most six slices (one per call status present) and the interest chart at most
  seven, because the interest query excludes students without an interest
  (\<open>futureInterest: {not: null}\<close>), which would otherwise form an eighth group; so
  \<open>COLORS[index % COLORS.length]\<close> gives every slice of a chart its own colour,
  and the interest slices count at most the total.
\<close>

theorem dashboard_chart_bounds:
  assumes "dashboard_page s sess = Some v"
  shows "length (dv_status_chart v) \<le> 6 \<and> length (dv_interest_chart v) \<le> 7 \<and>
         distinct (slice_colors (dv_status_chart v)) \<and> distinct (slice_colors (dv_interest_chart v)) \<and>
         sum_list (map snd (dv_interest_chart v)) \<le> dv_total v"
proof -
  obtain p where sess: "sess = Some p" using assms
    by (cases sess) (simp_all add: dashboard_page_def get_dashboard_stats_def)
  let ?xs = "where_uploaded (stats_where p) (st_students s)"
  let ?ys = "filter (\<lambda>x. s_future_interest x \<noteq> None) ?xs"
  have v: "dv_status_chart v = status_chart (group_count s_call_status ?xs)"
    "dv_interest_chart v = interest_chart (group_count s_future_interest ?ys)"
    "dv_total v = length ?xs"
    using assms sess by (auto simp: dashboard_page_def get_dashboard_stats_def Let_def)
  have "length (group_count s_call_status ?xs) \<le> length call_status_values"
    by (rule length_group_count) simp
  then have ls: "length (dv_status_chart v) \<le> 6" using v(1) by (simp add: call_status_values_def)
  have "\<forall>x \<in> set ?ys. s_future_interest x \<in> set (map Some interest_values)" by auto
  then have "length (group_count s_future_interest ?ys) \<le> length (map Some interest_values)"
    by (rule length_group_count)
  then have li: "length (dv_interest_chart v) \<le> 7" using v(2) by (simp add: interest_values_def)
  have "sum_list (map snd (dv_interest_chart v)) = length ?ys"
    unfolding v(2) sum_interest_chart by (rule sum_group_count)
  also have "\<dots> \<le> dv_total v" by (simp add: v(3))
  finally have sum: "sum_list (map snd (dv_interest_chart v)) \<le> dv_total v" .
  have l7: "length chart_colors = 7" by (simp add: chart_colors_def)
  have "distinct (slice_colors (dv_status_chart v))" using ls l7 by (intro slice_colors_distinct) simp
  moreover have "distinct (slice_colors (dv_interest_chart v))" using li l7 by (intro slice_colors_distinct) simp
  ultimately show ?thesis using ls li sum by simp
qed

text \<open>
  C19: the calling list shows the students the visibility filter selects,
  newest first; before any search or sort the table has one row per such
  student, and the "No students found" row exactly when there is none.
\<close>

theorem calling_list_view:
  assumes "students_page s sess = Inr xs"
  shows "\<exists>p. sess = Some p \<and> mset xs = mset (where_uploaded (list_where p) (st_students s)) \<and>
           sorted_wrt (\<lambda>a b. s_created b \<le> s_created a) xs \<and>
           calling_list_table None [] xs =
             (if where_uploaded (list_where p) (st_students s) = [] then NoStudents
              else TableRows (map student_cells_of xs))"
proof -
  obtain p where sess: "sess = Some p"
    and xs: "xs = order_desc s_created (where_uploaded (list_where p) (st_students s))"
    using assms by (cases sess) (auto simp: students_page_def)
  have "xs = [] \<longleftrightarrow> where_uploaded (list_where p) (st_students s) = []"
    unfolding xs by (metis mset_order_desc mset_zero_iff_right)
  then show ?thesis
    using sess xs order_desc_sorted
    by (auto simp: calling_list_table_def sorted_students_None_Nil)
qed

text \<open>
  C31: the faculty screen, whenever the faculty page renders, lists every
  account newest first with one row each; a row carries the role selector,
  the reset button and the delete form exactly when \<open>canManage\<close> holds for it,
  never on the viewer's own row, and for an admin viewer only on faculty rows.
\<close>

theorem faculty_screen_rows:
  assumes "faculty_page s sess = Render v"
  shows "\<exists>rows. faculty_client (fv_users v) (Some (fv_current v)) = Some rows \<and>
           map fr_user rows = order_desc u_created (st_users s) \<and>
           (\<forall>r \<in> set rows.
              (fr_reset r \<longleftrightarrow> can_manage (fv_current v) (fr_user r)) \<and> fr_delete r = fr_reset r \<and>
              (fr_reset r \<longrightarrow> fr_role_cell r = RoleSelect (u_role (fr_user r)) (role_options (fv_current v))) \<and>
              (fr_is_me r \<longrightarrow> \<not> fr_reset r) \<and>
              (p_role (fv_current v) = Some ADMIN \<and> fr_reset r \<longrightarrow> u_role (fr_user r) = FACULTY))"
proof -
  obtain p where "fv_current v = p" and us: "fv_users v = order_desc u_created (st_users s)"
    using assms by (rule faculty_page_Render)
  then show ?thesis
    by (auto simp: faculty_client_def faculty_row_of_def Let_def can_manage_iff same_id_Some comp_def)
qed


subsection \<open>Witnesses\<close>

theorem dashboard_chart_bounds_witness:
  "dashboard_page demo_store (Some (principal_of demo_faculty)) =
     Some \<lparr>dv_total = 1, dv_interested = 0, dv_interest_chart = [], dv_status_chart = [(''NOT_CALLED'', 1)]\<rparr> \<and>
   slice_colors [(''NOT_CALLED'', 1::nat)] = [''#0088FE'']"
proof -
  have h: "dashboard_page demo_store (Some (principal_of demo_faculty)) =
     Some \<lparr>dv_total = 1, dv_interested = 0, dv_interest_chart = [], dv_status_chart = [(''NOT_CALLED'', 1)]\<rparr>"
    by code_simp
  have "distinct (slice_colors [(''NOT_CALLED'', 1::nat)])"
    using dashboard_chart_bounds [OF h] by simp
  moreover have "slice_colors [(''NOT_CALLED'', 1::nat)] = [''#0088FE'']"
    by (simp add: slice_colors_def chart_colors_def)
  ultimately show ?thesis using h by simp
qed

theorem calling_list_view_witness:
  "students_page demo_store (Some (principal_of demo_faculty)) = Inr [demo_student] \<and>
   calling_list_table None [] [demo_student] = TableRows [student_cells_of demo_student] \<and>
   sc_interest (student_cells_of demo_student) = ''-'' \<and> sc_status (student_cells_of demo_student) = ''NOT CALLED''"
proof -
  have h: "students_page demo_store (Some (principal_of demo_faculty)) = Inr [demo_student]"
    by (simp add: students_page_def list_where_def order_desc_def demo_defs)
  have "calling_list_table None [] [demo_student] =
      (if where_uploaded (list_where (principal_of demo_faculty)) (st_students demo_store) = [] then NoStudents
       else TableRows (map student_cells_of [demo_student]))"
    using calling_list_view [OF h] by auto
  moreover have "where_uploaded (list_where (principal_of demo_faculty)) (st_students demo_store) \<noteq> []"
    by (simp add: list_where_def demo_defs)
  moreover have "sc_interest (student_cells_of demo_student) = ''-''
      \<and> sc_status (student_cells_of demo_student) = ''NOT CALLED''"
    by (simp add: student_cells_of_def dash_or_def status_label_def demo_student_def)
  ultimately show ?thesis using h by simp
qed

theorem faculty_screen_rows_witness:
  "faculty_page demo_store (Some (principal_of demo_admin)) =
     Render \<lparr>fv_users = order_desc u_created (st_users demo_store),
             fv_faculty = order_desc u_created (filter (\<lambda>u. u_role u = FACULTY) (st_users demo_store)),
             fv_current = principal_of demo_admin\<rparr> \<and>
   faculty_client (order_desc u_created (st_users demo_store)) (Some (principal_of demo_admin)) =
     Some (map (faculty_row_of (principal_of demo_admin)) (order_desc u_created (st_users demo_store))) \<and>
   fr_reset (faculty_row_of (principal_of demo_admin) demo_faculty) \<and>
   \<not> fr_reset (faculty_row_of (principal_of demo_admin) demo_super)"
proof -
  have h: "faculty_page demo_store (Some (principal_of demo_admin)) =
     Render \<lparr>fv_users = order_desc u_created (st_users demo_store),
             fv_faculty = order_desc u_created (filter (\<lambda>u. u_role u = FACULTY) (st_users demo_store)),
             fv_current = principal_of demo_admin\<rparr>"
    by (simp add: faculty_page_def is_manager_def principal_of_def demo_admin_def)
  obtain rows where r: "faculty_client (order_desc u_created (st_users demo_store)) (Some (principal_of demo_admin)) = Some rows"
    and m: "map fr_user rows = order_desc u_created (st_users demo_store)"
    and ok: "\<forall>r \<in> set rows. fr_reset r \<longleftrightarrow> can_manage (principal_of demo_admin) (fr_user r)"
    using faculty_screen_rows [OF h] by auto
  have "fr_reset (faculty_row_of (principal_of demo_admin) demo_faculty) \<and>
        \<not> fr_reset (faculty_row_of (principal_of demo_admin) demo_super)"
    by (simp add: faculty_row_of_def Let_def can_manage_iff demo_defs)
  then show ?thesis using h r by (simp add: faculty_client_def)
qed

end
