(* ===== verification/Sessions.thy ===== *)
theory Sessions
  imports Invariants Screens
begin

text \<open>
  Clients of the application, each holding the session cookie its own sign-in
  set (\<open>login/page.tsx\<close>), interleaving their actions on the one shared store.
  A client is called a tab below; it stands for a browser with its own cookie
  jar (tabs of one browser share a cookie, which is the case of one client).
  The actions are signing in and out (the sign-out form of \<open>user-profile-dialog.tsx\<close>, wired to
  \<open>signOut\<close> by \<open>layout.tsx\<close>), sending server actions, and opening, closing and
  submitting the profile dialog. A run of the tabs is a sequence of such steps;
  every step that writes is one request of the system of \<open>System\<close>, so every
  store the tabs reach is reachable there.
\<close>

subsection \<open>One tab\<close>

text \<open>
  The state of a tab: its session cookie, the login page's error banner, whether
  the profile dialog is open, and the last toast the profile form raised.
\<close>

record tab =
  tab_token :: "token option"
  tab_banner :: "string option"
  tab_profile_open :: bool
  tab_toast :: "toast option"

definition empty_tab :: tab where
  "empty_tab = \<lparr>tab_token = None, tab_banner = None, tab_profile_open = False, tab_toast = None\<rparr>"

datatype tab_action =
    SignIn string string
  | SignOut
  | Send request
  | OpenProfile
  | CloseProfile
  | SubmitProfile string

text \<open>The profile dialog's form: its one named field.\<close>

definition profile_form :: "string \<Rightarrow> form" where
  "profile_form w = [(''newPassword'', w)]"

text \<open>
  One step of a tab. Signing in replaces the page and keeps only the new cookie;
  signing out clears the cookie and leaves for a fresh page. The profile dialog
  belongs to the dashboard layout, so it opens only where the layout renders;
  the browser refuses to submit its form below six characters
  (\<open>required minLength={6}\<close>); an error leaves the dialog as it was.
\<close>

definition tab_step :: "(string \<Rightarrow> bool) \<Rightarrow> store \<Rightarrow> tab \<Rightarrow> tab_action \<Rightarrow> tab \<times> store" where
  "tab_step is_email s t a =
     (case a of
        SignIn e w \<Rightarrow>
          (case login_submit is_email s e w of
             Inl m \<Rightarrow> (t\<lparr>tab_banner := m\<rparr>, s)
           | Inr tk \<Rightarrow> (empty_tab\<lparr>tab_token := Some tk\<rparr>, s))
      | SignOut \<Rightarrow> (empty_tab, s)
      | Send rq \<Rightarrow> (case serve s (tab_token t) rq of Inl _ \<Rightarrow> (t, s) | Inr (_, s') \<Rightarrow> (t, s'))
      | OpenProfile \<Rightarrow>
          (case dashboard_layout s (tab_token t) of
             Redirect _ \<Rightarrow> (t, s)
           | Render _ \<Rightarrow> (t\<lparr>tab_profile_open := True\<rparr>, s))
      | CloseProfile \<Rightarrow> (t\<lparr>tab_profile_open := False\<rparr>, s)
      | SubmitProfile w \<Rightarrow>
          (if tab_profile_open t \<and> client_password_ok w then
             (case profile_submit s (auth s (tab_token t)) (profile_form w) of
                ((m, keep), s') \<Rightarrow> (t\<lparr>tab_toast := Some m, tab_profile_open := keep\<rparr>, s'))
           else (t, s)))"

subsection \<open>Several tabs\<close>

text \<open>
  The tabs of a browser (or of several browsers) over the seeded store: any tab
  takes a step, a new tab opens with no cookie, or the seed script runs again.
\<close>

inductive tabs_reach :: "(string \<Rightarrow> bool) \<Rightarrow> store \<Rightarrow> tab list \<Rightarrow> bool" for is_email where
  init: "tabs_reach is_email (seed empty_store) []"
| open_tab: "tabs_reach is_email s ts \<Longrightarrow> tabs_reach is_email s (ts @ [empty_tab])"
| reseed: "tabs_reach is_email s ts \<Longrightarrow> tabs_reach is_email (seed s) ts"
| step: "tabs_reach is_email s ts \<Longrightarrow> i < length ts \<Longrightarrow> tab_step is_email s (ts ! i) a = (t', s') \<Longrightarrow>
           tabs_reach is_email s' (ts[i := t'])"

subsection \<open>Lemmas\<close>

lemma serve_no_session: "\<exists>e. serve s None rq = Inl e"
  by (cases rq) (simp_all add: serve_def auth_def handle_def account_defs upload_students_def
      update_student_def)

lemma profile_submit_store:
  "profile_submit s (auth s tk) fd = ((m, keep), s') \<Longrightarrow>
     s' = s \<or> (\<exists>r. serve s tk (UpdateOwnPassword fd) = Inr (r, s'))"
  by (auto simp: profile_submit_def serve_def handle_def split: sum.splits)

text \<open>Every step of a tab either leaves the store alone or is one request of its cookie.\<close>

lemma tab_step_serve:
  assumes "tab_step is_email s t a = (t', s')"
  shows "s' = s \<or> (\<exists>rq r. serve s (tab_token t) rq = Inr (r, s'))"
proof (cases a)
  case (Send rq)
  then show ?thesis using assms by (auto simp: tab_step_def split: sum.splits)
next
  case (SubmitProfile w)
  then show ?thesis using assms profile_submit_store
    by (fastforce simp: tab_step_def split: if_splits prod.splits)
qed (use assms in \<open>auto simp: tab_step_def split: sum.splits page.splits\<close>)

lemma tabs_reach_reachable: "tabs_reach is_email s ts \<Longrightarrow> reachable s"
proof (induction rule: tabs_reach.induct)
  case init
  then show ?case by (rule reachable.init)
next
  case (open_tab s ts)
  from open_tab.IH show ?case .
next
  case (reseed s ts)
  from reseed.IH show ?case by (rule reachable.reseed)
next
  case (step s ts i a t' s')
  then show ?case using tab_step_serve [OF step(3)] reachable.request by blast
qed

lemma find_user_set_role:
  assumes "wf_store s" and "u \<in> set (st_users s)"
  shows "find_user (s\<lparr>st_users := map (\<lambda>v. if u_id v = u_id u then set_role r v else v) (st_users s)\<rparr>) (u_id u) =
           Some (set_role r u)"
proof -
  have fu: "find_user s (u_id u) = Some u" using find_user_in_wf [OF assms] .
  have wf': "wf_store (s\<lparr>st_users := map (\<lambda>v. if u_id v = u_id u then set_role r v else v) (st_users s)\<rparr>)"
    by (rule user_update_wf [OF assms(1) user_update_found [OF fu]]) simp_all
  have mem: "set_role r u \<in> set (st_users (s\<lparr>st_users := map (\<lambda>v. if u_id v = u_id u then set_role r v else v) (st_users s)\<rparr>))"
    using assms(2) by force
  show ?thesis using find_user_in_wf [OF wf' mem] by simp
qed

lemma login_submit_token:
  "login_submit is_email s e w = Inr tk \<Longrightarrow> \<exists>u. find_user_by_email s e = Some u \<and> tk = sign_in_token u"
  by (auto simp: login_submit_def authenticate_def sign_in_def authorize_def login_form_def form_get_def
      jwt_callback_def split: login_outcome.splits option.splits if_splits)

text \<open>A tab's cookie after a step: kept, cleared, or issued for an account of the store.\<close>

lemma tab_step_token:
  assumes "tab_step is_email s t a = (t', s')"
  shows "tab_token t' = tab_token t \<or> tab_token t' = None \<or>
         (\<exists>u \<in> set (st_users s). tab_token t' = Some (sign_in_token u))"
proof (cases a)
  case (SignIn e w)
  then show ?thesis using assms login_submit_token find_user_by_email_Some
    by (fastforce simp: tab_step_def empty_tab_def split: sum.splits)
qed (use assms in \<open>auto simp: tab_step_def empty_tab_def split: sum.splits page.splits if_splits prod.splits\<close>)

definition tab_tokens_ok :: "tab list \<Rightarrow> bool" where
  "tab_tokens_ok ts \<longleftrightarrow> (\<forall>t \<in> set ts. \<forall>tk. tab_token t = Some tk \<longrightarrow> (\<exists>u. tk = sign_in_token u \<and> u_id u \<noteq> []))"

lemma tabs_reach_tokens: "tabs_reach is_email s ts \<Longrightarrow> tab_tokens_ok ts"
proof (induction rule: tabs_reach.induct)
  case (step s ts i a t' s')
  have wf: "wf_store s" using reachable_wf_super_admin [OF tabs_reach_reachable [OF step(1)]] by simp
  have "tab_tokens_ok [t']"
  proof -
    consider "tab_token t' = tab_token (ts ! i)" | "tab_token t' = None"
      | u where "u \<in> set (st_users s)" "tab_token t' = Some (sign_in_token u)"
      using tab_step_token [OF step(3)] by auto
    then show ?thesis
    proof cases
      case 1
      then show ?thesis using step.IH nth_mem [OF step(2)] by (simp add: tab_tokens_ok_def)
    next
      case 3
      then show ?thesis using wf_user_id_not_Nil [OF wf] by (auto simp: tab_tokens_ok_def)
    qed (simp add: tab_tokens_ok_def)
  qed
  then show ?case using step.IH set_update_subset_insert [of ts i t'] by (auto simp: tab_tokens_ok_def)
qed (auto simp: tab_tokens_ok_def empty_tab_def)

text \<open>The session of an account whose stored role is FACULTY.\<close>

lemma auth_faculty_token:
  assumes "find_user s (u_id u) = Some v" and "u_role v = FACULTY" and "u_id u \<noteq> []"
  shows "dashboard_layout s (Some (sign_in_token u)) = Render [''/dashboard'', ''/dashboard/students''] \<and>
         (\<forall>fd. serve s (Some (sign_in_token u)) (CreateFaculty fd) = Inl Forbidden) \<and>
         (\<forall>fd. serve s (Some (sign_in_token u)) (DeleteFaculty fd) = Inl Forbidden) \<and>
         (\<forall>fd. serve s (Some (sign_in_token u)) (ResetPassword fd) = Inl Forbidden)"
  using assms
  by (simp add: dashboard_layout_def nav_links_def show_faculty_link_def is_manager_def serve_def
      handle_def account_defs auth_def session_callback_def jwt_callback_def sign_in_token_def)

subsection \<open>Properties\<close>

text \<open>
  However the tabs interleave sign-ins, sign-outs, server actions and the
  profile dialog, the shared store stays reachable by single requests (so every
  invariant of \<open>System\<close> and \<open>Invariants\<close> holds of it): it is well formed and
  has a super admin, and every cookie a tab holds was issued at sign-in for an
  account with a non-empty id.
\<close>

theorem tabs_refine_requests:
  assumes "tabs_reach is_email s ts"
  shows "reachable s \<and> wf_store s \<and> has_super_admin s \<and>
         (\<forall>t \<in> set ts. \<forall>tk. tab_token t = Some tk \<longrightarrow> (\<exists>u. tk = sign_in_token u \<and> u_id u \<noteq> []))"
  using tabs_reach_reachable [OF assms] reachable_wf_super_admin [OF tabs_reach_reachable [OF assms]]
    tabs_reach_tokens [OF assms]
  by (simp add: tab_tokens_ok_def)

text \<open>
  C21: a demotion takes effect at once in every tab of the demoted account:
  after a super admin's tab changes another account's role to FACULTY, that
  account's cookie (issued when it was an admin) no longer shows the Faculty
  Team link, and creating, deleting or resetting accounts with it is Forbidden.
  The cookie carries no role; the session re-reads it from the store.
\<close>

theorem demotion_takes_effect:
  assumes wf: "wf_store s" and u: "u \<in> set (st_users s)"
    and j: "auth s (tab_token tj) = Some p" "p_role p = Some SUPER_ADMIN" "p_id p \<noteq> Some (u_id u)"
    and st: "tab_step is_email s tj (Send (UpdateRole (role_form u FACULTY))) = (tj', s')"
  shows "tj' = tj \<and>
         dashboard_layout s' (Some (sign_in_token u)) = Render [''/dashboard'', ''/dashboard/students''] \<and>
         (\<forall>fd. serve s' (Some (sign_in_token u)) (CreateFaculty fd) = Inl Forbidden) \<and>
         (\<forall>fd. serve s' (Some (sign_in_token u)) (DeleteFaculty fd) = Inl Forbidden) \<and>
         (\<forall>fd. serve s' (Some (sign_in_token u)) (ResetPassword fd) = Inl Forbidden)"
proof -
  let ?s1 = "s\<lparr>st_users := map (\<lambda>v. if u_id v = u_id u then set_role FACULTY v else v) (st_users s)\<rparr>"
  have ne: "\<not> same_id (Some (u_id u)) (p_id p)" using j(3) by (cases "p_id p") auto
  have pr: "parse_role ''FACULTY'' = Some FACULTY" using parse_role_name [of FACULTY] by simp
  have "serve s (tab_token tj) (UpdateRole (role_form u FACULTY)) = Inr (RSuccess, ?s1)"
    using j(1,2) ne pr user_update_found [OF find_user_in_wf [OF wf u]]
    by (simp add: serve_def handle_def update_user_role_def session_user_of_def role_form_def form_get_def)
  then have tj': "tj' = tj" and s': "s' = ?s1" using st by (simp_all add: tab_step_def)
  have "find_user s' (u_id u) = Some (set_role FACULTY u)"
    unfolding s' by (rule find_user_set_role [OF wf u])
  then show ?thesis
    using auth_faculty_token [of s' u] wf_user_id_not_Nil [OF wf u] tj' by (simp add: set_role_def)
qed

text \<open>
  C17: signing out ends the tab's session. The sign-out step writes nothing,
  clears the cookie and closes the profile dialog; from then on, until the
  next sign-in, nothing the tab does changes the store, the tab stays without
  a cookie, and the profile dialog, which only the dashboard layout offers,
  does not open.
\<close>

theorem signed_out_tab_inert:
  "tab_token (fst (tab_step is_email s t SignOut)) = None \<and>
   \<not> tab_profile_open (fst (tab_step is_email s t SignOut)) \<and> snd (tab_step is_email s t SignOut) = s \<and>
   (tab_token t = None \<and> \<not> tab_profile_open t \<and> (\<forall>e w. a \<noteq> SignIn e w) \<longrightarrow>
      snd (tab_step is_email s t a) = s \<and> tab_token (fst (tab_step is_email s t a)) = None \<and>
      \<not> tab_profile_open (fst (tab_step is_email s t a)))"
proof -
  have out: "tab_step is_email s t SignOut = (empty_tab, s)" by (simp add: tab_step_def)
  have "snd (tab_step is_email s t a) = s \<and> tab_token (fst (tab_step is_email s t a)) = None \<and>
        \<not> tab_profile_open (fst (tab_step is_email s t a))"
    if tk: "tab_token t = None" and cl: "\<not> tab_profile_open t" and ns: "\<forall>e w. a \<noteq> SignIn e w"
  proof (cases a)
    case (Send rq)
    obtain e where "serve s None rq = Inl e" using serve_no_session by blast
    then show ?thesis using Send tk cl by (simp add: tab_step_def)
  next
    case OpenProfile
    then show ?thesis using tk cl by (simp add: tab_step_def dashboard_layout_def auth_def)
  qed (use tk cl ns in \<open>simp_all add: tab_step_def empty_tab_def\<close>)
  then show ?thesis using out by (simp add: empty_tab_def)
qed

subsection \<open>Witnesses\<close>

theorem tabs_refine_requests_witness:
  "tabs_reach (\<lambda>_. True) (seed empty_store)
     [fst (tab_step (\<lambda>_. True) (seed empty_store) empty_tab (SignIn ''admin@college.edu'' ''admin123''))] \<and>
   tab_token (fst (tab_step (\<lambda>_. True) (seed empty_store) empty_tab (SignIn ''admin@college.edu'' ''admin123''))) \<noteq> None \<and>
   has_super_admin (seed empty_store)"
proof -
  let ?t = "fst (tab_step (\<lambda>_. True) (seed empty_store) empty_tab (SignIn ''admin@college.edu'' ''admin123''))"
  have r0: "tabs_reach (\<lambda>_. True) (seed empty_store) [empty_tab]"
    using tabs_reach.open_tab [OF tabs_reach.init] by simp
  have e: "snd (tab_step (\<lambda>_. True) (seed empty_store) empty_tab (SignIn ''admin@college.edu'' ''admin123'')) =
      seed empty_store"
    by (simp add: tab_step_def split: sum.split)
  have "tab_step (\<lambda>_. True) (seed empty_store) ([empty_tab] ! 0) (SignIn ''admin@college.edu'' ''admin123'') =
      (?t, seed empty_store)"
    using e by (metis nth_Cons_0 prod.collapse)
  then have r: "tabs_reach (\<lambda>_. True) (seed empty_store) [?t]"
    using tabs_reach.step [OF r0] by fastforce
  have tk: "tab_token ?t \<noteq> None" by code_simp
  show ?thesis using tabs_refine_requests [OF r] r tk by simp
qed

theorem demotion_takes_effect_witness:
  "dashboard_layout demo_store (Some (sign_in_token demo_admin)) =
     Render [''/dashboard'', ''/dashboard/students'', ''/dashboard/faculty''] \<and>
   dashboard_layout
     (snd (tab_step (\<lambda>_. True) demo_store (empty_tab\<lparr>tab_token := Some (sign_in_token demo_super)\<rparr>)
        (Send (UpdateRole (role_form demo_admin FACULTY)))))
     (Some (sign_in_token demo_admin)) = Render [''/dashboard'', ''/dashboard/students'']"
proof -
  have wf: "wf_store demo_store" by (rule demo_store_wf)
  have u: "demo_admin \<in> set (st_users demo_store)" by (simp add: demo_store_def)
  have a: "auth demo_store (tab_token (empty_tab\<lparr>tab_token := Some (sign_in_token demo_super)\<rparr>)) =
      Some (principal_of demo_super)"
    using session_of_sign_in [OF wf, of demo_super] by (simp add: jwt_callback_def demo_store_def)
  have r: "p_role (principal_of demo_super) = Some SUPER_ADMIN"
    and i: "p_id (principal_of demo_super) \<noteq> Some (u_id demo_admin)" by (simp_all add: demo_defs)
  have l: "dashboard_layout demo_store (Some (sign_in_token demo_admin)) =
      Render [''/dashboard'', ''/dashboard/students'', ''/dashboard/faculty'']"
    by code_simp
  show ?thesis using demotion_takes_effect [OF wf u a r i prod.collapse [symmetric]] l by simp
qed

theorem signed_out_tab_inert_witness:
  "tab_token (fst (tab_step (\<lambda>_. True) demo_store (empty_tab\<lparr>tab_token := Some (sign_in_token demo_admin)\<rparr>) SignOut)) = None \<and>
   snd (tab_step (\<lambda>_. True) demo_store empty_tab (Send (CreateFaculty (create_form ''Staff'' ''x@college.edu'' ''welcome1'')))) =
     demo_store \<and>
   \<not> tab_profile_open (fst (tab_step (\<lambda>_. True) demo_store empty_tab OpenProfile))"
proof -
  have h: "tab_token empty_tab = None \<and> \<not> tab_profile_open empty_tab" by (simp add: empty_tab_def)
  have s1: "\<forall>e w. Send (CreateFaculty (create_form ''Staff'' ''x@college.edu'' ''welcome1'')) \<noteq> SignIn e w" by simp
  have s2: "\<forall>e w. OpenProfile \<noteq> SignIn e w" by simp
  note a = signed_out_tab_inert [of "\<lambda>_. True" demo_store "empty_tab\<lparr>tab_token := Some (sign_in_token demo_admin)\<rparr>"
      "Send (CreateFaculty (create_form ''Staff'' ''x@college.edu'' ''welcome1''))"]
  note b = signed_out_tab_inert [of "\<lambda>_. True" demo_store empty_tab
      "Send (CreateFaculty (create_form ''Staff'' ''x@college.edu'' ''welcome1''))"]
  note c = signed_out_tab_inert [of "\<lambda>_. True" demo_store empty_tab OpenProfile]
  show ?thesis using conjunct1 [OF a] mp [OF conjunct2 [OF conjunct2 [OF conjunct2 [OF b]]]]
      mp [OF conjunct2 [OF conjunct2 [OF conjunct2 [OF c]]]] h s1 s2 by blast
qed

end
