(* ===== verification/Screen_State.thy ===== *)
theory Screen_State
  imports Screens
begin

text \<open>
  The client state of the two interactive screens and the events that change
  it: the calling list (\<open>StudentClient\<close>, \<open>client-view.tsx\<close>: the search text,
  the sort configuration, the student whose dialog is open) and the faculty
  screen (\<open>FacultyClient\<close>, \<open>faculty-client.tsx\<close>: the account selected for a
  password reset and whether the reset dialog is open). Each \<open>useState\<close> is a
  field of a record; each handler is one case of a step function.
\<close>

subsection \<open>Calling list\<close>

text \<open>
  Lines 16--21. \<open>setStudents\<close> is never called: the rows change only when the
  page reloads.
\<close>

record list_ui =
  lu_students :: "student list"
  lu_search :: string
  lu_selected :: "student option"
  lu_sort :: sort_config

definition list_ui_init :: "student list \<Rightarrow> list_ui" where
  "list_ui_init xs = \<lparr>lu_students = xs, lu_search = [], lu_selected = None, lu_sort = None\<rparr>"

text \<open>The two sortable headers (lines 101--123).\<close>

datatype sort_column = FutureInterest | CallStatus

primrec column_key :: "sort_column \<Rightarrow> string" where
  "column_key FutureInterest = ''futureInterest''"
| "column_key CallStatus = ''callStatus''"

datatype list_event = TypeSearch string | ClickHeader sort_column | ClickUpdate student | DismissDialog

text \<open>
  The search box's \<open>onChange\<close> (line 83), a header's \<open>onClick\<close>, a row's
  Update button (line 151) and the dialog's \<open>onOpenChange\<close> (line 160).
\<close>

definition list_ui_step :: "list_ui \<Rightarrow> list_event \<Rightarrow> list_ui" where
  "list_ui_step u e =
     (case e of
        TypeSearch q \<Rightarrow> u\<lparr>lu_search := q\<rparr>
      | ClickHeader c \<Rightarrow> u\<lparr>lu_sort := handle_sort (lu_sort u) (column_key c)\<rparr>
      | ClickUpdate x \<Rightarrow> u\<lparr>lu_selected := Some x\<rparr>
      | DismissDialog \<Rightarrow> u\<lparr>lu_selected := None\<rparr>)"

text \<open>The icon of a sortable header (lines 107--109 and 119--121).\<close>

datatype sort_icon = ArrowUp | ArrowDown | ArrowUpDown

definition sort_icon_of :: "sort_config \<Rightarrow> string \<Rightarrow> sort_icon" where
  "sort_icon_of cfg k =
     (case cfg of
        Some (k', d) \<Rightarrow> if k' = k then (if d = Asc then ArrowUp else ArrowDown) else ArrowUpDown
      | None \<Rightarrow> ArrowUpDown)"

text \<open>What the screen shows: the table body, the two header icons, the open dialog.\<close>

record list_screen =
  ls_body :: table_body
  ls_interest_icon :: sort_icon
  ls_status_icon :: sort_icon
  ls_dialog :: "student option"

definition list_ui_view :: "list_ui \<Rightarrow> list_screen" where
  "list_ui_view u =
     \<lparr>ls_body = calling_list_table (lu_sort u) (lu_search u) (lu_students u),
      ls_interest_icon = sort_icon_of (lu_sort u) ''futureInterest'',
      ls_status_icon = sort_icon_of (lu_sort u) ''callStatus'',
      ls_dialog = lu_selected u\<rparr>"

subsection \<open>Faculty screen\<close>

text \<open>Lines 19--20.\<close>

record faculty_ui =
  fu_selected :: "user option"
  fu_reset_open :: bool

definition faculty_ui_init :: faculty_ui where
  "faculty_ui_init = \<lparr>fu_selected = None, fu_reset_open = False\<rparr>"

text \<open>
  A row's key button (line 113), the dialog's \<open>onOpenChange\<close> (line 138; with no
  trigger it only ever closes the dialog), and the reset form's submission.
\<close>

datatype faculty_event = ClickReset user | DismissReset | SubmitReset string

text \<open>The reset form (lines 153--154): \<open>selectedFaculty?.id || ''\<close> and the new password.\<close>

definition reset_dialog_form :: "faculty_ui \<Rightarrow> string \<Rightarrow> form" where
  "reset_dialog_form ui w = [(''id'', case fu_selected ui of None \<Rightarrow> [] | Some f \<Rightarrow> u_id f), (''newPassword'', w)]"

text \<open>
  One event on the rendered rows. The key button exists only on a row whose
  reset control is shown; the form is submitted only from the open dialog and
  past the browser's \<open>minLength\<close> check; the action runs under the cookie
  \<open>tk\<close> on the current store, which may have changed since the rows were
  rendered. The result is the toast raised, the new state and the new store.
\<close>

definition faculty_ui_step ::
  "token option \<Rightarrow> faculty_row list \<Rightarrow> store \<Rightarrow> faculty_ui \<Rightarrow> faculty_event \<Rightarrow> (toast option \<times> faculty_ui) \<times> store" where
  "faculty_ui_step tk rows s ui e =
     (case e of
        ClickReset f \<Rightarrow>
          (if list_ex (\<lambda>r. fr_user r = f \<and> fr_reset r) rows
           then ((None, ui\<lparr>fu_selected := Some f, fu_reset_open := True\<rparr>), s) else ((None, ui), s))
      | DismissReset \<Rightarrow> ((None, ui\<lparr>fu_reset_open := False\<rparr>), s)
      | SubmitReset w \<Rightarrow>
          (if fu_reset_open ui \<and> client_password_ok w then
             (case serve s tk (ResetPassword (reset_dialog_form ui w)) of
                Inl _ \<Rightarrow> ((Some (Toast ''Error'' ''Failed to reset password.'' True), ui), s)
              | Inr (_, s') \<Rightarrow> ((Some (Toast ''Success'' ''Password reset.'' False), ui\<lparr>fu_reset_open := False\<rparr>), s'))
           else ((None, ui), s)))"

text \<open>A sequence of events on one rendering of the screen.\<close>

fun faculty_ui_run ::
  "token option \<Rightarrow> faculty_row list \<Rightarrow> faculty_ui \<times> store \<Rightarrow> faculty_event list \<Rightarrow> faculty_ui \<times> store" where
  "faculty_ui_run tk rows c [] = c"
| "faculty_ui_run tk rows (ui, s) (e # es) =
     (case faculty_ui_step tk rows s ui e of ((_, ui'), s') \<Rightarrow> faculty_ui_run tk rows (ui', s') es)"


subsection \<open>Saving a call and reloading the calling list\<close>

text \<open>\<open>StudentsPage\<close> (line 12): the client component starts from the queried rows.\<close>

definition students_screen :: "store \<Rightarrow> principal option \<Rightarrow> list_ui result" where
  "students_screen s sess = (case students_page s sess of Inl e \<Rightarrow> Inl e | Inr xs \<Rightarrow> Inr (list_ui_init xs))"

text \<open>
  The update dialog's form action (client-view.tsx lines 166--171) on the open
  dialog: on success the page reloads, so the screen is rendered afresh from the
  store under the same cookie; a thrown error leaves the screen as it was.
\<close>

definition list_ui_save :: "store \<Rightarrow> token option \<Rightarrow> list_ui \<Rightarrow> form \<Rightarrow> (toast option \<times> list_ui result) \<times> store" where
  "list_ui_save s tk u fd =
     (case lu_selected u of
        None \<Rightarrow> ((None, Inr u), s)
      | Some x \<Rightarrow>
          (case save_call s (auth s tk) x fd of
             ((m, reload, _), s') \<Rightarrow>
               if reload then ((m, students_screen s' (auth s' tk)), s') else ((m, Inr u), s')))"

subsection \<open>Lemmas\<close>

lemma list_ui_run_students: "lu_students (foldl list_ui_step u es) = lu_students u"
  by (induction es arbitrary: u) (simp_all add: list_ui_step_def split: list_event.split)

lemma sort_icon_of_ArrowUp: "sort_icon_of cfg k = ArrowUp \<longleftrightarrow> cfg = Some (k, Asc)"
  by (auto simp: sort_icon_of_def split: option.splits if_splits sort_dir.splits)

lemma sort_icon_of_ArrowDown: "sort_icon_of cfg k = ArrowDown \<longleftrightarrow> cfg = Some (k, Desc)"
  by (cases cfg) (auto simp: sort_icon_of_def split: if_splits; case_tac b; simp)+

lemma sorted_students_Nil_iff: "sorted_students cfg q xs = [] \<longleftrightarrow> search_filter q xs = []"
  by (metis mset_js_sort mset_zero_iff sorted_students_def)

lemma auth_same_users:
  assumes "st_users s' = st_users s"
  shows "auth s' tk = auth s tk"
proof -
  have e: "find_user s' = find_user s" by (rule ext) (simp add: find_user_def assms)
  show ?thesis unfolding auth_def session_callback_def e by (rule refl)
qed

lemma update_student_valid:
  assumes "find_student s i = Some y"
    and "form_get fd ''status'' = Some (call_status_name c)" and "form_get fd ''interest'' = Some (interest_name k)"
  shows "update_student s (Some p) i fd =
     Inr (RVoid, s\<lparr>st_students := map (\<lambda>z. if s_id z = i then
        record_call c (Some k) (form_get fd ''notes'') (form_get fd ''prevCourse'') (updater_name p) z
        else z) (st_students s)\<rparr>)"
  using assms
  by (simp add: update_student_def normalize_interest_def interest_values_def student_update_found)

lemma where_uploaded_map:
  assumes "\<And>z. s_uploaded_by (g z) = s_uploaded_by z" and "y \<in> set (where_uploaded w xs)"
  shows "g y \<in> set (where_uploaded w (map g xs))"
  using assms by (auto simp: where_uploaded_def split: option.splits)

text \<open>The faculty screen's reset dialog is open only on an account whose key button was shown.\<close>

definition reset_target_ok :: "faculty_row list \<Rightarrow> faculty_ui \<Rightarrow> bool" where
  "reset_target_ok rows ui \<longleftrightarrow>
     (fu_reset_open ui \<longrightarrow> fu_selected ui \<noteq> None) \<and>
     (\<forall>f. fu_selected ui = Some f \<longrightarrow> list_ex (\<lambda>r. fr_user r = f \<and> fr_reset r) rows)"

lemma faculty_ui_step_ok:
  assumes "reset_target_ok rows ui" and "faculty_ui_step tk rows s ui e = ((m, ui'), s')"
  shows "reset_target_ok rows ui'"
  using assms
  by (cases e) (auto simp: faculty_ui_step_def reset_target_ok_def split: if_splits sum.splits)

lemma faculty_ui_run_ok:
  "reset_target_ok rows ui \<Longrightarrow> faculty_ui_run tk rows (ui, s) es = (ui', s') \<Longrightarrow> reset_target_ok rows ui'"
proof (induction es arbitrary: ui s)
  case (Cons e es)
  obtain m ui1 s1 where st: "faculty_ui_step tk rows s ui e = ((m, ui1), s1)" by (metis prod.collapse)
  show ?case using Cons.IH [OF faculty_ui_step_ok [OF Cons.prems(1) st]] Cons.prems(2) st by simp
qed simp

lemma faculty_client_row:
  assumes "faculty_client us (Some cur) = Some rows" and "list_ex (\<lambda>r. fr_user r = f \<and> fr_reset r) rows"
  shows "f \<in> set us \<and> can_manage cur f"
  using assms by (auto simp: faculty_client_def faculty_row_of_def list_ex_iff Let_def)

subsection \<open>Properties\<close>

text \<open>
  C11: whatever the user does on a rendering of the faculty screen, the
  password-reset dialog is open only for an account of the listed rows that
  \<open>canManage\<close> allowed: never the viewer's own account, and for an admin viewer
  only a faculty account; the form it submits carries that account's id.
\<close>

theorem reset_dialog_targets_manageable:
  assumes rows: "faculty_client us (Some cur) = Some rows"
    and run: "faculty_ui_run tk rows (faculty_ui_init, s) es = (ui, s')"
    and op: "fu_reset_open ui"
  shows "\<exists>f. fu_selected ui = Some f \<and> f \<in> set us \<and> can_manage cur f \<and>
           p_id cur \<noteq> Some (u_id f) \<and> (p_role cur = Some ADMIN \<longrightarrow> u_role f = FACULTY) \<and>
           (\<forall>w. reset_dialog_form ui w = reset_form f w)"
proof -
  have ok: "reset_target_ok rows ui"
    using faculty_ui_run_ok [OF _ run] by (simp add: reset_target_ok_def faculty_ui_init_def)
  then obtain f where sel: "fu_selected ui = Some f" and ex: "list_ex (\<lambda>r. fr_user r = f \<and> fr_reset r) rows"
    using op by (auto simp: reset_target_ok_def)
  have "f \<in> set us \<and> can_manage cur f" by (rule faculty_client_row [OF rows ex])
  then show ?thesis using sel by (auto simp: can_manage_iff reset_dialog_form_def reset_form_def)
qed

text \<open>
  C5: saving the update dialog with a valid status and interest shows "Student
  details saved." and reloads: the calling list is rendered afresh, newest
  first, from the store the update produced, under the same session, with the
  search and sort reset; a student the caller could see is listed again with
  the call just recorded.
\<close>

theorem save_then_reload:
  assumes a: "auth s tk = Some p" and sel: "lu_selected u = Some x" and fx: "find_student s (s_id x) = Some y"
    and st: "form_get fd ''status'' = Some (call_status_name c)"
    and it: "form_get fd ''interest'' = Some (interest_name k)"
  shows "\<exists>s' u'. list_ui_save s tk u fd = ((Some (Toast ''Updated'' ''Student details saved.'' False), Inr u'), s') \<and>
           u' = list_ui_init (order_desc s_created (where_uploaded (list_where p) (st_students s'))) \<and>
           (y \<in> set (where_uploaded (list_where p) (st_students s)) \<longrightarrow>
              record_call c (Some k) (form_get fd ''notes'') (form_get fd ''prevCourse'') (updater_name p) y
                \<in> set (lu_students u'))"
proof -
  let ?g = "\<lambda>z. if s_id z = s_id x then
        record_call c (Some k) (form_get fd ''notes'') (form_get fd ''prevCourse'') (updater_name p) z else z"
  let ?s' = "s\<lparr>st_students := map ?g (st_students s)\<rparr>"
  have upd: "update_student s (Some p) (s_id x) fd = Inr (RVoid, ?s')"
    by (rule update_student_valid [OF fx st it])
  have a': "auth ?s' tk = Some p" using a auth_same_users [of ?s' s tk] by simp
  let ?u' = "list_ui_init (order_desc s_created (where_uploaded (list_where p) (st_students ?s')))"
  have sv: "list_ui_save s tk u fd = ((Some (Toast ''Updated'' ''Student details saved.'' False), Inr ?u'), ?s')"
    using a a' sel upd by (simp add: list_ui_save_def save_call_def students_screen_def students_page_def)
  have "s_id y = s_id x" using fx by (auto simp: find_student_def dest: find_Some_prop)
  then have "?g y \<in> set (where_uploaded (list_where p) (st_students ?s'))"
    if "y \<in> set (where_uploaded (list_where p) (st_students s))"
    using where_uploaded_map [of ?g, OF _ that] by (simp add: record_call_def)
  then have "y \<in> set (where_uploaded (list_where p) (st_students s)) \<longrightarrow>
      record_call c (Some k) (form_get fd ''notes'') (form_get fd ''prevCourse'') (updater_name p) y \<in> set (lu_students ?u')"
    using \<open>s_id y = s_id x\<close> by (simp add: list_ui_init_def)
  then show ?thesis using sv by blast
qed

text \<open>
  On the calling list, whatever the user types and clicks, the header arrows
  agree with the order of the rows: at most one header shows an arrow; an up
  arrow means the rows are the stable ascending sort on that column, a down
  arrow a descending order; with no arrow the rows are in the order received.
  The table shows the No students found row exactly when the search matches
  nothing.
\<close>

theorem list_ui_view_consistent:
  assumes "u = foldl list_ui_step (list_ui_init xs) es"
  shows "(ls_interest_icon (list_ui_view u) = ArrowUpDown \<or> ls_status_icon (list_ui_view u) = ArrowUpDown) \<and>
         (\<forall>k. sort_icon_of (lu_sort u) k = ArrowUp \<longrightarrow>
            sorted_students (lu_sort u) (lu_search u) xs = sort_key (sort_value k) (search_filter (lu_search u) xs)) \<and>
         (\<forall>k. sort_icon_of (lu_sort u) k = ArrowDown \<longrightarrow>
            sorted_wrt (\<lambda>a b. sort_value k b \<le> sort_value k a) (sorted_students (lu_sort u) (lu_search u) xs)) \<and>
         ((\<forall>k. sort_icon_of (lu_sort u) k = ArrowUpDown) \<longrightarrow>
            sorted_students (lu_sort u) (lu_search u) xs = search_filter (lu_search u) xs) \<and>
         ls_body (list_ui_view u) =
           (if search_filter (lu_search u) xs = [] then NoStudents
            else TableRows (map student_cells_of (sorted_students (lu_sort u) (lu_search u) xs)))"
proof -
  have st: "lu_students u = xs" using list_ui_run_students [of "list_ui_init xs" es] assms
    by (simp add: list_ui_init_def)
  have one: "ls_interest_icon (list_ui_view u) = ArrowUpDown \<or> ls_status_icon (list_ui_view u) = ArrowUpDown"
    by (auto simp: list_ui_view_def sort_icon_of_def split: option.splits)
  have up: "sorted_students (lu_sort u) (lu_search u) xs = sort_key (sort_value k) (search_filter (lu_search u) xs)"
    if "sort_icon_of (lu_sort u) k = ArrowUp" for k
    using that unfolding sort_icon_of_ArrowUp sorted_students_def by simp (rule js_sort_asc, rule sort_cmp_asc)
  have down: "sorted_wrt (\<lambda>a b. sort_value k b \<le> sort_value k a) (sorted_students (lu_sort u) (lu_search u) xs)"
    if "sort_icon_of (lu_sort u) k = ArrowDown" for k
    using that unfolding sort_icon_of_ArrowDown sorted_students_def by simp (rule js_sort_desc_sorted, rule sort_cmp_desc)
  have none: "sorted_students (lu_sort u) (lu_search u) xs = search_filter (lu_search u) xs"
    if "\<forall>k. sort_icon_of (lu_sort u) k = ArrowUpDown"
  proof -
    have "lu_sort u = None"
    proof (cases "lu_sort u")
      case (Some c)
      then show ?thesis using that [rule_format, of "fst c"] by (cases c) (simp add: sort_icon_of_def split: if_splits)
    qed
    then show ?thesis by (simp add: sorted_students_def sort_cmp_None js_sort_zero)
  qed
  have body: "ls_body (list_ui_view u) =
      (if search_filter (lu_search u) xs = [] then NoStudents
       else TableRows (map student_cells_of (sorted_students (lu_sort u) (lu_search u) xs)))"
    using st sorted_students_Nil_iff by (simp add: list_ui_view_def calling_list_table_def Let_def)
  show ?thesis using one up down none body by blast
qed


subsection \<open>Witnesses\<close>

theorem reset_dialog_targets_manageable_witness:
  "faculty_ui_run None (map (faculty_row_of (principal_of demo_admin)) (st_users demo_store))
     (faculty_ui_init, demo_store) [ClickReset demo_super, ClickReset demo_faculty] =
     (\<lparr>fu_selected = Some demo_faculty, fu_reset_open = True\<rparr>, demo_store) \<and>
   can_manage (principal_of demo_admin) demo_faculty \<and>
   reset_dialog_form \<lparr>fu_selected = Some demo_faculty, fu_reset_open = True\<rparr> ''secret1'' =
     reset_form demo_faculty ''secret1''"
proof -
  have rows: "faculty_client (st_users demo_store) (Some (principal_of demo_admin)) =
      Some (map (faculty_row_of (principal_of demo_admin)) (st_users demo_store))"
    by (simp add: faculty_client_def)
  have run: "faculty_ui_run None (map (faculty_row_of (principal_of demo_admin)) (st_users demo_store))
     (faculty_ui_init, demo_store) [ClickReset demo_super, ClickReset demo_faculty] =
     (\<lparr>fu_selected = Some demo_faculty, fu_reset_open = True\<rparr>, demo_store)"
    by (simp add: faculty_ui_step_def faculty_ui_init_def faculty_row_of_def can_manage_iff Let_def demo_defs)
  have op: "fu_reset_open \<lparr>fu_selected = Some demo_faculty, fu_reset_open = True\<rparr>" by simp
  show ?thesis using reset_dialog_targets_manageable [OF rows run op] run by auto
qed

theorem list_ui_view_consistent_witness:
  "ls_status_icon (list_ui_view (foldl list_ui_step (list_ui_init [demo_student]) [ClickHeader CallStatus])) = ArrowUp \<and>
   sorted_students (Some (''callStatus'', Asc)) [] [demo_student] = [demo_student] \<and>
   ls_body (list_ui_view (foldl list_ui_step (list_ui_init [demo_student]) [ClickHeader CallStatus])) =
     TableRows [student_cells_of demo_student]"
proof -
  let ?u = "foldl list_ui_step (list_ui_init [demo_student]) [ClickHeader CallStatus]"
  have u: "?u = \<lparr>lu_students = [demo_student], lu_search = [], lu_selected = None, lu_sort = Some (''callStatus'', Asc)\<rparr>"
    by (simp add: list_ui_step_def list_ui_init_def handle_sort_def)
  have "sorted_students (lu_sort ?u) (lu_search ?u) [demo_student] =
      sort_key (sort_value ''callStatus'') (search_filter (lu_search ?u) [demo_student]) \<and>
      ls_body (list_ui_view ?u) =
        (if search_filter (lu_search ?u) [demo_student] = [] then NoStudents
         else TableRows (map student_cells_of (sorted_students (lu_sort ?u) (lu_search ?u) [demo_student])))"
    using list_ui_view_consistent [OF refl, of "[demo_student]" "[ClickHeader CallStatus]"] u
    by (simp add: sort_icon_of_ArrowUp)
  then show ?thesis using u by (simp add: list_ui_view_def sort_icon_of_def)
qed

theorem save_then_reload_witness:
  "auth demo_store (Some (sign_in_token demo_faculty)) = Some (principal_of demo_faculty) \<and>
   fst (list_ui_save demo_store (Some (sign_in_token demo_faculty))
     ((list_ui_init [demo_student])\<lparr>lu_selected := Some demo_student\<rparr>) demo_call_form) =
   (Some (Toast ''Updated'' ''Student details saved.'' False),
    Inr (list_ui_init [record_call INTERESTED (Some MCA) (Some ''call again'') None ''Ravi'' demo_student]))"
proof -
  have a: "auth demo_store (Some (sign_in_token demo_faculty)) = Some (principal_of demo_faculty)"
    using session_of_sign_in [OF demo_store_wf, of demo_faculty] by (simp add: jwt_callback_def demo_store_def)
  have sel: "lu_selected ((list_ui_init [demo_student])\<lparr>lu_selected := Some demo_student\<rparr>) = Some demo_student"
    by simp
  have fx: "find_student demo_store (s_id demo_student) = Some demo_student"
    by (simp add: find_student_def demo_defs)
  have st: "form_get demo_call_form ''status'' = Some (call_status_name INTERESTED)"
    and it: "form_get demo_call_form ''interest'' = Some (interest_name MCA)"
    by (simp_all add: form_get_def demo_call_form_def)
  obtain s' u' where sv: "list_ui_save demo_store (Some (sign_in_token demo_faculty))
      ((list_ui_init [demo_student])\<lparr>lu_selected := Some demo_student\<rparr>) demo_call_form =
      ((Some (Toast ''Updated'' ''Student details saved.'' False), Inr u'), s')"
    and u': "u' = list_ui_init (order_desc s_created (where_uploaded (list_where (principal_of demo_faculty)) (st_students s')))"
    and mem: "demo_student \<in> set (where_uploaded (list_where (principal_of demo_faculty)) (st_students demo_store)) \<longrightarrow>
        record_call INTERESTED (Some MCA) (form_get demo_call_form ''notes'') (form_get demo_call_form ''prevCourse'')
          (updater_name (principal_of demo_faculty)) demo_student \<in> set (lu_students u')"
    using save_then_reload [OF a sel fx st it] by blast
  have ev: "fst (list_ui_save demo_store (Some (sign_in_token demo_faculty))
      ((list_ui_init [demo_student])\<lparr>lu_selected := Some demo_student\<rparr>) demo_call_form) =
      (Some (Toast ''Updated'' ''Student details saved.'' False),
       Inr (list_ui_init [record_call INTERESTED (Some MCA) (Some ''call again'') None ''Ravi'' demo_student]))"
    by code_simp
  have "u' = list_ui_init [record_call INTERESTED (Some MCA) (Some ''call again'') None ''Ravi'' demo_student]"
    using sv ev by simp
  then show ?thesis using a sv by simp
qed

end
