(* ===== verification/Navigation.thy ===== *)
theory Navigation
  imports Screen_State
begin

text \<open>
  Navigation between the routes of the application (\<open>src/app\<close>): \<open>/login\<close>
  and the three pages under the dashboard layout. A route either renders a
  screen or answers with a redirect (\<open>redirect()\<close> of \<open>next/navigation\<close>), which
  the browser follows. The layout's redirect is taken before the page's (the
  layout is the parent of the page it wraps). Following redirects is a loop
  with no evident bound, so it is a \<open>partial_function (option)\<close>; the theorem
  below shows it always returns.
\<close>

subsection \<open>Routes\<close>

datatype screen =
    LoginScreen
  | OverviewScreen "dashboard_view option"
  | CallingListScreen "list_ui result"
  | FacultyScreen faculty_view
  | NotFoundScreen

definition dashboard_paths :: "string list" where
  "dashboard_paths = [''/dashboard'', ''/dashboard/students'', ''/dashboard/faculty'']"

text \<open>
  The response for a path under the cookie \<open>tk\<close>: the layout's redirect without
  a session, else the page inside the layout (\<open>{children}\<close>); a path the
  application does not define is not found.
\<close>

definition route :: "store \<Rightarrow> token option \<Rightarrow> string \<Rightarrow> screen page" where
  "route s tk p =
     (if p = ''/login'' then Render LoginScreen
      else if p \<in> set dashboard_paths then
        (case dashboard_layout s tk of
           Redirect q \<Rightarrow> Redirect q
         | Render _ \<Rightarrow>
             if p = ''/dashboard'' then Render (OverviewScreen (dashboard_page s (auth s tk)))
             else if p = ''/dashboard/students'' then Render (CallingListScreen (students_screen s (auth s tk)))
             else (case faculty_page s (auth s tk) of
                     Redirect q \<Rightarrow> Redirect q
                   | Render v \<Rightarrow> Render (FacultyScreen v)))
      else Render NotFoundScreen)"

text \<open>The browser follows redirects until a screen renders: the final path and screen.\<close>

partial_function (option) follow :: "store \<Rightarrow> token option \<Rightarrow> string \<Rightarrow> (string \<times> screen) option" where
  "follow s tk p = (case route s tk p of Redirect q \<Rightarrow> follow s tk q | Render v \<Rightarrow> Some (p, v))"

subsection \<open>Lemmas\<close>

lemma follow_Render: "route s tk p = Render v \<Longrightarrow> follow s tk p = Some (p, v)"
  by (subst follow.simps) simp

lemma follow_Redirect: "route s tk p = Redirect q \<Longrightarrow> follow s tk p = follow s tk q"
  by (subst follow.simps) simp

lemma route_login: "route s tk ''/login'' = Render LoginScreen"
  by (simp add: route_def)

lemma route_no_session:
  "p \<in> set dashboard_paths \<Longrightarrow> route s None p = Redirect ''/login''"
  by (auto simp: route_def dashboard_paths_def dashboard_layout_def auth_def)

lemma route_overview:
  "tk \<noteq> None \<Longrightarrow> route s tk ''/dashboard'' = Render (OverviewScreen (dashboard_page s (auth s tk)))"
  by (auto simp: route_def dashboard_paths_def dashboard_layout_def auth_def)

lemma route_session_cases:
  assumes "tk \<noteq> None" and "p \<in> set dashboard_paths"
  shows "(\<exists>v. route s tk p = Render v) \<or> (p = ''/dashboard/faculty'' \<and> route s tk p = Redirect ''/dashboard'')"
  using assms
  by (auto simp: route_def dashboard_paths_def dashboard_layout_def auth_def faculty_page_def
      split: if_splits)

subsection \<open>Properties\<close>

text \<open>
  C14: following redirects always ends, for every store, cookie and path, at
  a rendered screen after at most two redirects: at the path itself, at
  \<open>/login\<close>, or at \<open>/dashboard\<close> (a signed-in non-manager sent away from the
  faculty page). It ends at \<open>/login\<close> exactly when the path is the login
  page or a dashboard page requested without a session cookie.
\<close>

theorem follow_terminates:
  "\<exists>q v. follow s tk p = Some (q, v) \<and> route s tk q = Render v \<and>
     (q = p \<or> q = ''/login'' \<or> q = ''/dashboard'') \<and>
     (q = ''/login'' \<longleftrightarrow> p = ''/login'' \<or> (p \<in> set dashboard_paths \<and> tk = None))"
proof (cases "p = ''/login''")
  case True
  then show ?thesis using follow_Render [OF route_login] route_login by simp
next
  case nl: False
  show ?thesis
  proof (cases "p \<in> set dashboard_paths")
    case False
    then have r: "route s tk p = Render NotFoundScreen" using nl by (simp add: route_def)
    show ?thesis using follow_Render [OF r] r nl False by simp
  next
    case dp: True
    show ?thesis
    proof (cases tk)
      case None
      have "follow s tk p = Some (''/login'', LoginScreen)"
        using follow_Redirect [OF route_no_session [OF dp]] follow_Render [OF route_login] None by simp
      then show ?thesis using route_login dp None by simp
    next
      case (Some t)
      then have tk: "tk \<noteq> None" by simp
      consider v where "route s tk p = Render v"
        | "p = ''/dashboard/faculty''" and "route s tk p = Redirect ''/dashboard''"
        using route_session_cases [OF tk dp] by blast
      then show ?thesis
      proof cases
        case (1 v)
        then show ?thesis using follow_Render [OF 1] nl tk by simp
      next
        case 2
        have "follow s tk p = Some (''/dashboard'', OverviewScreen (dashboard_page s (auth s tk)))"
          using follow_Redirect [OF 2(2)] follow_Render [OF route_overview [OF tk]] by simp
        then show ?thesis using route_overview [OF tk] tk nl by simp
      qed
    qed
  qed
qed

subsection \<open>Witnesses\<close>

theorem follow_terminates_witness:
  "follow demo_store (Some (sign_in_token demo_faculty)) ''/dashboard/faculty'' =
     Some (''/dashboard'', OverviewScreen (dashboard_page demo_store (auth demo_store (Some (sign_in_token demo_faculty))))) \<and>
   follow demo_store None ''/dashboard/students'' = Some (''/login'', LoginScreen)"
proof -
  obtain q v where all: "follow demo_store (Some (sign_in_token demo_faculty)) ''/dashboard/faculty'' = Some (q, v) \<and>
      route demo_store (Some (sign_in_token demo_faculty)) q = Render v \<and>
      (q = ''/dashboard/faculty'' \<or> q = ''/login'' \<or> q = ''/dashboard'') \<and>
      (q = ''/login'' \<longleftrightarrow> ''/dashboard/faculty'' = ''/login'' \<or>
         (''/dashboard/faculty'' \<in> set dashboard_paths \<and> Some (sign_in_token demo_faculty) = None))"
    using follow_terminates [of demo_store "Some (sign_in_token demo_faculty)" "''/dashboard/faculty''"]
    by (elim exE) (erule that)
  note f = all [THEN conjunct1] and r = all [THEN conjunct2, THEN conjunct1]
    and qs = all [THEN conjunct2, THEN conjunct2, THEN conjunct1]
    and ql = all [THEN conjunct2, THEN conjunct2, THEN conjunct2]
  have a: "auth demo_store (Some (sign_in_token demo_faculty)) = Some (principal_of demo_faculty)"
    using session_of_sign_in [OF demo_store_wf, of demo_faculty] by (simp add: jwt_callback_def demo_store_def)
  have nf: "route demo_store (Some (sign_in_token demo_faculty)) ''/dashboard/faculty'' = Redirect ''/dashboard''"
    using a by (simp add: route_def dashboard_paths_def dashboard_layout_def faculty_page_def is_manager_def
        principal_of_def demo_faculty_def)
  have "q \<noteq> ''/login''" using ql by simp
  moreover have "q \<noteq> ''/dashboard/faculty''"
  proof
    assume "q = ''/dashboard/faculty''"
    then show False using r nf by simp
  qed
  ultimately have "q = ''/dashboard''" using qs by simp
  then have e1: "follow demo_store (Some (sign_in_token demo_faculty)) ''/dashboard/faculty'' =
     Some (''/dashboard'', OverviewScreen (dashboard_page demo_store (auth demo_store (Some (sign_in_token demo_faculty)))))"
    using f r route_overview [of "Some (sign_in_token demo_faculty)" demo_store] by simp
  have "''/dashboard/students'' \<in> set dashboard_paths" by (simp add: dashboard_paths_def)
  then have e2: "follow demo_store None ''/dashboard/students'' = Some (''/login'', LoginScreen)"
    using follow_Redirect [OF route_no_session] follow_Render [OF route_login] by simp
  show ?thesis using e1 e2 by simp
qed

end
