(* ===== verification/Spec2Isabelle.thy ===== *)
theory Spec2Isabelle
  imports Sessions Navigation
begin

text \<open>
  \<^bold>\<open>A verification development for the college admissions CRM.\<close>

  The program is a Next.js application (\<open>src/\<close>). Staff sign in with e-mail
  and password (\<open>src/auth.ts\<close>, next-auth with a credentials provider); every
  request rebuilds \<open>session.user\<close> from the signed token and reads the
  caller's role afresh from the database. The server actions of
  \<open>src/app/actions.ts\<close> are the only code that writes: uploading a sheet of
  prospective students, recording a call on a student, and managing staff
  accounts (create, delete, reset password, change role, change own password).
  Pages read the database directly (\<open>src/app/dashboard/**/page.tsx\<close>) and
  client components decide which buttons to show (\<open>faculty-client.tsx\<close>).
  The database is reached through Prisma; its schema is not part of \<open>src/\<close>.

  \<^bold>\<open>Theories and what they model.\<close>
  \<^item> \<open>Prelude\<close>: named collections and generic lemmas on lists searched by key,
    key-preserving maps, enumerations stored by name, and counting.
  \<^item> \<open>Js_Values\<close>: the JavaScript semantics the upload depends on: sheet cells,
    truthiness and \<open>||\<close>, \<open>String(v)\<close> (decimal rendering of integers, with its
    round trip), and \<open>trim\<close> (ASCII whitespace; idempotent).
  \<^item> \<open>Data_Model\<close>: the enumerations \<open>Role\<close>, \<open>CallStatus\<close>, \<open>Interest\<close> with the
    names the forms submit (a \<open>linorder\<close> instance orders roles by privilege),
    the \<open>User\<close> and \<open>Student\<close> rows as records, the store, the session user, form
    data, the errors the actions throw and the replies they return, and the
    example store used by the witnesses.
  \<^item> \<open>Record_Store\<close>: the Prisma operations the code calls, modelled from the
    specification (section 6): lookups by unique key, \<open>create\<close> under the unique
    e-mail, \<open>update\<close>/\<open>delete\<close> failing with \<open>RecordNotFound\<close>, \<open>createMany\<close> with
    \<open>skipDuplicates\<close> on the unique (name, phone) key, \<open>count\<close>, \<open>groupBy\<close>
    (one group per distinct value present, a missing value included; Prisma
    leaves the order of groups open and the model fixes one), \<open>orderBy createdAt
    desc\<close> (rows with equal stamps come in reverse insertion order, one of the
    orders Prisma may return). Fresh identifiers come from a counter (the model
    of \<open>cuid()\<close>), time from a clock. \<open>wf_store\<close> (unique keys, identifiers drawn
    from the counter) is kept by every primitive.
  \<^item> \<open>Auth\<close> (\<open>auth.ts\<close>): \<open>authorize\<close>, the token, the \<open>jwt\<close> and \<open>session\<close>
    callbacks and \<open>auth()\<close>. bcrypt is abstracted to the hashed password
    (\<open>compare p (hash q) \<longleftrightarrow> p = q\<close>); zod's e-mail check is a parameter.
  \<^item> \<open>Policy\<close>: the authorization decisions as the code writes them: the
    manager-role test of the actions, \<open>canManage\<close> and the role options of the
    faculty screen, the navigation rule, and the two student-visibility filters
    (calling list: only the super admin sees all; dashboard: admins too).
  \<^item> \<open>Accounts\<close>: \<open>createFaculty\<close>, \<open>deleteFaculty\<close>, \<open>adminResetPassword\<close>,
    \<open>updateUserRole\<close>, \<open>updateOwnPassword\<close>, one definition each, as
    \<open>store \<Rightarrow> principal option \<Rightarrow> form \<Rightarrow> error + (reply \<times> store)\<close>, every
    \<open>throw\<close> an \<open>Inl\<close>, every early \<open>return\<close> an \<open>Inr\<close> with the store unchanged.
  \<^item> \<open>Students\<close>: \<open>uploadStudents\<close> (the header aliases, trimming, the row
    filter, \<open>createMany\<close> with \<open>skipDuplicates\<close>), \<open>updateStudent\<close> (with the
    enumeration checks Prisma performs), the calling-list query and
    \<open>getDashboardStats\<close>.
  \<^item> \<open>System\<close>: a request is one action run under the session \<open>auth()\<close> rebuilds
    from a token and the current store; \<open>seed.ts\<close> creates the first super admin;
    \<open>reachable\<close> is the inductive set of stores reachable from the seeded empty
    store by requests with arbitrary tokens (including tokens of deleted
    accounts) and by re-running the seed.
  \<^item> \<open>Account_Policy\<close>: the access-control contract of the specification
    (sections 4.1 and 4.3) as an abstract model: operations on the account
    table (\<open>acct_op\<close>), their effect (\<open>acct_apply\<close>) and who may perform them
    (\<open>acct_allowed\<close>). The requests refine it.
  \<^item> \<open>Client_View\<close> (\<open>students/client-view.tsx\<close>): the search box
    (\<open>toLowerCase\<close>, \<open>includes\<close>), the column sort (\<open>handleSort\<close>, the
    comparator, and \<open>Array.prototype.sort\<close> as a stable insertion sort), the
    status badge, and the values the update dialog submits.
  \<^item> \<open>Pages\<close>: the dashboard layout and its navigation, the faculty page and the
    forms its client component submits, \<open>authenticate\<close> behind the login form,
    and the dashboard overview with its chart data.
  \<^item> \<open>Client_Feedback\<close>: what the screens show after an action: toasts, page
    reloads, dialog state (calling list, faculty screen, profile dialog), and
    the avatar initials.
  \<^item> \<open>Screens\<close>: what the screens render from the data they receive: the rows
    of the faculty table (\<open>isMe\<close>, \<open>canManage\<close>, the role selector or the
    badge with \<open>getRoleColor\<close>, the reset and delete controls), the account
    creation form, the cells of the calling-list table and its
    \<open>No students found\<close> row, the login form with its submit label and error
    banner, and the colours \<open>COLORS[index % COLORS.length]\<close> of the chart slices
    (\<open>dashboard-charts.tsx\<close>).
  \<^item> \<open>Invariants\<close>: properties of the whole system over \<open>reachable\<close>.
  \<^item> \<open>Sessions\<close>: clients interleaving on the shared store, each with its own
    cookie (\<open>tab\<close>): signing in through the login form, signing out (the
    profile dialog's form, wired to \<open>signOut\<close> by \<open>layout.tsx\<close>), sending server
    actions, and the profile dialog (opened from the layout, its password form
    with the browser's \<open>minLength\<close> check). \<open>tab_step\<close> is one step of one client,
    \<open>tabs_reach\<close> the inductive set of stores and clients reachable from the
    seeded store.
  \<^item> \<open>Screen_State\<close>: the client state of the two interactive screens as
    records with a step function per screen: the calling list (search text,
    sort configuration with the header arrows, the student whose dialog is
    open) and the faculty screen (the account selected for a reset, whether
    the reset dialog is open, and its submission under the cookie on the
    current store); saving the update dialog followed by the page reload,
    which renders the screen afresh from \<open>StudentsPage\<close>.
  \<^item> \<open>Navigation\<close>: the routes of \<open>src/app\<close> (\<open>route\<close>: the layout's
    redirect, then the page inside it) and the browser following redirects
    (\<open>follow\<close>, a \<open>partial_function (option)\<close>, \<open>None\<close> meaning a redirect loop).

  \<^bold>\<open>What is proved.\<close>
  Accounts (C1--C4, C6--C8): deletion happens exactly when \<open>canManage\<close> offers it (a
  refinement of the screen's rule by the server); the behaviour of self-deletion,
  of password resets on every branch and of short passwords;
  role changes only by a super admin on another account; new accounts are
  always faculty; changing one's own password touches only one's own row.
  Students (C9, C10, C12, C13, C15, C16): the effect of an upload (owners, keys,
  no duplicates), its idempotence, the failure reply exactly for a sheet
  with no valid row, updates
  by any signed-in user, the frame of an update, and the list/dashboard asymmetry for admins.
  Screens (C18, C19, C31): the chart palette bounds (at most six status and seven
  interest slices, the seventh bound resting on the query's exclusion of a
  missing interest, each slice with its own colour, interest slices within the
  total);
  the calling list shows the students the visibility filter selects, newest
  first, one table row each; the faculty table has one row per account, newest
  first, with reset, delete and the role selector exactly where \<open>canManage\<close>
  allows, never on the viewer's own row, and only on faculty rows for an admin.
  System (C20, C25, C26), by rule induction over \<open>reachable\<close> or over one
  request: well-formedness and the existence of a super admin, students and their
  owners are never lost or changed, and a deleted account's token can still
  upload. From the account contract (C22--C24, C39): an admin never alters
  another admin or super admin, non-managers only change their own password,
  role changes need a super admin; and the account table changes exactly as
  the contract permits (every request is a permitted operation, and every
  permitted operation on an existing account is performed by some request).
  Pages (C27--C30, C32): every action the faculty screen offers is carried out (an
  admin's role change excepted, which the server refuses); the navigation shows
  the faculty link exactly when the faculty page renders; sign-in succeeds
  exactly on matching credentials and yields the account's session, and a
  rejected sign-in always reads "Invalid credentials."; the overview cards.
  Navigation (C14): following redirects terminates on every route, for every
  store and cookie, after at most two redirects, and lands on the login page
  exactly when a dashboard page is requested without a session.
  Calling list (C33--C35, C38): ascending sort equals the library's stable
  \<open>sort_key\<close>, descending sort is a stable permutation ordered from greatest to
  least, the search narrows as the user types (an empty box shows every student;
  a longer query only removes rows, by \<open>Sublist.sublist\<close>), and saving the
  dialog unchanged records the interest OTHER.
  Sessions (C17, C21): signing out clears the cookie without writing, and a
  signed-out tab changes nothing and opens no profile dialog until it signs in
  again; a super admin's demotion of an account takes effect at
  once in that account's open sessions, since the cookie carries no role.
  Screen state (C5, C11): saving the update dialog reloads the calling list from
  the updated store under the same session, so a student the caller sees is
  listed again with the call just recorded; whatever the user clicks, the
  faculty screen's reset dialog is open only for a listed account that \<open>canManage\<close> allowed, and
  its form carries that account's id. On the calling list the header arrows
  always agree with the order of the rows (a theorem without a claim id).
  Whole system (C36, C37, C40): every student row of a reachable store is
  well-typed (non-empty trimmed name and phone, owner id); staff can always be
  added; the upload reports success even when nothing was inserted.
  Several of these record where the code departs from the specification:
  self-deletion errors for admins and faculty (C2), short passwords get
  \<open>Forbidden\<close> for non-managers (C4), updates have no ownership check (C13),
  deleted accounts keep write access to students (C26), the admin's role
  selector is refused by the server (C27), the dialog's OTHER default (C38),
  the upload's success message for an all-duplicate sheet (C40).
  Further theorems without a claim id support these: every interleaving of
  clients is a run of single requests (a simulation over \<open>tabs_reach\<close>); the dead \<open>"OTHER"\<close>
  guard of \<open>updateStudent\<close>, the specification's upload example, a missing target for delete and for reset, the dashboard total of a
  faculty member, the group totals of the dashboard, and the faculty page's
  account list.

  \<^bold>\<open>Bounds and evaluation.\<close> Every recursion of the program's code is structural
  (lists of rows, users, students; decimal digits by \<open>fun\<close> on \<open>n div 10\<close>), so
  no fuel is needed. The one loop without an evident bound is the browser
  following redirects: it is a \<open>partial_function (option)\<close>, and C14 proves that it
  returns (at most two redirects) on every input. All definitions are executable;
  witnesses evaluate them on the example store by \<open>simp\<close> or \<open>code_simp\<close>.

  \<^bold>\<open>Not modelled.\<close> Markup, styling and charts' rendering; the XLSX reader
  (its output rows are the input of the upload); next-auth's \<open>signIn\<close> and
  \<open>signOut\<close> internals beyond their outcome, and cookies (a client holds one
  token); failures of the database, the only way \<open>authorize\<close> could throw, so
  the \<open>"Something went wrong."\<close> branch of \<open>authenticate\<close> is modelled but
  unreachable; the page a successful sign-in redirects to (chosen by next-auth
  and \<open>auth.config\<close>, which is not under \<open>src/\<close>); the order in which Next.js
  renders a layout and its page (the layout's redirect is taken first);
  \<open>revalidatePath\<close> (cache refresh) and the reload after an upload (recorded as
  a flag; the reload after saving a call is modelled); bcrypt's salt and cost; JavaScript
  numbers that are not integers; Unicode in \<open>trim\<close>, \<open>toLowerCase\<close> and
  \<open>toUpperCase\<close> (ASCII only); password length in characters of the model's
  strings rather than UTF-16 units; the e-mail shown in the profile dialog
  (the modelled token carries no e-mail). The Prisma schema is not in
  \<open>src/\<close>: the unique keys and enumerations are taken from the specification.
  No claim concerns machine integers: the program does no fixed-width
  arithmetic. The one bound the code depends on is the palette of seven colours indexed modulo its length
  (C18): the enumerations have six call statuses and seven interests, so no
  chart wraps around the palette.

  \<^bold>\<open>Plan for later work.\<close> The completeness half of the account contract for
  account creation (it depends on the e-mail being unused); tabs of one
  browser sharing one cookie jar; the sort over keys other than the
  two the screen offers.
\<close>

end
